theory Spec2Isabelle
  imports Complex_Main "HOL-Library.Word" "HOL-Library.Multiset"
begin

chapter \<open>Particle demos: pool, integrator, projector, compositor, batch builder\<close>

text \<open>
  The repository is a set of standalone Go programs, each with its own \<open>Particle\<close>,
  \<open>Game\<close>, \<open>update\<close> and \<open>Draw\<close>. Each program that is verified below is embedded in a
  section of its own, and the names of a program carry a suffix that tells the programs
  apart:
  \<^item> \<open>_sf\<close>: the smoke and fire demo with a pre-filled pool of 10000 particles, two
    blend-mode batches and a click-triggered explosion (\<open>src/unnamed/part_000\<close>);
  \<^item> \<open>_smoke\<close>: the single-batch smoke demo with a lazily grown pool (\<open>src/smoke.main.go\<close>);
  \<^item> \<open>_show\<close>: the concert show with fire and ember kinds (first program of
    \<open>src/amazing.main.go\<close>);
  \<^item> \<open>_bub\<close>: the projected bubble cloud (\<open>src/bubbles.main.go\<close>);
  \<^item> \<open>_ds\<close>: the depth-sorted smoke cloud (first program of \<open>src/unnamed/part_001\<close>);
  \<^item> the rigid-body ball pit with its \<open>Vector\<close> (second program of \<open>src/unnamed/part_001\<close>).

  Conventions of the embedding.
  \<^item> Go's \<open>float64\<close> and \<open>float32\<close> are idealised as \<open>real\<close>: rounding, overflow to
    infinity and NaN are outside the model, and a conversion between the two widths is the
    identity.
  \<^item> Go's \<open>int\<close> is 64 bits wide. It is an \<open>int\<close> here, and every increment of the
    source is wrapped by \<open>wrap64\<close>, so that a theorem about a counter has to show that
    the counter stays in range.
  \<^item> \<open>uint16\<close> and \<open>uint8\<close> are \<open>16 word\<close> and \<open>8 word\<close>.
  \<^item> A slice of pointers \<open>[]*Particle\<close> whose pointers are pairwise distinct and are
    reached only through the slice is a list of records; a \<open>*Particle\<close> returned by
    \<open>allocateParticle\<close> is the index of the slot, \<open>nil\<close> is \<open>None\<close>.
  \<^item> The random source is a state that is threaded through every function that draws
    from it.
\<close>

section \<open>Machine integers and the random source\<close>

definition wrap64 :: "int \<Rightarrow> int" where
  "wrap64 i = (i + 2 ^ 63) mod 2 ^ 64 - 2 ^ 63"

definition in_int64 :: "int \<Rightarrow> bool" where
  "in_int64 i = (- (2 ^ 63) \<le> i \<and> i < 2 ^ 63)"

text \<open>Go's \<open>%\<close> truncates towards zero; the callers below guard the divisor.\<close>

definition go_rem :: "int \<Rightarrow> int \<Rightarrow> int" where
  "go_rem a b = sgn a * (\<bar>a\<bar> mod \<bar>b\<bar>)"

text \<open>
  \<open>math/rand\<close> is a library; the model keeps what its documentation promises.
  The source of randomness is an arbitrary sequence of raw draws and a cursor into it:
  \<open>rand.Intn(n)\<close> is a value of \<open>[0, n)\<close> and \<open>rand.Float64()\<close> one of \<open>[0, 1)\<close>, a
  multiple of \<open>2\<^sup>-\<^sup>5\<^sup>3\<close>. A theorem that holds for every sequence of draws holds for
  every run.
\<close>

record rng =
  draws :: "nat \<Rightarrow> nat"
  cursor :: nat

definition rand_Intn :: "nat \<Rightarrow> rng \<Rightarrow> int \<times> rng" where
  "rand_Intn n r = (int (draws r (cursor r) mod n), r\<lparr>cursor := Suc (cursor r)\<rparr>)"

definition rand_Float64 :: "rng \<Rightarrow> real \<times> rng" where
  "rand_Float64 r =
     (real (draws r (cursor r) mod 2 ^ 53) / 2 ^ 53, r\<lparr>cursor := Suc (cursor r)\<rparr>)"

section \<open>The toolkit's vertex and affine transform\<close>

text \<open>\<open>ebiten.Vertex\<close>: destination, texture coordinate and colour scale of one corner.\<close>

record Vertex =
  DstX :: real
  DstY :: real
  SrcX :: real
  SrcY :: real
  ColorR :: real
  ColorG :: real
  ColorB :: real
  ColorA :: real

text \<open>
  \<open>ebiten.GeoM\<close> is the affine map \<open>(u, v) \<mapsto> (a u + b v + tx, c u + d v + ty)\<close>; its zero
  value is the identity and each operation composes on the left, as the toolkit
  documents.
\<close>

record GeoM =
  ga :: real
  gb :: real
  gc :: real
  gd :: real
  gtx :: real
  gty :: real

definition GeoM_identity :: GeoM where
  "GeoM_identity = \<lparr>ga = 1, gb = 0, gc = 0, gd = 1, gtx = 0, gty = 0\<rparr>"

definition GeoM_Translate :: "real \<Rightarrow> real \<Rightarrow> GeoM \<Rightarrow> GeoM" where
  "GeoM_Translate dx dy m = m\<lparr>gtx := gtx m + dx, gty := gty m + dy\<rparr>"

definition GeoM_Scale :: "real \<Rightarrow> real \<Rightarrow> GeoM \<Rightarrow> GeoM" where
  "GeoM_Scale sx sy m =
     \<lparr>ga = ga m * sx, gb = gb m * sx, gc = gc m * sy, gd = gd m * sy,
      gtx = gtx m * sx, gty = gty m * sy\<rparr>"

definition GeoM_Rotate :: "real \<Rightarrow> GeoM \<Rightarrow> GeoM" where
  "GeoM_Rotate theta m =
     \<lparr>ga = cos theta * ga m - sin theta * gc m,
      gb = cos theta * gb m - sin theta * gd m,
      gc = sin theta * ga m + cos theta * gc m,
      gd = sin theta * gb m + cos theta * gd m,
      gtx = cos theta * gtx m - sin theta * gty m,
      gty = sin theta * gtx m + cos theta * gty m\<rparr>"

definition GeoM_Apply :: "GeoM \<Rightarrow> real \<Rightarrow> real \<Rightarrow> real \<times> real" where
  "GeoM_Apply m u v = (ga m * u + gb m * v + gtx m, gc m * u + gd m * v + gty m)"

text \<open>The six indices of a quad whose first vertex is \<open>vIndex\<close>: two triangles.\<close>

definition quadIndices :: "16 word \<Rightarrow> 16 word list" where
  "quadIndices vIndex = [vIndex, vIndex + 1, vIndex + 2, vIndex + 1, vIndex + 3, vIndex + 2]"

section \<open>Smoke and fire with a pre-filled pool (src/unnamed/part_000)\<close>

definition screenWidth_sf :: real where "screenWidth_sf = 640"
definition screenHeight_sf :: real where "screenHeight_sf = 480"
definition maxParticles_sf :: nat where "maxParticles_sf = 10000"

datatype ParticleType = TypeSmoke | TypeFire

record RGBA =
  R :: "8 word"
  G :: "8 word"
  B :: "8 word"
  A :: "8 word"

record Particle_sf =
  x_sf :: real
  y_sf :: real
  vx_sf :: real
  vy_sf :: real
  lifetime_sf :: int
  maxLife_sf :: int
  baseScale_sf :: real
  angle_sf :: real
  angularVelocity_sf :: real
  col_sf :: RGBA
  pType_sf :: ParticleType
  active_sf :: bool

text \<open>The zero value \<open>Particle{}\<close>, and \<open>&Particle{active: false}\<close> with it.\<close>

definition zeroParticle_sf :: Particle_sf where
  "zeroParticle_sf =
     \<lparr>x_sf = 0, y_sf = 0, vx_sf = 0, vy_sf = 0, lifetime_sf = 0, maxLife_sf = 0,
      baseScale_sf = 0, angle_sf = 0, angularVelocity_sf = 0,
      col_sf = \<lparr>R = 0, G = 0, B = 0, A = 0\<rparr>, pType_sf = TypeSmoke, active_sf = False\<rparr>"

text \<open>
  \<open>Particle.update\<close>: nothing for an inactive particle; the age is incremented first, and
  a particle whose age has reached its lifespan is deactivated and returns before it is
  moved; otherwise position, angle and the vertical velocity advance.
\<close>

definition update_sf :: "Particle_sf \<Rightarrow> Particle_sf" where
  "update_sf p =
     (if \<not> active_sf p then p
      else
        let p1 = p\<lparr>lifetime_sf := wrap64 (lifetime_sf p + 1)\<rparr> in
        if lifetime_sf p1 \<ge> maxLife_sf p1 then p1\<lparr>active_sf := False\<rparr>
        else
          let p2 = p1\<lparr>x_sf := x_sf p1 + vx_sf p1\<rparr>;
              p3 = p2\<lparr>y_sf := y_sf p2 + vy_sf p2\<rparr>;
              p4 = p3\<lparr>angle_sf := angle_sf p3 + angularVelocity_sf p3\<rparr>
          in p4\<lparr>vy_sf := vy_sf p4 + 0.05\<rparr>)"

record Emitter_sf =
  ex_sf :: real
  ey_sf :: real
  rate_sf :: int
  eType_sf :: ParticleType
  counter_sf :: int

text \<open>
  \<open>newParticle\<close>. The fields of the composite literal are evaluated in the order they are
  written, then the branch of the kind draws its own values. \<open>lifetime\<close> is not
  mentioned by the literal and is zero.
\<close>

definition newParticle_sf :: "real \<Rightarrow> real \<Rightarrow> ParticleType \<Rightarrow> rng \<Rightarrow> Particle_sf \<times> rng" where
  "newParticle_sf emitterX emitterY pType r0 =
     (let (u1, r1) = rand_Float64 r0;
          (u2, r2) = rand_Float64 r1;
          (u3, r3) = rand_Float64 r2;
          (u4, r4) = rand_Float64 r3;
          p = zeroParticle_sf\<lparr>active_sf := True, pType_sf := pType,
                x_sf := emitterX + u1 * 4 - 2, y_sf := emitterY + u2 * 4 - 2,
                angle_sf := u3 * 2 * pi, angularVelocity_sf := (u4 * 2 - 1) * 0.05\<rparr>
      in case pType of
        TypeSmoke \<Rightarrow>
          let (n1, r5) = rand_Intn 60 r4;
              (u5, r6) = rand_Float64 r5;
              ang = u5 * pi / 3 + pi / 2;
              (u6, r7) = rand_Float64 r6;
              speed = u6 * 0.4 + 0.1;
              (c1, r8) = rand_Intn 63 r7;
              (c2, r9) = rand_Intn 63 r8;
              (c3, r10) = rand_Intn 63 r9;
              (u7, r11) = rand_Float64 r10
          in (p\<lparr>maxLife_sf := n1 + 240,
                 vx_sf := cos ang * speed, vy_sf := sin ang * speed - 1,
                 col_sf := \<lparr>R = word_of_int (192 + c1), G = word_of_int (192 + c2),
                            B = word_of_int (192 + c3), A = 255\<rparr>,
                 baseScale_sf := u7 * 0.1 + 0.3\<rparr>, r11)
      | TypeFire \<Rightarrow>
          let (n1, r5) = rand_Intn 30 r4;
              (u5, r6) = rand_Float64 r5;
              (n2, r7) = rand_Intn 2 r6;
              ang = (if n2 = 0 then - (u5 * pi / 4) else u5 * pi / 4) + pi / 2;
              (u6, r8) = rand_Float64 r7;
              speed = u6 * 1.5 + 1;
              (u7, r9) = rand_Float64 r8
          in (p\<lparr>maxLife_sf := n1 + 45,
                 vx_sf := cos ang * speed * 0.5, vy_sf := sin ang * speed * 2,
                 col_sf := \<lparr>R = 255, G = 144, B = 0, A = 255\<rparr>,
                 baseScale_sf := u7 * 0.05 + 0.15\<rparr>, r9))"

record Game_sf =
  particles_sf :: "Particle_sf list"
  emitters_sf :: "Emitter_sf list"
  smokeVertices_sf :: "Vertex list"
  fireVertices_sf :: "Vertex list"
  smokeIndices_sf :: "16 word list"
  fireIndices_sf :: "16 word list"

text \<open>
  \<open>NewGame\<close>: the pool is filled with \<open>maxParticles\<close> inactive particles, and one smoke
  emitter stands at the bottom centre.
\<close>

definition NewGame_sf :: Game_sf where
  "NewGame_sf =
     \<lparr>particles_sf = replicate maxParticles_sf zeroParticle_sf,
      emitters_sf = [\<lparr>ex_sf = screenWidth_sf / 2, ey_sf = screenHeight_sf - 50,
                       rate_sf = 3, eType_sf = TypeSmoke, counter_sf = 0\<rparr>],
      smokeVertices_sf = [], fireVertices_sf = [],
      smokeIndices_sf = [], fireIndices_sf = []\<rparr>"

text \<open>
  \<open>allocateParticle\<close> scans the pool from the front and returns the first inactive
  particle, or \<open>nil\<close> when there is none.
\<close>

fun allocateScan_sf :: "Particle_sf list \<Rightarrow> nat \<Rightarrow> nat option" where
  "allocateScan_sf [] i = None"
| "allocateScan_sf (p # ps) i = (if \<not> active_sf p then Some i else allocateScan_sf ps (Suc i))"

definition allocateParticle_sf :: "Game_sf \<Rightarrow> nat option" where
  "allocateParticle_sf g = allocateScan_sf (particles_sf g) 0"

text \<open>\<open>*p = v\<close> for the pointer to slot \<open>k\<close>.\<close>

definition store_sf :: "nat \<Rightarrow> Particle_sf \<Rightarrow> Game_sf \<Rightarrow> Game_sf" where
  "store_sf k v g = g\<lparr>particles_sf := (particles_sf g)[k := v]\<rparr>"

text \<open>
  \<open>Emitter.spawn\<close>. The body of its loop does not read the loop variable, so the
  recursion is on the number of iterations that are left. A particle is constructed, and
  the random source advanced, only when a slot was found.
\<close>

fun spawnLoop_sf :: "nat \<Rightarrow> Emitter_sf \<Rightarrow> rng \<Rightarrow> Game_sf \<Rightarrow> rng \<times> Game_sf" where
  "spawnLoop_sf 0 e r g = (r, g)"
| "spawnLoop_sf (Suc n) e r g =
     (case allocateParticle_sf g of
        Some k \<Rightarrow>
          (let (p, r') = newParticle_sf (ex_sf e) (ey_sf e) (eType_sf e) r
           in spawnLoop_sf n e r' (store_sf k p g))
      | None \<Rightarrow> spawnLoop_sf n e r g)"

definition spawn_sf :: "Emitter_sf \<Rightarrow> rng \<Rightarrow> Game_sf \<Rightarrow> Emitter_sf \<times> rng \<times> Game_sf" where
  "spawn_sf e r g =
     (let e1 = e\<lparr>counter_sf := wrap64 (counter_sf e + 1)\<rparr>;
          e2 = (if rate_sf e1 \<le> 0 then e1\<lparr>rate_sf := 1\<rparr> else e1)
      in if go_rem (counter_sf e2) (rate_sf e2) \<noteq> 0 then (e2, r, g)
         else (let (r', g') = spawnLoop_sf 2 e2 r g in (e2, r', g')))"

text \<open>
  \<open>spawnExplosion\<close>: up to 500 fire particles with a blast velocity; the loop breaks at
  the first \<open>nil\<close>. \<open>spawnExplosionLoop_sf n\<close> is the loop with \<open>n\<close> iterations left.
\<close>

fun spawnExplosionLoop_sf :: "nat \<Rightarrow> real \<Rightarrow> real \<Rightarrow> rng \<Rightarrow> Game_sf \<Rightarrow> rng \<times> Game_sf" where
  "spawnExplosionLoop_sf 0 ex ey r g = (r, g)"
| "spawnExplosionLoop_sf (Suc n) ex ey r g =
     (case allocateParticle_sf g of
        Some k \<Rightarrow>
          (let (p, r1) = newParticle_sf ex ey TypeFire r;
               (u1, r2) = rand_Float64 r1;
               blastAngle = u1 * 2 * pi;
               (u2, r3) = rand_Float64 r2;
               blastSpeed = u2 * 7 + 3;
               p' = p\<lparr>vx_sf := cos blastAngle * blastSpeed, vy_sf := sin blastAngle * blastSpeed\<rparr>
           in spawnExplosionLoop_sf n ex ey r3 (store_sf k p' g))
      | None \<Rightarrow> (r, g))"

definition spawnExplosion_sf :: "real \<Rightarrow> real \<Rightarrow> rng \<Rightarrow> Game_sf \<Rightarrow> rng \<times> Game_sf" where
  "spawnExplosion_sf ex ey r g = spawnExplosionLoop_sf 500 ex ey r g"

text \<open>
  \<open>Game.Update\<close>. The pointer input is a parameter: \<open>Some (mx, my)\<close> when the left button
  was pressed on this tick. Each emitter is a pointer and is updated in place.
  \<open>spawnPhase_sf\<close> is the first half of \<open>Update\<close>, the explosion and the emitters; the
  state it returns is the one the integration loop starts from.
\<close>

fun spawnEmitters_sf :: "Emitter_sf list \<Rightarrow> rng \<Rightarrow> Game_sf \<Rightarrow> Emitter_sf list \<times> rng \<times> Game_sf" where
  "spawnEmitters_sf [] r g = ([], r, g)"
| "spawnEmitters_sf (e # es) r g =
     (let (e', r', g') = spawn_sf e r g;
          (es', r'', g'') = spawnEmitters_sf es r' g'
      in (e' # es', r'', g''))"

definition outOfBounds_sf :: "Particle_sf \<Rightarrow> bool" where
  "outOfBounds_sf p =
     (x_sf p < - 100 \<or> x_sf p > screenWidth_sf + 100 \<or>
      y_sf p < - 200 \<or> y_sf p > screenHeight_sf + 200)"

definition tick_sf :: "Particle_sf \<Rightarrow> Particle_sf" where
  "tick_sf p =
     (if active_sf p then
        (let p' = update_sf p in if outOfBounds_sf p' then p'\<lparr>active_sf := False\<rparr> else p')
      else p)"

definition spawnPhase_sf :: "(int \<times> int) option \<Rightarrow> rng \<Rightarrow> Game_sf \<Rightarrow> rng \<times> Game_sf" where
  "spawnPhase_sf click r g =
     (let (r1, g1) =
            (case click of
               Some (mx, my) \<Rightarrow> spawnExplosion_sf (real_of_int mx) (real_of_int my) r g
             | None \<Rightarrow> (r, g));
          (es, r2, g2) = spawnEmitters_sf (emitters_sf g1) r1 g1
      in (r2, g2\<lparr>emitters_sf := es\<rparr>))"

definition Update_sf :: "(int \<times> int) option \<Rightarrow> rng \<Rightarrow> Game_sf \<Rightarrow> rng \<times> Game_sf" where
  "Update_sf click r g =
     (let (r2, g3) = spawnPhase_sf click r g
      in (r2, g3\<lparr>particles_sf := map tick_sf (particles_sf g3)\<rparr>))"

definition activeCount_sf :: "Game_sf \<Rightarrow> nat" where
  "activeCount_sf g = length (filter active_sf (particles_sf g))"

definition freeCount_sf :: "Game_sf \<Rightarrow> nat" where
  "freeCount_sf g = length (filter (\<lambda>p. \<not> active_sf p) (particles_sf g))"

text \<open>
  \<open>Game.Draw\<close>. The texture's width and height (\<open>smokeImageW\<close>, \<open>smokeImageH\<close>) are set once
  at start-up and are parameters here. The four corners of the quad are pushed through the
  particle's transform; the colour is multiplied by the fade \<open>alpha\<close>.
\<close>

definition cornerVertices ::
    "GeoM \<Rightarrow> real \<Rightarrow> real \<Rightarrow> real \<Rightarrow> real \<Rightarrow> real \<Rightarrow> real \<Rightarrow> Vertex list" where
  "cornerVertices geo tw th cr cg cb ca =
     map (\<lambda>(dx, dy, sx, sy).
            let (vx, vy) = GeoM_Apply geo dx dy
            in \<lparr>DstX = vx, DstY = vy, SrcX = sx, SrcY = sy,
                ColorR = cr, ColorG = cg, ColorB = cb, ColorA = ca\<rparr>)
         [(0, 0, 0, 0), (0, th, 0, th), (tw, 0, tw, 0), (tw, th, tw, th)]"

definition particleGeoM :: "real \<Rightarrow> real \<Rightarrow> real \<Rightarrow> real \<Rightarrow> real \<Rightarrow> real \<Rightarrow> GeoM" where
  "particleGeoM tw th ang scale px py =
     GeoM_Translate px py
       (GeoM_Scale scale scale
          (GeoM_Rotate ang
             (GeoM_Translate (- (tw / 2)) (- (th / 2)) GeoM_identity)))"

text \<open>\<open>rate\<close>, the local of \<open>Draw\<close>: the share of the lifespan that has passed.\<close>

definition drawRate_sf :: "Particle_sf \<Rightarrow> real" where
  "drawRate_sf p = real_of_int (lifetime_sf p) / real_of_int (maxLife_sf p)"

definition alpha_sf :: "Particle_sf \<Rightarrow> real" where
  "alpha_sf p =
     (if pType_sf p = TypeFire then 1 - (drawRate_sf p) ^ 2
      else if drawRate_sf p < 0.2 then drawRate_sf p / 0.2
      else if drawRate_sf p > 0.8 then (1 - drawRate_sf p) / 0.2
      else 1)"

definition quad_sf :: "real \<Rightarrow> real \<Rightarrow> Particle_sf \<Rightarrow> Vertex list" where
  "quad_sf tw th p =
     (let scale = baseScale_sf p * (1 + 1 * drawRate_sf p);
          alpha = alpha_sf p;
          cr = real (unat (R (col_sf p))) / 255 * alpha;
          cg = real (unat (G (col_sf p))) / 255 * alpha;
          cb = real (unat (B (col_sf p))) / 255 * alpha
      in cornerVertices (particleGeoM tw th (angle_sf p) scale (x_sf p) (y_sf p))
           tw th cr cg cb alpha)"

text \<open>
  The loop over the pool carries the two running vertex counts, \<open>fireVertexCount\<close> and
  \<open>smokeVertexCount\<close>, beside the game whose buffers it extends.
\<close>

fun drawLoop_sf ::
    "real \<Rightarrow> real \<Rightarrow> Particle_sf list \<Rightarrow> int \<times> int \<times> Game_sf \<Rightarrow> int \<times> int \<times> Game_sf" where
  "drawLoop_sf tw th [] st = st"
| "drawLoop_sf tw th (p # ps) (fc, sc, g) =
     (if \<not> active_sf p then drawLoop_sf tw th ps (fc, sc, g)
      else if pType_sf p = TypeFire then
        drawLoop_sf tw th ps
          (wrap64 (fc + 4), sc,
           g\<lparr>fireVertices_sf := fireVertices_sf g @ quad_sf tw th p,
             fireIndices_sf := fireIndices_sf g @ quadIndices (word_of_int fc)\<rparr>)
      else
        drawLoop_sf tw th ps
          (fc, wrap64 (sc + 4),
           g\<lparr>smokeVertices_sf := smokeVertices_sf g @ quad_sf tw th p,
             smokeIndices_sf := smokeIndices_sf g @ quadIndices (word_of_int sc)\<rparr>))"

definition Draw_sf :: "real \<Rightarrow> real \<Rightarrow> Game_sf \<Rightarrow> Game_sf" where
  "Draw_sf tw th g =
     (let g0 = g\<lparr>smokeVertices_sf := [], fireVertices_sf := [],
                 smokeIndices_sf := [], fireIndices_sf := []\<rparr>
      in snd (snd (drawLoop_sf tw th (particles_sf g0) (0, 0, g0))))"

text \<open>
  The states of a run: \<open>NewGame\<close>, then any sequence of \<open>Update\<close> and \<open>Draw\<close> calls, with
  any pointer input and any random draws.
\<close>

inductive reachable_sf :: "Game_sf \<Rightarrow> bool" where
  reachable_NewGame_sf: "reachable_sf NewGame_sf"
| reachable_Update_sf: "reachable_sf g \<Longrightarrow> reachable_sf (snd (Update_sf click r g))"
| reachable_Draw_sf: "reachable_sf g \<Longrightarrow> reachable_sf (Draw_sf tw th g)"

text \<open>
  The invariant of the pool: it has exactly \<open>maxParticles\<close> slots, and every active
  particle is younger than its lifespan, which is one that \<open>newParticle\<close> can draw.
\<close>

definition lifeInv_sf :: "Particle_sf \<Rightarrow> bool" where
  "lifeInv_sf p =
     (active_sf p \<longrightarrow> 0 \<le> lifetime_sf p \<and> lifetime_sf p < maxLife_sf p \<and> maxLife_sf p < 300)"

definition poolInv_sf :: "Game_sf \<Rightarrow> bool" where
  "poolInv_sf g =
     (length (particles_sf g) = maxParticles_sf \<and> list_all lifeInv_sf (particles_sf g))"

section \<open>The concert show: fire and embers (first program of src/amazing.main.go)\<close>

definition screenWidth_show :: real where "screenWidth_show = 1280"
definition screenHeight_show :: real where "screenHeight_show = 720"
definition maxParticles_show :: nat where "maxParticles_show = 14000"
definition maxVertices_show :: nat where "maxVertices_show = maxParticles_show * 4"
definition maxIndices_show :: nat where "maxIndices_show = maxParticles_show * 6"

datatype PKind = KindFire | KindEmber

record Particle_show =
  x_show :: real
  y_show :: real
  z_show :: real
  vx_show :: real
  vy_show :: real
  vz_show :: real
  lifetime_show :: int
  maxLife_show :: int
  baseScale_show :: real
  angle_show :: real
  angularVelocity_show :: real
  kind_show :: PKind
  active_show :: bool

text \<open>
  \<open>Particle.update\<close>, statement by statement. The age comes first; a particle whose age
  has reached its lifespan is deactivated and the function returns. Then the position, then
  the angle, then the forces of the kind; an ember draws one random number.
\<close>

definition update_show :: "Particle_show \<Rightarrow> rng \<Rightarrow> Particle_show \<times> rng" where
  "update_show p r =
     (if \<not> active_show p then (p, r)
      else
        let p1 = p\<lparr>lifetime_show := wrap64 (lifetime_show p + 1)\<rparr> in
        if lifetime_show p1 \<ge> maxLife_show p1 then (p1\<lparr>active_show := False\<rparr>, r)
        else
          let p2 = p1\<lparr>x_show := x_show p1 + vx_show p1\<rparr>;
              p3 = p2\<lparr>y_show := y_show p2 + vy_show p2\<rparr>;
              p4 = p3\<lparr>z_show := z_show p3 + vz_show p3\<rparr>;
              p5 = p4\<lparr>angle_show := angle_show p4 + angularVelocity_show p4\<rparr>
          in if kind_show p5 = KindFire then
               let p6 = p5\<lparr>vy_show := vy_show p5 - 0.015\<rparr>;
                   p7 = p6\<lparr>vx_show := vx_show p6 * 0.998\<rparr>;
                   p8 = p7\<lparr>vy_show := vy_show p7 * 0.999\<rparr>
               in (p8\<lparr>vz_show := vz_show p8 * 0.994\<rparr>, r)
             else
               let p6 = p5\<lparr>vy_show := vy_show p5 - 0.01\<rparr>;
                   (u, r') = rand_Float64 r;
                   p7 = p6\<lparr>vx_show := vx_show p6 + (u * 2 - 1) * 0.02\<rparr>
               in (p7\<lparr>vz_show := vz_show p7 * 0.995\<rparr>, r'))"

text \<open>The body of the particle loop of \<open>Game.Update\<close>: the update, then the margin.\<close>

definition outOfBounds_show :: "Particle_show \<Rightarrow> bool" where
  "outOfBounds_show p =
     (x_show p < - 200 \<or> x_show p > screenWidth_show + 200 \<or>
      y_show p < - 300 \<or> y_show p > screenHeight_show + 400)"

definition tick_show :: "Particle_show \<Rightarrow> rng \<Rightarrow> Particle_show \<times> rng" where
  "tick_show p r =
     (if active_show p then
        (let (p', r') = update_show p r
         in if outOfBounds_show p' then (p'\<lparr>active_show := False\<rparr>, r') else (p', r'))
      else (p, r))"

subsection \<open>The integrator in the order of the specification\<close>

text \<open>
  The integrator as section 4.3 of the specification words it: advance the position by the
  velocity, apply the forces of the kind, advance the rotation, increment the age, and
  then deactivate the particle if its age has reached its lifespan.
\<close>

definition advancePosition_show :: "Particle_show \<Rightarrow> Particle_show" where
  "advancePosition_show p =
     p\<lparr>x_show := x_show p + vx_show p, y_show := y_show p + vy_show p,
       z_show := z_show p + vz_show p\<rparr>"

definition applyForces_show :: "Particle_show \<Rightarrow> rng \<Rightarrow> Particle_show \<times> rng" where
  "applyForces_show p r =
     (if kind_show p = KindFire then
        (p\<lparr>vx_show := vx_show p * 0.998, vy_show := (vy_show p - 0.015) * 0.999,
           vz_show := vz_show p * 0.994\<rparr>, r)
      else
        (let (u, r') = rand_Float64 r
         in (p\<lparr>vx_show := vx_show p + (u * 2 - 1) * 0.02, vy_show := vy_show p - 0.01,
                vz_show := vz_show p * 0.995\<rparr>, r')))"

definition advanceRotation_show :: "Particle_show \<Rightarrow> Particle_show" where
  "advanceRotation_show p = p\<lparr>angle_show := angle_show p + angularVelocity_show p\<rparr>"

definition incrementAge_show :: "Particle_show \<Rightarrow> Particle_show" where
  "incrementAge_show p = p\<lparr>lifetime_show := wrap64 (lifetime_show p + 1)\<rparr>"

definition integrate_spec_show :: "Particle_show \<Rightarrow> rng \<Rightarrow> Particle_show \<times> rng" where
  "integrate_spec_show p r =
     (if \<not> active_show p then (p, r)
      else
        let p1 = advancePosition_show p;
            (p2, r') = applyForces_show p1 r;
            p3 = advanceRotation_show p2;
            p4 = incrementAge_show p3
        in if lifetime_show p4 \<ge> maxLife_show p4 then (p4\<lparr>active_show := False\<rparr>, r')
           else (p4, r'))"

section \<open>The single-batch smoke demo (src/smoke.main.go)\<close>

definition screenWidth_smoke :: real where "screenWidth_smoke = 640"
definition screenHeight_smoke :: real where "screenHeight_smoke = 480"
definition maxParticles_smoke :: nat where "maxParticles_smoke = 8000"

text \<open>
  The particle's \<open>img\<close> is the one texture of the program and is left out; \<open>color\<close> is a
  pointer to a colour that nothing else refers to, and is the colour itself here.
\<close>

record Particle_smoke =
  x_smoke :: real
  y_smoke :: real
  vx_smoke :: real
  vy_smoke :: real
  lifetime_smoke :: int
  maxLife_smoke :: int
  baseScale_smoke :: real
  angle_smoke :: real
  angularVelocity_smoke :: real
  baseAlpha_smoke :: real
  color_smoke :: RGBA
  active_smoke :: bool

definition update_smoke :: "Particle_smoke \<Rightarrow> Particle_smoke" where
  "update_smoke p =
     (if \<not> active_smoke p then p
      else
        let p1 = p\<lparr>lifetime_smoke := wrap64 (lifetime_smoke p + 1)\<rparr> in
        if lifetime_smoke p1 \<ge> maxLife_smoke p1 then p1\<lparr>active_smoke := False\<rparr>
        else
          let p2 = p1\<lparr>x_smoke := x_smoke p1 + vx_smoke p1\<rparr>;
              p3 = p2\<lparr>y_smoke := y_smoke p2 + vy_smoke p2\<rparr>
          in p3\<lparr>angle_smoke := angle_smoke p3 + angularVelocity_smoke p3\<rparr>)"

text \<open>The same integrator in the order of the specification; this demo has no forces.\<close>

definition integrate_spec_smoke :: "Particle_smoke \<Rightarrow> Particle_smoke" where
  "integrate_spec_smoke p =
     (if \<not> active_smoke p then p
      else
        let p1 = p\<lparr>x_smoke := x_smoke p + vx_smoke p, y_smoke := y_smoke p + vy_smoke p\<rparr>;
            p2 = p1\<lparr>angle_smoke := angle_smoke p1 + angularVelocity_smoke p1\<rparr>;
            p3 = p2\<lparr>lifetime_smoke := wrap64 (lifetime_smoke p2 + 1)\<rparr>
        in if lifetime_smoke p3 \<ge> maxLife_smoke p3 then p3\<lparr>active_smoke := False\<rparr> else p3)"

text \<open>
  \<open>newParticle\<close>: the locals are drawn first, in the order of the statements, then the
  fields of the literal in the order they are written.
\<close>

definition zeroParticle_smoke :: Particle_smoke where
  "zeroParticle_smoke =
     \<lparr>x_smoke = 0, y_smoke = 0, vx_smoke = 0, vy_smoke = 0, lifetime_smoke = 0,
      maxLife_smoke = 0, baseScale_smoke = 0, angle_smoke = 0, angularVelocity_smoke = 0,
      baseAlpha_smoke = 0, color_smoke = \<lparr>R = 0, G = 0, B = 0, A = 0\<rparr>,
      active_smoke = False\<rparr>"

definition newParticle_smoke :: "real \<Rightarrow> real \<Rightarrow> rng \<Rightarrow> Particle_smoke \<times> rng" where
  "newParticle_smoke emitterX emitterY r0 =
     (let (n1, r1) = rand_Intn 60 r0;
          maxLife = n1 + 240;
          (u1, r2) = rand_Float64 r1;
          (n2, r3) = rand_Intn 2 r2;
          ang = (if n2 = 0 then - (u1 * pi / 3) else u1 * pi / 3) + pi / 2;
          (u2, r4) = rand_Float64 r3;
          speed = u2 * 0.4 + 0.1;
          updraft = - 1;
          vx = cos ang * speed;
          vy = sin ang * speed + updraft;
          (c1, r5) = rand_Intn 63 r4;
          (c2, r6) = rand_Intn 63 r5;
          (c3, r7) = rand_Intn 63 r6;
          (u3, r8) = rand_Float64 r7;
          (u4, r9) = rand_Float64 r8;
          (u5, r10) = rand_Float64 r9;
          (u6, r11) = rand_Float64 r10
      in (\<lparr>x_smoke = emitterX, y_smoke = emitterY, vx_smoke = vx, vy_smoke = vy,
           lifetime_smoke = 0, maxLife_smoke = maxLife,
           baseScale_smoke = u6 * 0.1 + 0.3, angle_smoke = u3 * 2 * pi,
           angularVelocity_smoke = u4 * 0.03 * (u5 * 2 - 1), baseAlpha_smoke = 0.8,
           color_smoke = \<lparr>R = word_of_int (192 + c1), G = word_of_int (192 + c2),
                           B = word_of_int (192 + c3), A = 255\<rparr>,
           active_smoke = True\<rparr>, r11))"

text \<open>
  The game starts as \<open>Game{}\<close>: the slice of particles is \<open>nil\<close>, which is \<open>None\<close>; the
  first \<open>Update\<close> makes it an empty slice. \<open>pool_smoke\<close> is the slice as a list.
\<close>

record Game_smoke =
  particles_smoke :: "Particle_smoke list option"
  emitterX_smoke :: real
  emitterY_smoke :: real
  vertices_smoke :: "Vertex list"
  indices_smoke :: "16 word list"

definition Game0_smoke :: Game_smoke where
  "Game0_smoke =
     \<lparr>particles_smoke = None, emitterX_smoke = 0, emitterY_smoke = 0,
      vertices_smoke = [], indices_smoke = []\<rparr>"

definition pool_smoke :: "Game_smoke \<Rightarrow> Particle_smoke list" where
  "pool_smoke g = (case particles_smoke g of None \<Rightarrow> [] | Some ps \<Rightarrow> ps)"

text \<open>
  \<open>allocateParticle\<close>: the first inactive particle; if there is none and the pool is below
  its capacity, a new particle is appended and returned; otherwise \<open>nil\<close>.
\<close>

fun allocateScan_smoke :: "Particle_smoke list \<Rightarrow> nat \<Rightarrow> nat option" where
  "allocateScan_smoke [] i = None"
| "allocateScan_smoke (p # ps) i =
     (if \<not> active_smoke p then Some i else allocateScan_smoke ps (Suc i))"

definition allocateParticle_smoke :: "Game_smoke \<Rightarrow> nat option \<times> Game_smoke" where
  "allocateParticle_smoke g =
     (case allocateScan_smoke (pool_smoke g) 0 of
        Some i \<Rightarrow> (Some i, g)
      | None \<Rightarrow>
          if length (pool_smoke g) < maxParticles_smoke then
            (Some (length (pool_smoke g)),
             g\<lparr>particles_smoke := Some (pool_smoke g @ [zeroParticle_smoke])\<rparr>)
          else (None, g))"

text \<open>
  \<open>Game.Update\<close>. The random test of the emitter is evaluated only when the pool is below
  its capacity, as \<open>&&\<close> does.
\<close>

definition Update_smoke :: "rng \<Rightarrow> Game_smoke \<Rightarrow> rng \<times> Game_smoke" where
  "Update_smoke r0 g0 =
     (let g1 = (if particles_smoke g0 = None then
                  g0\<lparr>particles_smoke := Some [], emitterX_smoke := screenWidth_smoke / 2,
                     emitterY_smoke := screenHeight_smoke / 2,
                     vertices_smoke := [], indices_smoke := []\<rparr>
                else g0);
          (r2, g2) =
            (if length (pool_smoke g1) < maxParticles_smoke then
               (let (n, r1) = rand_Intn 3 r0
                in if n < 2 then
                     (case allocateParticle_smoke g1 of
                        (Some k, g') \<Rightarrow>
                          (let (p, r') = newParticle_smoke (emitterX_smoke g') (emitterY_smoke g') r1
                           in (r', g'\<lparr>particles_smoke := Some ((pool_smoke g')[k := p])\<rparr>))
                      | (None, g') \<Rightarrow> (r1, g'))
                   else (r1, g1))
             else (r0, g1));
          g3 = g2\<lparr>particles_smoke :=
                    map_option (map (\<lambda>p. if active_smoke p then update_smoke p else p))
                      (particles_smoke g2)\<rparr>;
          (u, r3) = rand_Float64 r2;
          g4 = g3\<lparr>emitterX_smoke := emitterX_smoke g3 + (u * 0.5 - 0.25)\<rparr>
      in (r3, g4\<lparr>emitterY_smoke := emitterY_smoke g4 - 0.1\<rparr>))"

text \<open>
  \<open>Game.Draw\<close>. The four vertices of a particle are appended one after the other, in the
  order of \<open>cornerVertices\<close>; the first index of the quad is the number of vertices that
  the buffer holds, converted to \<open>uint16\<close>.
\<close>

definition drawRate_smoke :: "Particle_smoke \<Rightarrow> real" where
  "drawRate_smoke p = real_of_int (lifetime_smoke p) / real_of_int (maxLife_smoke p)"

definition alpha_smoke :: "Particle_smoke \<Rightarrow> real" where
  "alpha_smoke p =
     (if drawRate_smoke p < 0.2 then drawRate_smoke p / 0.2
      else if drawRate_smoke p > 0.8 then (1 - drawRate_smoke p) / 0.2
      else 1) * baseAlpha_smoke p"

definition quad_smoke :: "real \<Rightarrow> real \<Rightarrow> Particle_smoke \<Rightarrow> Vertex list" where
  "quad_smoke tw th p =
     (let scale = baseScale_smoke p * (0.8 + 0.5 * drawRate_smoke p);
          alpha = alpha_smoke p;
          cr = real (unat (R (color_smoke p))) / 255 * alpha;
          cg = real (unat (G (color_smoke p))) / 255 * alpha;
          cb = real (unat (B (color_smoke p))) / 255 * alpha
      in cornerVertices (particleGeoM tw th (angle_smoke p) scale (x_smoke p) (y_smoke p))
           tw th cr cg cb alpha)"

fun drawLoop_smoke :: "real \<Rightarrow> real \<Rightarrow> Particle_smoke list \<Rightarrow> Game_smoke \<Rightarrow> Game_smoke" where
  "drawLoop_smoke tw th [] g = g"
| "drawLoop_smoke tw th (p # ps) g =
     (if \<not> active_smoke p then drawLoop_smoke tw th ps g
      else
        drawLoop_smoke tw th ps
          (g\<lparr>vertices_smoke := vertices_smoke g @ quad_smoke tw th p,
             indices_smoke := indices_smoke g
                @ quadIndices (word_of_nat (length (vertices_smoke g)))\<rparr>))"

definition Draw_smoke :: "real \<Rightarrow> real \<Rightarrow> Game_smoke \<Rightarrow> Game_smoke" where
  "Draw_smoke tw th g =
     drawLoop_smoke tw th (pool_smoke g) (g\<lparr>vertices_smoke := [], indices_smoke := []\<rparr>)"

inductive reachable_smoke :: "Game_smoke \<Rightarrow> bool" where
  reachable_Game0_smoke: "reachable_smoke Game0_smoke"
| reachable_Update_smoke: "reachable_smoke g \<Longrightarrow> reachable_smoke (snd (Update_smoke r g))"
| reachable_Draw_smoke: "reachable_smoke g \<Longrightarrow> reachable_smoke (Draw_smoke tw th g)"

section \<open>Projection and depth order: the library's part\<close>

text \<open>The five results of a projection: screen position, scale, depth, visibility.\<close>

record Projection =
  proj_sx :: real
  proj_sy :: real
  proj_scale :: real
  proj_depth :: real
  proj_visible :: bool

text \<open>
  Go's conversion of a float to \<open>uint8\<close> drops the fraction; the low eight bits are kept
  for a value out of range.
\<close>

definition toUint8 :: "real \<Rightarrow> 8 word" where
  "toUint8 v = word_of_int (if v \<ge> 0 then \<lfloor>v\<rfloor> else \<lceil>v\<rceil>)"

text \<open>
  \<open>sort.Slice\<close> belongs to Go's standard library, not to the repository, and \<open>Draw\<close> takes
  it as a parameter \<open>srt\<close>: a function from the comparison \<open>less\<close> and a slice to the sorted
  slice. What the library documents is \<open>sort_Slice_contract\<close>: for a comparison that is a
  strict weak order the result is a rearrangement of the slice in which no element is
  less than one before it. The library says of \<open>sort.Slice\<close> that the sort is not guaranteed
  to be stable, and the contract says nothing about elements that compare equal.
\<close>

definition strict_weak_order :: "('a \<Rightarrow> 'a \<Rightarrow> bool) \<Rightarrow> bool" where
  "strict_weak_order lt =
     ((\<forall>a. \<not> lt a a) \<and>
      (\<forall>a b c. lt a b \<and> lt b c \<longrightarrow> lt a c) \<and>
      (\<forall>a b c. \<not> lt a b \<and> \<not> lt b c \<longrightarrow> \<not> lt a c))"

definition sort_Slice_contract :: "(('a \<Rightarrow> 'a \<Rightarrow> bool) \<Rightarrow> 'a list \<Rightarrow> 'a list) \<Rightarrow> bool" where
  "sort_Slice_contract srt =
     (\<forall>lt xs. strict_weak_order lt \<longrightarrow>
        mset (srt lt xs) = mset xs \<and> sorted_wrt (\<lambda>a b. \<not> lt b a) (srt lt xs))"

text \<open>
  Two sorts that meet the contract: insertion from the right end, which keeps elements
  that compare equal in their order, and the same on the reversed slice, which does not.
\<close>

fun insertBy :: "('a \<Rightarrow> 'a \<Rightarrow> bool) \<Rightarrow> 'a \<Rightarrow> 'a list \<Rightarrow> 'a list" where
  "insertBy lt a [] = [a]"
| "insertBy lt a (b # bs) = (if lt b a then b # insertBy lt a bs else a # b # bs)"

definition insertionSort :: "('a \<Rightarrow> 'a \<Rightarrow> bool) \<Rightarrow> 'a list \<Rightarrow> 'a list" where
  "insertionSort lt xs = foldr (insertBy lt) xs []"

definition reversingSort :: "('a \<Rightarrow> 'a \<Rightarrow> bool) \<Rightarrow> 'a list \<Rightarrow> 'a list" where
  "reversingSort lt xs = foldr (insertBy lt) (rev xs) []"

section \<open>The projected bubble cloud (src/bubbles.main.go)\<close>

definition screenWidth_bub :: real where "screenWidth_bub = 1024"
definition screenHeight_bub :: real where "screenHeight_bub = 768"
definition maxParticles_bub :: nat where "maxParticles_bub = 1200"
definition focalLength_bub :: real where "focalLength_bub = 450"

record Particle_bub =
  x_bub :: real
  y_bub :: real
  z_bub :: real
  vx_bub :: real
  vy_bub :: real
  vz_bub :: real
  life_bub :: int
  maxLife_bub :: int
  baseSize_bub :: real
  color_bub :: RGBA

text \<open>
  \<open>Particle.Project\<close>. Its first half, the rotation by yaw and pitch and the camera offset
  of 600, is \<open>cameraSpace_bub\<close>: the rotated lateral components \<open>x1\<close>, \<open>y1\<close> and the depth
  \<open>z2\<close>.
\<close>

definition cameraSpace_bub :: "Particle_bub \<Rightarrow> real \<Rightarrow> real \<Rightarrow> real \<times> real \<times> real" where
  "cameraSpace_bub p yaw pitch =
     (let siny = sin yaw; cosy = cos yaw;
          x1 = x_bub p * cosy + z_bub p * siny;
          z1 = - x_bub p * siny + z_bub p * cosy;
          sinp = sin pitch; cosp = cos pitch;
          y1 = y_bub p * cosp - z1 * sinp;
          z2 = y_bub p * sinp + z1 * cosp + 600
      in (x1, y1, z2))"

definition Project_bub :: "Particle_bub \<Rightarrow> real \<Rightarrow> real \<Rightarrow> Projection" where
  "Project_bub p yaw pitch =
     (let (x1, y1, z2) = cameraSpace_bub p yaw pitch
      in if z2 \<le> 10 then
           \<lparr>proj_sx = 0, proj_sy = 0, proj_scale = 0, proj_depth = z2, proj_visible = False\<rparr>
         else
           let f = focalLength_bub / z2
           in \<lparr>proj_sx = x1 * f + screenWidth_bub / 2, proj_sy = y1 * f + screenHeight_bub / 2,
               proj_scale = f, proj_depth = z2, proj_visible = True\<rparr>)"

record Game_bub =
  particles_bub :: "Particle_bub list"
  tick_bub :: int
  yaw_bub :: real
  pitch_bub :: real

record drawItem_bub =
  item_x_bub :: real
  item_y_bub :: real
  item_size_bub :: real
  item_depth_bub :: real
  item_alpha_bub :: real
  item_col_bub :: RGBA

text \<open>
  \<open>Game.Draw\<close>, first loop: one item for each particle that the projection reports
  visible. \<open>lifeRatio\<close>, \<open>depthFade\<close> and \<open>alpha\<close> are the locals of the loop body.
\<close>

definition lifeRatio_bub :: "Particle_bub \<Rightarrow> real" where
  "lifeRatio_bub p = real_of_int (life_bub p) / real_of_int (maxLife_bub p)"

definition depthFade_bub :: "real \<Rightarrow> real" where
  "depthFade_bub depth =
     (let depthFade = 1 - (depth - 200) / 1200
      in if depthFade < 0.2 then 0.2 else depthFade)"

definition alpha_bub :: "Particle_bub \<Rightarrow> real \<Rightarrow> real" where
  "alpha_bub p depth = lifeRatio_bub p * depthFade_bub depth"

fun items_bub :: "real \<Rightarrow> real \<Rightarrow> Particle_bub list \<Rightarrow> drawItem_bub list" where
  "items_bub yaw pitch [] = []"
| "items_bub yaw pitch (p # ps) =
     (let pr = Project_bub p yaw pitch
      in if \<not> proj_visible pr then items_bub yaw pitch ps
         else
           \<lparr>item_x_bub = proj_sx pr, item_y_bub = proj_sy pr,
            item_size_bub = baseSize_bub p * proj_scale pr * 3,
            item_depth_bub = proj_depth pr, item_alpha_bub = alpha_bub p (proj_depth pr),
            item_col_bub = color_bub p\<rparr> # items_bub yaw pitch ps)"

text \<open>
  The items are sorted with \<open>less i j = items[i].depth > items[j].depth\<close>, and the second
  loop draws a filled circle for every item whose alpha byte is at least 10. A circle is
  its centre, its radius and its colour.
\<close>

definition depthLess_bub :: "drawItem_bub \<Rightarrow> drawItem_bub \<Rightarrow> bool" where
  "depthLess_bub a b = (item_depth_bub a > item_depth_bub b)"

definition sortedItems_bub ::
    "((drawItem_bub \<Rightarrow> drawItem_bub \<Rightarrow> bool) \<Rightarrow> drawItem_bub list \<Rightarrow> drawItem_bub list) \<Rightarrow>
     Game_bub \<Rightarrow> drawItem_bub list" where
  "sortedItems_bub srt g = srt depthLess_bub (items_bub (yaw_bub g) (pitch_bub g) (particles_bub g))"

fun circles_bub :: "drawItem_bub list \<Rightarrow> (real \<times> real \<times> real \<times> RGBA) list" where
  "circles_bub [] = []"
| "circles_bub (it # its) =
     (let a = toUint8 (255 * item_alpha_bub it)
      in if a < 10 then circles_bub its
         else (item_x_bub it, item_y_bub it, item_size_bub it, (item_col_bub it)\<lparr>A := a\<rparr>)
              # circles_bub its)"

definition Draw_bub ::
    "((drawItem_bub \<Rightarrow> drawItem_bub \<Rightarrow> bool) \<Rightarrow> drawItem_bub list \<Rightarrow> drawItem_bub list) \<Rightarrow>
     Game_bub \<Rightarrow> (real \<times> real \<times> real \<times> RGBA) list" where
  "Draw_bub srt g = circles_bub (sortedItems_bub srt g)"

text \<open>The items that reach the screen, in the order they are drawn.\<close>

definition drawnItems_bub ::
    "((drawItem_bub \<Rightarrow> drawItem_bub \<Rightarrow> bool) \<Rightarrow> drawItem_bub list \<Rightarrow> drawItem_bub list) \<Rightarrow>
     Game_bub \<Rightarrow> drawItem_bub list" where
  "drawnItems_bub srt g =
     filter (\<lambda>it. \<not> toUint8 (255 * item_alpha_bub it) < 10) (sortedItems_bub srt g)"

section \<open>The depth-sorted smoke cloud (first program of src/unnamed/part_001)\<close>

definition screenWidth_ds :: real where "screenWidth_ds = 1024"
definition screenHeight_ds :: real where "screenHeight_ds = 768"
definition maxParticles_ds :: nat where "maxParticles_ds = 1200"
definition focalLength_ds :: real where "focalLength_ds = 450"

record Particle_ds =
  x_ds :: real
  y_ds :: real
  z_ds :: real
  vx_ds :: real
  vy_ds :: real
  vz_ds :: real
  angle_ds :: real
  spin_ds :: real
  baseScale_ds :: real
  life_ds :: int
  maxLife_ds :: int
  colorMix_ds :: RGBA

definition cameraSpace_ds :: "Particle_ds \<Rightarrow> real \<Rightarrow> real \<Rightarrow> real \<times> real \<times> real" where
  "cameraSpace_ds p cameraYaw cameraPitch =
     (let siny = sin cameraYaw; cosy = cos cameraYaw;
          x1 = x_ds p * cosy + z_ds p * siny;
          z1 = - x_ds p * siny + z_ds p * cosy;
          sinp = sin cameraPitch; cosp = cos cameraPitch;
          y1 = y_ds p * cosp - z1 * sinp;
          z2 = y_ds p * sinp + z1 * cosp
      in (x1, y1, z2 + 600))"

text \<open>
  \<open>Particle.projected\<close>. The perspective factor \<open>f\<close> places the particle on the screen;
  the scale that is returned is \<open>baseScale * f * 2\<close>.
\<close>

definition projected_ds :: "Particle_ds \<Rightarrow> real \<Rightarrow> real \<Rightarrow> Projection" where
  "projected_ds p cameraYaw cameraPitch =
     (let (x1, y1, z2) = cameraSpace_ds p cameraYaw cameraPitch
      in if z2 \<le> 10 then
           \<lparr>proj_sx = 0, proj_sy = 0, proj_scale = 0, proj_depth = z2, proj_visible = False\<rparr>
         else
           let f = focalLength_ds / z2;
               screenX = x1 * f + screenWidth_ds / 2;
               screenY = y1 * f + screenHeight_ds / 2
           in \<lparr>proj_sx = screenX, proj_sy = screenY, proj_scale = baseScale_ds p * f * 2,
               proj_depth = z2, proj_visible = True\<rparr>)"

record Game_ds =
  particles_ds :: "Particle_ds list"
  tick_ds :: int
  cameraYaw_ds :: real
  cameraPitch_ds :: real

record drawItem_ds =
  item_p_ds :: Particle_ds
  item_sx_ds :: real
  item_sy_ds :: real
  item_scale_ds :: real
  item_depth_ds :: real
  item_alphaMult_ds :: real

definition lifeRatio_ds :: "Particle_ds \<Rightarrow> real" where
  "lifeRatio_ds p = real_of_int (life_ds p) / real_of_int (maxLife_ds p)"

definition depthFade_ds :: "real \<Rightarrow> real" where
  "depthFade_ds depth =
     (let depthFade = 1 - (depth - 200) / 1200
      in if depthFade < 0.25 then 0.25 else depthFade)"

definition alpha_ds :: "Particle_ds \<Rightarrow> real \<Rightarrow> real" where
  "alpha_ds p depth = lifeRatio_ds p * depthFade_ds depth"

fun items_ds :: "real \<Rightarrow> real \<Rightarrow> Particle_ds list \<Rightarrow> drawItem_ds list" where
  "items_ds yaw pitch [] = []"
| "items_ds yaw pitch (p # ps) =
     (let pr = projected_ds p yaw pitch
      in if \<not> proj_visible pr then items_ds yaw pitch ps
         else
           \<lparr>item_p_ds = p, item_sx_ds = proj_sx pr, item_sy_ds = proj_sy pr,
            item_scale_ds = proj_scale pr, item_depth_ds = proj_depth pr,
            item_alphaMult_ds = alpha_ds p (proj_depth pr)\<rparr> # items_ds yaw pitch ps)"

definition depthLess_ds :: "drawItem_ds \<Rightarrow> drawItem_ds \<Rightarrow> bool" where
  "depthLess_ds a b = (item_depth_ds a > item_depth_ds b)"

text \<open>
  \<open>Game.Draw\<close>: the sorted items, every one of which is drawn, in this order, with the
  transform and the colour scale of the second loop. \<open>w\<close> and \<open>h\<close> are the size of the
  texture.
\<close>

definition sortedItems_ds ::
    "((drawItem_ds \<Rightarrow> drawItem_ds \<Rightarrow> bool) \<Rightarrow> drawItem_ds list \<Rightarrow> drawItem_ds list) \<Rightarrow>
     Game_ds \<Rightarrow> drawItem_ds list" where
  "sortedItems_ds srt g =
     srt depthLess_ds (items_ds (cameraYaw_ds g) (cameraPitch_ds g) (particles_ds g))"

definition drawImage_ds :: "real \<Rightarrow> real \<Rightarrow> drawItem_ds \<Rightarrow> GeoM \<times> real \<times> real \<times> real \<times> real" where
  "drawImage_ds w h it =
     (let geo = particleGeoM w h (angle_ds (item_p_ds it)) (item_scale_ds it)
                  (item_sx_ds it) (item_sy_ds it);
          rf = real (unat (R (colorMix_ds (item_p_ds it)))) / 255;
          gf = real (unat (G (colorMix_ds (item_p_ds it)))) / 255;
          bf = real (unat (B (colorMix_ds (item_p_ds it)))) / 255;
          a = item_alphaMult_ds it;
          a' = (if a < 0 then 0 else if a > 1 then 1 else a)
      in (geo, rf, gf, bf, a'))"

definition Draw_ds ::
    "((drawItem_ds \<Rightarrow> drawItem_ds \<Rightarrow> bool) \<Rightarrow> drawItem_ds list \<Rightarrow> drawItem_ds list) \<Rightarrow>
     real \<Rightarrow> real \<Rightarrow> Game_ds \<Rightarrow> (GeoM \<times> real \<times> real \<times> real \<times> real) list" where
  "Draw_ds srt w h g = map (drawImage_ds w h) (sortedItems_ds srt g)"

section \<open>The ball pit's vectors (second program of src/unnamed/part_001)\<close>





section \<open>The concert show: pool, emitters, Update and Draw (src/amazing.main.go)\<close>

definition spawnPerFrame_show :: int where "spawnPerFrame_show = 200"

text \<open>Go's conversion of a float to \<open>int\<close> drops the fraction.\<close>

definition goInt :: "real \<Rightarrow> int" where
  "goInt v = (if v \<ge> 0 then \<lfloor>v\<rfloor> else \<lceil>v\<rceil>)"

record Emitter_show =
  cx_show :: real
  cy_show :: real
  radius_show :: real
  phase_show :: real
  speed_show :: real
  baseSpawn_show :: int
  pulseWidth_show :: real
  ekind_show :: PKind
  offsetY_show :: real

record Game_show =
  particles_show :: "Particle_show list"
  vertices_show :: "Vertex list"
  indices_show :: "16 word list"
  emitters_show :: "Emitter_show list"
  gtick_show :: int
  depthOffset_show :: real

definition zeroParticle_show :: Particle_show where
  "zeroParticle_show =
     \<lparr>x_show = 0, y_show = 0, z_show = 0, vx_show = 0, vy_show = 0, vz_show = 0,
      lifetime_show = 0, maxLife_show = 0, baseScale_show = 0, angle_show = 0,
      angularVelocity_show = 0, kind_show = KindFire, active_show = False\<rparr>"

text \<open>\<open>NewGame\<close>: the pool is filled, then six fire emitters and three ember emitters.\<close>

definition fireEmitter_show :: "rng \<Rightarrow> Emitter_show \<times> rng" where
  "fireEmitter_show r0 =
     (let (u1, r1) = rand_Float64 r0;
          a = u1 * 2 * pi;
          (u2, r2) = rand_Float64 r1;
          rad = 120 + u2 * 420;
          (u3, r3) = rand_Float64 r2;
          cx = screenWidth_show / 2 + u3 * 200 - 100;
          (u4, r4) = rand_Float64 r3;
          cy = screenHeight_show / 2 + u4 * 120 - 60;
          (u5, r5) = rand_Float64 r4;
          (n1, r6) = rand_Intn 12 r5;
          (u6, r7) = rand_Float64 r6;
          (u7, r8) = rand_Float64 r7
      in (\<lparr>cx_show = cx, cy_show = cy, radius_show = rad, phase_show = a,
           speed_show = 0.002 + u5 * 0.006, baseSpawn_show = 6 + n1,
           pulseWidth_show = 0.8 + u6 * 1.8, ekind_show = KindFire,
           offsetY_show = u7 * 40 - 20\<rparr>, r8))"

definition emberEmitter_show :: "rng \<Rightarrow> Emitter_show \<times> rng" where
  "emberEmitter_show r0 =
     (let (u1, r1) = rand_Float64 r0;
          (u2, r2) = rand_Float64 r1;
          (u3, r3) = rand_Float64 r2;
          (u4, r4) = rand_Float64 r3;
          (u5, r5) = rand_Float64 r4;
          (n1, r6) = rand_Intn 3 r5;
          (u6, r7) = rand_Float64 r6
      in (\<lparr>cx_show = screenWidth_show * (0.2 + u1 * 0.6),
           cy_show = screenHeight_show * (0.6 + u2 * 0.2),
           radius_show = 10 + u3 * 60, phase_show = u4 * 2 * pi,
           speed_show = 0.001 + u5 * 0.004, baseSpawn_show = 2 + n1,
           pulseWidth_show = 3 + u6 * 6, ekind_show = KindEmber, offsetY_show = 0\<rparr>, r7))"

fun emitterLoop_show ::
    "(rng \<Rightarrow> Emitter_show \<times> rng) \<Rightarrow> nat \<Rightarrow> rng \<Rightarrow> Emitter_show list \<times> rng" where
  "emitterLoop_show mk 0 r = ([], r)"
| "emitterLoop_show mk (Suc n) r =
     (let (e, r') = mk r; (es, r'') = emitterLoop_show mk n r' in (e # es, r''))"

definition NewGame_show :: "rng \<Rightarrow> Game_show \<times> rng" where
  "NewGame_show r0 =
     (let (fs, r1) = emitterLoop_show fireEmitter_show 6 r0;
          (es, r2) = emitterLoop_show emberEmitter_show 3 r1
      in (\<lparr>particles_show = replicate maxParticles_show zeroParticle_show,
           vertices_show = [], indices_show = [], emitters_show = fs @ es,
           gtick_show = 0, depthOffset_show = 0\<rparr>, r2))"

fun allocateScan_show :: "Particle_show list \<Rightarrow> nat \<Rightarrow> nat option" where
  "allocateScan_show [] i = None"
| "allocateScan_show (p # ps) i =
     (if \<not> active_show p then Some i else allocateScan_show ps (Suc i))"

definition allocateParticle_show :: "Game_show \<Rightarrow> nat option" where
  "allocateParticle_show g = allocateScan_show (particles_show g) 0"

text \<open>
  \<open>spawnAt\<close> writes one particle of the kind into a free slot, or does nothing when the
  pool is exhausted (and then draws no random number).
\<close>

definition spawnAt_show :: "real \<Rightarrow> real \<Rightarrow> PKind \<Rightarrow> rng \<Rightarrow> Game_show \<Rightarrow> rng \<times> Game_show" where
  "spawnAt_show px py kind r0 g =
     (case allocateParticle_show g of
        None \<Rightarrow> (r0, g)
      | Some k \<Rightarrow>
          (let (u1, r1) = rand_Float64 r0;
               (u2, r2) = rand_Float64 r1;
               (u3, r3) = rand_Float64 r2;
               (u4, r4) = rand_Float64 r3;
               (u5, r5) = rand_Float64 r4;
               p = zeroParticle_show\<lparr>active_show := True, kind_show := kind,
                     x_show := px + (u1 * 2 - 1) * 6, y_show := py + (u2 * 2 - 1) * 6,
                     z_show := u3 * 2.2 - 1, angle_show := u4 * 2 * pi,
                     angularVelocity_show := (u5 * 2 - 1) * 0.12\<rparr>;
               (p', r') =
                 (if kind = KindFire then
                    (let (n1, r6) = rand_Intn 50 r5;
                         (u6, r7) = rand_Float64 r6;
                         (u7, r8) = rand_Float64 r7;
                         ang = u7 * 2 * pi;
                         (u8, r9) = rand_Float64 r8;
                         speed = 1.2 + u8 * 5.8;
                         (u9, r10) = rand_Float64 r9;
                         (u10, r11) = rand_Float64 r10;
                         (u11, r12) = rand_Float64 r11
                     in (p\<lparr>maxLife_show := 30 + n1, baseScale_show := 0.14 + u6 * 0.22,
                            vx_show := cos ang * speed * (0.2 + u9 * 0.6),
                            vy_show := sin ang * speed * (0.3 + u10 * 0.9),
                            vz_show := u11 * 1.2 - 0.6\<rparr>, r12))
                  else
                    (let (n1, r6) = rand_Intn 200 r5;
                         (u6, r7) = rand_Float64 r6;
                         (u7, r8) = rand_Float64 r7;
                         (u8, r9) = rand_Float64 r8;
                         (u9, r10) = rand_Float64 r9;
                         (u10, r11) = rand_Float64 r10
                     in (p\<lparr>maxLife_show := 120 + n1, baseScale_show := 0.05 + u6 * 0.08,
                            vx_show := (u7 * 2 - 1) * 0.6, vy_show := - 0.2 - u8 * 0.6,
                            vz_show := (u9 * 2 - 1) * 0.15,
                            angularVelocity_show := (u10 * 2 - 1) * 0.03\<rparr>, r11)))
           in (r', g\<lparr>particles_show := (particles_show g)[k := p']\<rparr>)))"

fun spawnBurstLoop_show :: "nat \<Rightarrow> real \<Rightarrow> real \<Rightarrow> rng \<Rightarrow> Game_show \<Rightarrow> rng \<times> Game_show" where
  "spawnBurstLoop_show 0 px py r g = (r, g)"
| "spawnBurstLoop_show (Suc n) px py r g =
     (let (r', g') = spawnAt_show px py KindFire r g in spawnBurstLoop_show n px py r' g')"

definition spawnBurst_show :: "real \<Rightarrow> real \<Rightarrow> int \<Rightarrow> rng \<Rightarrow> Game_show \<Rightarrow> rng \<times> Game_show" where
  "spawnBurst_show px py n r g = spawnBurstLoop_show (nat n) px py r g"

text \<open>
  One emitter's turn in \<open>Update\<close>. Its spawn loop runs while \<open>i < target\<close> and the frame's
  total is below \<open>spawnPerFrame\<close>; \<open>emitLoop_show n\<close> is the loop with \<open>n\<close> of the \<open>target\<close>
  iterations left.
\<close>

fun emitLoop_show ::
    "nat \<Rightarrow> real \<Rightarrow> real \<Rightarrow> PKind \<Rightarrow> int \<Rightarrow> rng \<Rightarrow> Game_show \<Rightarrow> int \<times> rng \<times> Game_show" where
  "emitLoop_show 0 ex ey kind totalSpawns r g = (totalSpawns, r, g)"
| "emitLoop_show (Suc n) ex ey kind totalSpawns r g =
     (if totalSpawns < spawnPerFrame_show then
        (let (u1, r1) = rand_Float64 r;
             jx = ex + (u1 * 2 - 1) * 20;
             (u2, r2) = rand_Float64 r1;
             jy = ey + (u2 * 2 - 1) * 20;
             (r3, g') = spawnAt_show jx jy kind r2 g
         in emitLoop_show n ex ey kind (wrap64 (totalSpawns + 1)) r3 g')
      else (totalSpawns, r, g))"

definition emitterTurn_show ::
    "real \<Rightarrow> Emitter_show \<Rightarrow> int \<Rightarrow> rng \<Rightarrow> Game_show \<Rightarrow> Emitter_show \<times> int \<times> rng \<times> Game_show" where
  "emitterTurn_show now e0 totalSpawns r0 g =
     (let e = e0\<lparr>phase_show := phase_show e0 + speed_show e0\<rparr>;
          ang = phase_show e * 2 * pi + phase_show e * 1.1;
          ex = cx_show e + cos ang * radius_show e;
          ey = cy_show e + sin (ang * 0.9) * radius_show e * 0.55 + offsetY_show e;
          pulse = (sin (now * pulseWidth_show e + phase_show e * 4) + 1) * 0.5;
          (u1, r1) = rand_Float64 r0;
          target0 = goInt (real_of_int (baseSpawn_show e) * (0.5 + pulse) * (0.8 + u1 * 0.8));
          target1 = (if ekind_show e = KindEmber
                     then goInt (real_of_int (baseSpawn_show e) * (0.2 + pulse * 0.5))
                     else target0);
          target = (if target1 > 250 then 250 else target1);
          (total', r2, g1) = emitLoop_show (nat target) ex ey (ekind_show e) totalSpawns r1 g;
          (u2, r3) = rand_Float64 r2
      in if u2 < 0.003 then
           (let (n, r4) = rand_Intn 480 r3;
                (r5, g2) = spawnBurst_show ex ey (220 + n) r4 g1
            in (e, total', r5, g2))
         else (e, total', r3, g1))"

fun emitters_turns_show ::
    "real \<Rightarrow> Emitter_show list \<Rightarrow> int \<Rightarrow> rng \<Rightarrow> Game_show \<Rightarrow> Emitter_show list \<times> rng \<times> Game_show" where
  "emitters_turns_show now [] totalSpawns r g = ([], r, g)"
| "emitters_turns_show now (e # es) totalSpawns r g =
     (let (e', total', r', g') = emitterTurn_show now e totalSpawns r g;
          (es', r'', g'') = emitters_turns_show now es total' r' g'
      in (e' # es', r'', g''))"

fun tickAll_show :: "Particle_show list \<Rightarrow> rng \<Rightarrow> Particle_show list \<times> rng" where
  "tickAll_show [] r = ([], r)"
| "tickAll_show (p # ps) r =
     (let (p', r') = tick_show p r; (ps', r'') = tickAll_show ps r' in (p' # ps', r''))"

text \<open>
  \<open>Game.Update\<close>. The inputs of the tick are parameters: the position of a click, if the
  left button was pressed, and whether the space bar was pressed.
\<close>

definition Update_show :: "(int \<times> int) option \<Rightarrow> bool \<Rightarrow> rng \<Rightarrow> Game_show \<Rightarrow> rng \<times> Game_show" where
  "Update_show click space r0 g0 =
     (let g1 = g0\<lparr>gtick_show := wrap64 (gtick_show g0 + 1)\<rparr>;
          (r1, g2) =
            (case click of
               Some (mx, my) \<Rightarrow> spawnBurst_show (real_of_int mx) (real_of_int my) 900 r0 g1
             | None \<Rightarrow> (r0, g1));
          (r2, g3) =
            (if space then
               (let (n1, ra) = rand_Intn 1280 r1;
                    (n2, rb) = rand_Intn 360 ra
                in spawnBurst_show (real_of_int n1) (real_of_int (n2 + 240)) 1200 rb g2)
             else (r1, g2));
          now = real_of_int (gtick_show g3) / 60;
          (es, r3, g4) = emitters_turns_show now (emitters_show g3) 0 r2 g3;
          g5 = g4\<lparr>emitters_show := es\<rparr>;
          g6 = g5\<lparr>depthOffset_show := 0.18 * sin (now * 0.25)\<rparr>;
          (ps, r4) = tickAll_show (particles_show g6) r3
      in (r4, g6\<lparr>particles_show := ps\<rparr>))"

text \<open>
  \<open>Game.Draw\<close>. The background, the overlay and the HUD do not touch the buffers and are
  left out; the twinkling star draws two random numbers every thirtieth tick. \<open>tw\<close> and
  \<open>th\<close> are the size of the texture.
\<close>

definition depthColor_show :: "real \<Rightarrow> real \<Rightarrow> real \<times> real \<times> real" where
  "depthColor_show z t =
     (let nt0 = (z + 2) / 4;
          nt1 = (if nt0 < 0 then 0 else nt0);
          nt = (if nt1 > 1 then 1 else nt1);
          shift = 0.15 * sin (t * 0.8);
          tt0 = nt + shift;
          tt1 = (if tt0 < 0 then 0 else tt0);
          tt = (if tt1 > 1 then 1 else tt1);
          s = sin (tt * pi / 2);
          r = s;
          g = (1 - tt) * 0.25;
          b = 1 - s
      in (if tt > 0.6 then min 1 (r * 1.15) else r, g, b))"

definition quad_show :: "real \<Rightarrow> real \<Rightarrow> real \<Rightarrow> real \<Rightarrow> Particle_show \<Rightarrow> Vertex list" where
  "quad_show tw th now depthOffset p =
     (let rate = real_of_int (lifetime_show p) / real_of_int (maxLife_show p);
          z = z_show p + depthOffset;
          alpha0 = (1 - rate powr 1.4) * (0.20 + (1 - \<bar>z\<bar>) * 0.85);
          alpha1 = (if alpha0 < 0 then 0 else alpha0);
          depthScale0 = 1 / (1 + z * 0.6);
          depthScale = (if depthScale0 < 0.3 then 0.3 else depthScale0);
          scale0 = baseScale_show p * (1 + 0.8 * rate) * depthScale;
          (rcol, gcol, bcol) = depthColor_show z now;
          alpha = (if kind_show p = KindEmber then alpha1 * 0.7 else min 1 (alpha1 * 1.15));
          scale = (if kind_show p = KindEmber then scale0 * 0.6 else scale0)
      in cornerVertices (particleGeoM tw th (angle_show p) scale (x_show p) (y_show p))
           tw th (rcol * alpha) (gcol * alpha) (bcol * alpha) alpha)"

fun drawLoop_show ::
    "real \<Rightarrow> real \<Rightarrow> real \<Rightarrow> Particle_show list \<Rightarrow> int \<times> Game_show \<Rightarrow> int \<times> Game_show" where
  "drawLoop_show tw th now [] st = st"
| "drawLoop_show tw th now (p # ps) (fc, g) =
     (if \<not> active_show p then drawLoop_show tw th now ps (fc, g)
      else
        drawLoop_show tw th now ps
          (wrap64 (fc + 4),
           g\<lparr>vertices_show := vertices_show g @ quad_show tw th now (depthOffset_show g) p,
             indices_show := indices_show g @ quadIndices (word_of_int fc)\<rparr>))"

definition Draw_show :: "real \<Rightarrow> real \<Rightarrow> rng \<Rightarrow> Game_show \<Rightarrow> rng \<times> Game_show" where
  "Draw_show tw th r0 g =
     (let g0 = g\<lparr>vertices_show := [], indices_show := []\<rparr>;
          now = real_of_int (gtick_show g0) / 60;
          r1 = (if go_rem (gtick_show g0) 30 = 0
                then snd (rand_Float64 (snd (rand_Float64 r0))) else r0)
      in (r1, snd (drawLoop_show tw th now (particles_show g0) (0, g0))))"

inductive reachable_show :: "Game_show \<Rightarrow> bool" where
  reachable_NewGame_show: "reachable_show (fst (NewGame_show r))"
| reachable_Update_show:
    "reachable_show g \<Longrightarrow> reachable_show (snd (Update_show click space r g))"
| reachable_Draw_show: "reachable_show g \<Longrightarrow> reachable_show (snd (Draw_show tw th r g))"

section \<open>The depth-tinted fire burst (src/Concert.main.go)\<close>

definition maxParticles_con :: nat where "maxParticles_con = 8000"

record Particle_con =
  x_con :: real
  y_con :: real
  z_con :: real
  vx_con :: real
  vy_con :: real
  vz_con :: real
  lifetime_con :: int
  maxLife_con :: int
  baseScale_con :: real
  angle_con :: real
  angularVelocity_con :: real
  active_con :: bool

text \<open>The zero value \<open>Particle{}\<close>.\<close>

definition zeroParticle_con :: Particle_con where
  "zeroParticle_con =
     \<lparr>x_con = 0, y_con = 0, z_con = 0, vx_con = 0, vy_con = 0, vz_con = 0,
      lifetime_con = 0, maxLife_con = 0, baseScale_con = 0, angle_con = 0,
      angularVelocity_con = 0, active_con = False\<rparr>"

text \<open>\<open>Particle.update\<close>: the age first, with the early return at the end of the life.\<close>

definition update_con :: "Particle_con \<Rightarrow> Particle_con" where
  "update_con p =
     (if \<not> active_con p then p
      else
        let p1 = p\<lparr>lifetime_con := wrap64 (lifetime_con p + 1)\<rparr> in
        if lifetime_con p1 \<ge> maxLife_con p1 then p1\<lparr>active_con := False\<rparr>
        else
          let p2 = p1\<lparr>x_con := x_con p1 + vx_con p1\<rparr>;
              p3 = p2\<lparr>y_con := y_con p2 + vy_con p2\<rparr>;
              p4 = p3\<lparr>z_con := z_con p3 + vz_con p3\<rparr>;
              p5 = p4\<lparr>angle_con := angle_con p4 + angularVelocity_con p4\<rparr>;
              p6 = p5\<lparr>vy_con := vy_con p5 + 0.02\<rparr>
          in p6\<lparr>vz_con := vz_con p6 * 0.98\<rparr>)"

record Game_con =
  particles_con :: "Particle_con list"
  vertices_con :: "Vertex list"
  indices_con :: "16 word list"

text \<open>\<open>NewGame\<close> appends \<open>maxParticles\<close> times \<open>&Particle{}\<close> to the empty pool.\<close>

definition NewGame_con :: Game_con where
  "NewGame_con =
     \<lparr>particles_con = replicate maxParticles_con zeroParticle_con,
      vertices_con = [], indices_con = []\<rparr>"

text \<open>\<open>allocateParticle\<close>: the first inactive particle of the pool, or \<open>nil\<close>.\<close>

fun allocateScan_con :: "Particle_con list \<Rightarrow> nat \<Rightarrow> nat option" where
  "allocateScan_con [] i = None"
| "allocateScan_con (p # ps) i =
     (if \<not> active_con p then Some i else allocateScan_con ps (Suc i))"

definition allocateParticle_con :: "Game_con \<Rightarrow> nat option" where
  "allocateParticle_con g = allocateScan_con (particles_con g) 0"

definition store_con :: "nat \<Rightarrow> Particle_con \<Rightarrow> Game_con \<Rightarrow> Game_con" where
  "store_con k v g = g\<lparr>particles_con := (particles_con g)[k := v]\<rparr>"

text \<open>
  \<open>newFireParticle\<close>. The fields of the composite literal draw in the order they are
  written; \<open>lifetime\<close> and the three velocities are not mentioned by the literal, and the
  velocities are assigned after it.
\<close>

definition newFireParticle_con :: "real \<Rightarrow> real \<Rightarrow> rng \<Rightarrow> Particle_con \<times> rng" where
  "newFireParticle_con px py r0 =
     (let (u1, r1) = rand_Float64 r0;
          (u2, r2) = rand_Float64 r1;
          (u3, r3) = rand_Float64 r2;
          (u4, r4) = rand_Float64 r3;
          (u5, r5) = rand_Float64 r4;
          (n1, r6) = rand_Intn 40 r5;
          (u6, r7) = rand_Float64 r6;
          p = zeroParticle_con\<lparr>active_con := True,
                x_con := px + u1 * 4 - 2, y_con := py + u2 * 4 - 2, z_con := u3 * 2 - 1,
                angle_con := u4 * 2 * pi, angularVelocity_con := (u5 * 2 - 1) * 0.1,
                maxLife_con := n1 + 40, baseScale_con := u6 * 0.1 + 0.2\<rparr>;
          (u7, r8) = rand_Float64 r7;
          ang = u7 * 2 * pi;
          (u8, r9) = rand_Float64 r8;
          speed = u8 * 4.0 + 2.0;
          p1 = p\<lparr>vx_con := cos ang * speed * 0.3\<rparr>;
          p2 = p1\<lparr>vy_con := sin ang * speed * 0.7\<rparr>;
          (u9, r10) = rand_Float64 r9
      in (p2\<lparr>vz_con := (u9 * 2 - 1) * 0.5\<rparr>, r10))"

text \<open>
  \<open>spawnExplosion\<close>: up to 600 fire particles; the loop breaks at the first \<open>nil\<close>, and a
  particle is constructed only when a slot was found. \<open>spawnExplosionLoop_con n\<close> is the loop
  with \<open>n\<close> iterations left.
\<close>

fun spawnExplosionLoop_con :: "nat \<Rightarrow> real \<Rightarrow> real \<Rightarrow> rng \<Rightarrow> Game_con \<Rightarrow> rng \<times> Game_con" where
  "spawnExplosionLoop_con 0 px py r g = (r, g)"
| "spawnExplosionLoop_con (Suc n) px py r g =
     (case allocateParticle_con g of
        Some k \<Rightarrow>
          (let (p, r') = newFireParticle_con px py r
           in spawnExplosionLoop_con n px py r' (store_con k p g))
      | None \<Rightarrow> (r, g))"

definition spawnExplosion_con :: "real \<Rightarrow> real \<Rightarrow> rng \<Rightarrow> Game_con \<Rightarrow> rng \<times> Game_con" where
  "spawnExplosion_con px py r g = spawnExplosionLoop_con 600 px py r g"

text \<open>
  \<open>Game.Update\<close>: the explosion at a click, then \<open>update\<close> on every active particle.
  \<open>Game.Draw\<close> of this program reads the pool and assigns only to the vertex and index
  buffers; it is not part of this section.
\<close>

definition Update_con :: "(int \<times> int) option \<Rightarrow> rng \<Rightarrow> Game_con \<Rightarrow> rng \<times> Game_con" where
  "Update_con click r g =
     (let (r1, g1) =
            (case click of
               Some (mx, my) \<Rightarrow> spawnExplosion_con (real_of_int mx) (real_of_int my) r g
             | None \<Rightarrow> (r, g))
      in (r1, g1\<lparr>particles_con :=
                   map (\<lambda>p. if active_con p then update_con p else p) (particles_con g1)\<rparr>))"

definition activeCount_con :: "Game_con \<Rightarrow> nat" where
  "activeCount_con g = length (filter active_con (particles_con g))"

definition freeCount_con :: "Game_con \<Rightarrow> nat" where
  "freeCount_con g = length (filter (\<lambda>p. \<not> active_con p) (particles_con g))"

section \<open>Auxiliary predicates and example inputs\<close>

text \<open>
  \<open>keeps_active_sf g g'\<close>: every slot that is active in \<open>g\<close> holds the same particle in \<open>g'\<close>.
\<close>

definition keeps_active_sf :: "Game_sf \<Rightarrow> Game_sf \<Rightarrow> bool" where
  "keeps_active_sf g g' =
     (\<forall>j < length (particles_sf g). active_sf (particles_sf g ! j) \<longrightarrow>
         particles_sf g' ! j = particles_sf g ! j)"

text \<open>
  Example inputs: a pool of five slots, two of them active, and a source of draws.
\<close>

definition burstPool_sf :: Game_sf where
  "burstPool_sf =
     NewGame_sf\<lparr>particles_sf :=
       [zeroParticle_sf\<lparr>active_sf := True, maxLife_sf := 60\<rparr>, zeroParticle_sf,
        zeroParticle_sf\<lparr>active_sf := True, lifetime_sf := 7, maxLife_sf := 50\<rparr>,
        zeroParticle_sf, zeroParticle_sf]\<rparr>"

definition rng0 :: rng where
  "rng0 = \<lparr>draws = (\<lambda>i. 3 * i + 1), cursor = 0\<rparr>"

text \<open>A fire particle of the show one tick before the end of its life.\<close>

definition dying_show :: Particle_show where
  "dying_show =
     \<lparr>x_show = 0, y_show = 0, z_show = 0, vx_show = 1, vy_show = 0, vz_show = 0,
      lifetime_show = 29, maxLife_show = 30, baseScale_show = 0.2, angle_show = 0,
      angularVelocity_show = 0.1, kind_show = KindFire, active_show = True\<rparr>"

text \<open>
  A bubble and a smoke particle at the origin of the world, with a tenth of their life
  left, and the bubble game at tick 91 with two such bubbles that differ in size.
\<close>

definition origin_bub :: Particle_bub where
  "origin_bub =
     \<lparr>x_bub = 0, y_bub = 0, z_bub = 0, vx_bub = 0, vy_bub = 0, vz_bub = 0,
      life_bub = 10, maxLife_bub = 100, baseSize_bub = 2,
      color_bub = \<lparr>R = 200, G = 200, B = 255, A = 255\<rparr>\<rparr>"

definition origin_ds :: Particle_ds where
  "origin_ds =
     \<lparr>x_ds = 0, y_ds = 0, z_ds = 0, vx_ds = 0, vy_ds = 0, vz_ds = 0, angle_ds = 0, spin_ds = 0,
      baseScale_ds = 0.2, life_ds = 10, maxLife_ds = 100,
      colorMix_ds = \<lparr>R = 200, G = 200, B = 255, A = 255\<rparr>\<rparr>"

definition late_bub :: Game_bub where
  "late_bub =
     \<lparr>particles_bub = [origin_bub, origin_bub\<lparr>baseSize_bub := 3\<rparr>], tick_bub = 91,
      yaw_bub = 0.364, pitch_bub = sin 0.182 * 0.15\<rparr>"

text \<open>Three particles at three depths, seen by a camera that has not turned.\<close>

definition trio_bub :: Game_bub where
  "trio_bub =
     \<lparr>particles_bub = [origin_bub, origin_bub\<lparr>z_bub := 50\<rparr>, origin_bub\<lparr>z_bub := - 50\<rparr>],
      tick_bub = 0, yaw_bub = 0, pitch_bub = 0\<rparr>"

definition trio_ds :: Game_ds where
  "trio_ds =
     \<lparr>particles_ds = [origin_ds, origin_ds\<lparr>z_ds := 50\<rparr>, origin_ds\<lparr>z_ds := - 50\<rparr>],
      tick_ds = 0, cameraYaw_ds = 0, cameraPitch_ds = 0\<rparr>"

text \<open>
  The index buffer that a batch of \<open>n\<close> quads should hold when its first vertex is number
  \<open>c\<close>, and the place in the vertex buffer that the index at position \<open>i\<close> of a batch is
  meant to name: one of the four vertices of quad \<open>i div 6\<close>.
\<close>

fun batchIndices :: "nat \<Rightarrow> nat \<Rightarrow> 16 word list" where
  "batchIndices c 0 = []"
| "batchIndices c (Suc n) = quadIndices (word_of_nat c) @ batchIndices (c + 4) n"

definition intendedVertex :: "nat \<Rightarrow> nat" where
  "intendedVertex i = 4 * (i div 6) + [0, 1, 2, 1, 3, 2] ! (i mod 6)"

text \<open>The active particles of each batch, in the order of the pool.\<close>

definition fires_sf :: "Particle_sf list \<Rightarrow> Particle_sf list" where
  "fires_sf ps = filter (\<lambda>p. active_sf p \<and> pType_sf p = TypeFire) ps"

definition smokes_sf :: "Particle_sf list \<Rightarrow> Particle_sf list" where
  "smokes_sf ps = filter (\<lambda>p. active_sf p \<and> pType_sf p \<noteq> TypeFire) ps"

text \<open>A smoke game of two slots, one of them active, with stale indices in its buffer.\<close>

definition pair_smoke :: Game_smoke where
  "pair_smoke =
     \<lparr>particles_smoke =
        Some [zeroParticle_smoke\<lparr>active_smoke := True, lifetime_smoke := 10, maxLife_smoke := 250\<rparr>,
              zeroParticle_smoke],
      emitterX_smoke = 320, emitterY_smoke = 239, vertices_smoke = [],
      indices_smoke = [7, 7, 7]\<rparr>"

text \<open>
  The particle that one iteration of the loop of \<open>spawnExplosion\<close> writes, a source of draws
  that are all zero, and the game after a click on the fresh game.
\<close>

definition blastParticle_sf :: "real \<Rightarrow> real \<Rightarrow> rng \<Rightarrow> Particle_sf" where
  "blastParticle_sf ex ey r =
     (let (p, r1) = newParticle_sf ex ey TypeFire r;
          (u1, r2) = rand_Float64 r1;
          blastAngle = u1 * 2 * pi;
          (u2, r3) = rand_Float64 r2;
          blastSpeed = u2 * 7 + 3
      in p\<lparr>vx_sf := cos blastAngle * blastSpeed, vy_sf := sin blastAngle * blastSpeed\<rparr>)"

definition rngZero :: rng where
  "rngZero = \<lparr>draws = (\<lambda>i. 0), cursor = 0\<rparr>"

definition clicked_sf :: Game_sf where
  "clicked_sf = snd (Update_sf (Some (320, 240)) rngZero NewGame_sf)"

text \<open>
  What a burst does to the pool, written as one pass over it: with a budget of \<open>n\<close>
  particles, every active slot is kept, and each of the first \<open>n\<close> inactive slots receives
  the next particle that \<open>mk\<close> makes from the random source. \<open>act\<close> is the activity flag of
  the program at hand.
\<close>

fun fillFree ::
    "('p \<Rightarrow> bool) \<Rightarrow> (rng \<Rightarrow> 'p \<times> rng) \<Rightarrow> nat \<Rightarrow> rng \<Rightarrow> 'p list \<Rightarrow> rng \<times> 'p list" where
  "fillFree act mk n r [] = (r, [])"
| "fillFree act mk n r (p # ps) =
     (if act p then
        (let (r', ps') = fillFree act mk n r ps in (r', p # ps'))
      else
        (case n of
           0 \<Rightarrow> (r, p # ps)
         | Suc m \<Rightarrow>
             (let (v, r1) = mk r;
                  (r', ps') = fillFree act mk m r1 ps
              in (r', v # ps'))))"

text \<open>The number of slots in which two pools of the same size differ.\<close>

definition changedCount :: "'p list \<Rightarrow> 'p list \<Rightarrow> nat" where
  "changedCount ps qs = length (filter (\<lambda>(p, q). q \<noteq> p) (zip ps qs))"

text \<open>
  One iteration of the loop of \<open>spawnExplosion\<close> of the smoke and fire demo as a maker of
  particles: the particle it writes and the random source it leaves.
\<close>

definition blastRng_sf :: "real \<Rightarrow> real \<Rightarrow> rng \<Rightarrow> rng" where
  "blastRng_sf ex ey r =
     (let (p, r1) = newParticle_sf ex ey TypeFire r;
          (u1, r2) = rand_Float64 r1;
          (u2, r3) = rand_Float64 r2
      in r3)"

definition blast_sf :: "real \<Rightarrow> real \<Rightarrow> rng \<Rightarrow> Particle_sf \<times> rng" where
  "blast_sf ex ey r = (blastParticle_sf ex ey r, blastRng_sf ex ey r)"

text \<open>
  A fire particle as a burst at \<open>(ex, ey)\<close> creates it: active, of age zero, with the
  lifespan, place, colour, size and speed that \<open>newParticle\<close> and the blast draw.
\<close>

definition freshFire_sf :: "real \<Rightarrow> real \<Rightarrow> Particle_sf \<Rightarrow> bool" where
  "freshFire_sf ex ey q =
     (active_sf q \<and> pType_sf q = TypeFire \<and> lifetime_sf q = 0 \<and>
      45 \<le> maxLife_sf q \<and> maxLife_sf q < 75 \<and>
      ex - 2 \<le> x_sf q \<and> x_sf q < ex + 2 \<and> ey - 2 \<le> y_sf q \<and> y_sf q < ey + 2 \<and>
      col_sf q = \<lparr>R = 255, G = 144, B = 0, A = 255\<rparr> \<and>
      0.15 \<le> baseScale_sf q \<and> baseScale_sf q < 0.2 \<and>
      9 \<le> (vx_sf q)\<^sup>2 + (vy_sf q)\<^sup>2 \<and> (vx_sf q)\<^sup>2 + (vy_sf q)\<^sup>2 < 100)"

definition freshFire_con :: "real \<Rightarrow> real \<Rightarrow> Particle_con \<Rightarrow> bool" where
  "freshFire_con px py q =
     (active_con q \<and> lifetime_con q = 0 \<and> 40 \<le> maxLife_con q \<and> maxLife_con q < 80 \<and>
      px - 2 \<le> x_con q \<and> x_con q < px + 2 \<and> py - 2 \<le> y_con q \<and> y_con q < py + 2 \<and>
      - 1 \<le> z_con q \<and> z_con q < 1 \<and>
      0.2 \<le> baseScale_con q \<and> baseScale_con q < 0.3 \<and>
      4 \<le> (vx_con q / 0.3)\<^sup>2 + (vy_con q / 0.7)\<^sup>2 \<and>
      (vx_con q / 0.3)\<^sup>2 + (vy_con q / 0.7)\<^sup>2 < 36 \<and>
      - 0.5 \<le> vz_con q \<and> vz_con q < 0.5)"

text \<open>
  \<open>created_sf ex ey g g'\<close>: slot by slot, the pool of \<open>g'\<close> holds either the particle
  that \<open>g\<close> holds there, or, in a slot that was inactive in \<open>g\<close>, a fire particle fresh
  from a burst at \<open>(ex, ey)\<close>.
\<close>

definition created_sf :: "real \<Rightarrow> real \<Rightarrow> Game_sf \<Rightarrow> Game_sf \<Rightarrow> bool" where
  "created_sf ex ey g g' =
     list_all2 (\<lambda>p q. q = p \<or> (\<not> active_sf p \<and> freshFire_sf ex ey q))
       (particles_sf g) (particles_sf g')"

definition created_con :: "real \<Rightarrow> real \<Rightarrow> Game_con \<Rightarrow> Game_con \<Rightarrow> bool" where
  "created_con px py g g' =
     list_all2 (\<lambda>p q. q = p \<or> (\<not> active_con p \<and> freshFire_con px py q))
       (particles_con g) (particles_con g')"

text \<open>
  Example states: the fresh game after \<open>m\<close> bursts in a row, the pool in the middle of a
  burst, after its first particle was written, and a pool of three slots.
\<close>

definition bursts_sf :: "nat \<Rightarrow> Game_sf" where
  "bursts_sf m = ((\<lambda>g. snd (spawnExplosion_sf 320 240 rngZero g)) ^^ m) NewGame_sf"

definition bursts_con :: "nat \<Rightarrow> Game_con" where
  "bursts_con m = ((\<lambda>g. snd (spawnExplosion_con 400 300 rngZero g)) ^^ m) NewGame_con"

definition midBurst_sf :: Game_sf where
  "midBurst_sf = snd (spawnExplosionLoop_sf 1 320 240 rngZero NewGame_sf)"

definition burstPool_con :: Game_con where
  "burstPool_con =
     NewGame_con\<lparr>particles_con :=
       [zeroParticle_con\<lparr>active_con := True, lifetime_con := 7, maxLife_con := 50\<rparr>,
        zeroParticle_con, zeroParticle_con]\<rparr>"

section \<open>Lemmas about the pool of the smoke and fire demo\<close>

lemma allocateScan_sf_None: "allocateScan_sf ps i = None \<longleftrightarrow> list_all active_sf ps"
  by (induction ps arbitrary: i) auto

lemma allocateScan_sf_Some:
  "allocateScan_sf ps i = Some k \<Longrightarrow>
     i \<le> k \<and> k < i + length ps \<and> \<not> active_sf (ps ! (k - i)) \<and> list_all active_sf (take (k - i) ps)"
proof (induction ps arbitrary: i)
  case Nil
  then show ?case by simp
next
  case (Cons p ps)
  show ?case
  proof (cases "active_sf p")
    case False
    with Cons.prems show ?thesis by simp
  next
    case True
    with Cons.prems have "allocateScan_sf ps (Suc i) = Some k" by simp
    from Cons.IH [OF this] have ih: "Suc i \<le> k" "k < Suc i + length ps"
      "\<not> active_sf (ps ! (k - Suc i))" "list_all active_sf (take (k - Suc i) ps)" by auto
    from ih(1) have eq: "k - i = Suc (k - Suc i)" by arith
    from ih True show ?thesis by (simp add: eq)
  qed
qed

lemma filter_active_update:
  "k < length ps \<Longrightarrow> \<not> active_sf (ps ! k) \<Longrightarrow> active_sf v \<Longrightarrow>
     length (filter active_sf (ps[k := v])) = Suc (length (filter active_sf ps))"
proof (induction ps arbitrary: k)
  case Nil
  then show ?case by simp
next
  case (Cons p ps)
  then show ?case by (cases k) auto
qed

lemma newParticle_sf_active: "active_sf (fst (newParticle_sf ex ey t r))"
  by (cases t) (simp_all add: newParticle_sf_def Let_def split_beta)

lemma newParticle_sf_life:
  "lifetime_sf (fst (newParticle_sf ex ey t r)) = 0 \<and>
   45 \<le> maxLife_sf (fst (newParticle_sf ex ey t r)) \<and>
   maxLife_sf (fst (newParticle_sf ex ey t r)) < 300"
  by (cases t) (simp_all add: newParticle_sf_def Let_def split_beta rand_Intn_def zeroParticle_sf_def)


lemma wrap64_id: "in_int64 i \<Longrightarrow> wrap64 i = i"
  by (simp add: wrap64_def in_int64_def)

lemma allocateParticle_sf_bound:
  "allocateParticle_sf g = Some k \<Longrightarrow> k < length (particles_sf g) \<and> \<not> active_sf (particles_sf g ! k)"
  using allocateScan_sf_Some [of "particles_sf g" 0 k] by (simp add: allocateParticle_sf_def)

lemma poolInv_sf_store:
  "poolInv_sf g \<Longrightarrow> lifeInv_sf v \<Longrightarrow> poolInv_sf (store_sf k v g)"
  by (auto simp: poolInv_sf_def store_sf_def list_all_iff dest: set_update_subset_insert [THEN subsetD])

lemma newParticle_sf_lifeInv: "lifeInv_sf (fst (newParticle_sf ex ey t r))"
  using newParticle_sf_life [of ex ey t r] by (simp add: lifeInv_sf_def)

lemma poolInv_sf_spawnLoop:
  "poolInv_sf g \<Longrightarrow> poolInv_sf (snd (spawnLoop_sf n e r g))"
proof (induction n arbitrary: r g)
  case 0
  then show ?case by simp
next
  case (Suc n)
  show ?case
  proof (cases "allocateParticle_sf g")
    case None
    with Suc show ?thesis by simp
  next
    case (Some k)
    have "poolInv_sf (store_sf k (fst (newParticle_sf (ex_sf e) (ey_sf e) (eType_sf e) r)) g)"
      using Suc.prems newParticle_sf_lifeInv by (rule poolInv_sf_store)
    from Suc.IH [OF this] Some show ?thesis by (simp add: split_beta)
  qed
qed

lemma poolInv_sf_spawnExplosionLoop:
  "poolInv_sf g \<Longrightarrow> poolInv_sf (snd (spawnExplosionLoop_sf n ex ey r g))"
proof (induction n arbitrary: r g)
  case 0
  then show ?case by simp
next
  case (Suc n)
  show ?case
  proof (cases "allocateParticle_sf g")
    case None
    with Suc show ?thesis by simp
  next
    case (Some k)
    let ?p = "fst (newParticle_sf ex ey TypeFire r)"
    have "lifeInv_sf (?p\<lparr>vx_sf := a, vy_sf := b\<rparr>)" for a b
      using newParticle_sf_lifeInv [of ex ey TypeFire r] by (simp add: lifeInv_sf_def)
    then have "poolInv_sf (store_sf k (?p\<lparr>vx_sf := a, vy_sf := b\<rparr>) g)" for a b
      using Suc.prems poolInv_sf_store by blast
    from Suc.IH [OF this] Some show ?thesis by (simp add: split_beta Let_def)
  qed
qed

lemma poolInv_sf_spawn: "poolInv_sf g \<Longrightarrow> poolInv_sf (snd (snd (spawn_sf e r g)))"
  using poolInv_sf_spawnLoop by (simp add: spawn_sf_def Let_def split_beta)

lemma poolInv_sf_spawnEmitters:
  "poolInv_sf g \<Longrightarrow> poolInv_sf (snd (snd (spawnEmitters_sf es r g)))"
proof (induction es arbitrary: r g)
  case Nil
  then show ?case by simp
next
  case (Cons e es)
  from Cons.IH [OF poolInv_sf_spawn [OF Cons.prems]] show ?case
    by (simp add: split_beta)
qed

lemma poolInv_sf_emitters [simp]: "poolInv_sf (g\<lparr>emitters_sf := es\<rparr>) = poolInv_sf g"
  by (simp add: poolInv_sf_def)

lemma poolInv_sf_spawnPhase: "poolInv_sf g \<Longrightarrow> poolInv_sf (snd (spawnPhase_sf click r g))"
proof -
  assume inv: "poolInv_sf g"
  have "poolInv_sf (snd (case click of
          Some (mx, my) \<Rightarrow> spawnExplosion_sf (real_of_int mx) (real_of_int my) r g
        | None \<Rightarrow> (r, g)))" (is "poolInv_sf (snd ?c)")
    using inv poolInv_sf_spawnExplosionLoop
    by (simp add: spawnExplosion_sf_def split: option.split prod.split)
  then have "poolInv_sf (snd (snd (spawnEmitters_sf (emitters_sf (snd ?c)) (fst ?c) (snd ?c))))"
    by (rule poolInv_sf_spawnEmitters)
  then show ?thesis
    by (simp add: spawnPhase_sf_def split_beta Let_def)
qed

lemma lifeInv_sf_tick: "lifeInv_sf p \<Longrightarrow> lifeInv_sf (tick_sf p)"
  by (auto simp: lifeInv_sf_def tick_sf_def update_sf_def Let_def wrap64_id in_int64_def)

lemma poolInv_sf_Update: "poolInv_sf g \<Longrightarrow> poolInv_sf (snd (Update_sf click r g))"
  using poolInv_sf_spawnPhase [of g click r]
  by (auto simp: Update_sf_def split_beta poolInv_sf_def list_all_iff lifeInv_sf_tick)

lemma drawLoop_sf_particles:
  "particles_sf (snd (snd (drawLoop_sf tw th ps (fc, sc, g)))) = particles_sf g"
  by (induction ps arbitrary: fc sc g) simp_all

lemma poolInv_sf_Draw: "poolInv_sf g \<Longrightarrow> poolInv_sf (Draw_sf tw th g)"
  by (simp add: Draw_sf_def poolInv_sf_def drawLoop_sf_particles)

lemma poolInv_sf_NewGame: "poolInv_sf NewGame_sf"
  by (simp add: poolInv_sf_def NewGame_sf_def list_all_iff lifeInv_sf_def zeroParticle_sf_def)

lemma reachable_sf_poolInv: "reachable_sf g \<Longrightarrow> poolInv_sf g"
  by (induction rule: reachable_sf.induct)
     (simp_all add: poolInv_sf_NewGame poolInv_sf_Update poolInv_sf_Draw)

section \<open>Lemmas about allocation and bursts\<close>

lemma allocateParticle_sf_None:
  "allocateParticle_sf g = None \<longleftrightarrow> list_all active_sf (particles_sf g)"
  by (simp add: allocateParticle_sf_def allocateScan_sf_None)

lemma activeCount_sf_full:
  "list_all active_sf (particles_sf g) \<Longrightarrow> activeCount_sf g = length (particles_sf g)"
  by (simp add: activeCount_sf_def list_all_iff)

lemma activeCount_sf_not_full:
  "k < length (particles_sf g) \<Longrightarrow> \<not> active_sf (particles_sf g ! k) \<Longrightarrow>
     activeCount_sf g < length (particles_sf g)"
  unfolding activeCount_sf_def
  by (rule length_filter_less [of "particles_sf g ! k"]) simp_all

lemma allocateScan_sf_replicate:
  "0 < n \<Longrightarrow> allocateScan_sf (replicate n zeroParticle_sf) i = Some i"
  by (cases n) (simp_all add: zeroParticle_sf_def)

lemma counts_sf: "activeCount_sf g + freeCount_sf g = length (particles_sf g)"
  unfolding activeCount_sf_def freeCount_sf_def by (rule sum_length_filter_compl)

lemma store_sf_length [simp]: "length (particles_sf (store_sf k v g)) = length (particles_sf g)"
  by (simp add: store_sf_def)

lemma activeCount_sf_store:
  "allocateParticle_sf g = Some k \<Longrightarrow> active_sf v \<Longrightarrow>
     activeCount_sf (store_sf k v g) = Suc (activeCount_sf g)"
  using allocateParticle_sf_bound [of g k]
  by (simp add: activeCount_sf_def store_sf_def filter_active_update)

lemma freeCount_sf_store:
  assumes "allocateParticle_sf g = Some k" "active_sf v"
  shows "freeCount_sf g = Suc (freeCount_sf (store_sf k v g))"
  using counts_sf [of g] counts_sf [of "store_sf k v g"] activeCount_sf_store [OF assms]
  by simp

lemma store_sf_keeps:
  "allocateParticle_sf g = Some k \<Longrightarrow> j < length (particles_sf g) \<Longrightarrow>
     active_sf (particles_sf g ! j) \<Longrightarrow> particles_sf (store_sf k v g) ! j = particles_sf g ! j"
  using allocateParticle_sf_bound [of g k]
  by (auto simp: store_sf_def nth_list_update)

lemma freeCount_sf_full: "allocateParticle_sf g = None \<Longrightarrow> freeCount_sf g = 0"
  by (simp add: allocateParticle_sf_None freeCount_sf_def list_all_iff)

lemma blast_active:
  "active_sf ((fst (newParticle_sf ex ey t r))\<lparr>vx_sf := a, vy_sf := b\<rparr>)"
  using newParticle_sf_active [of ex ey t r] by simp


lemma keeps_active_sf_refl: "keeps_active_sf g g"
  by (simp add: keeps_active_sf_def)

lemma keeps_active_sf_store_then:
  assumes a: "allocateParticle_sf g = Some k" and v: "active_sf v"
    and len: "length (particles_sf g') = length (particles_sf g)"
    and k: "keeps_active_sf (store_sf k v g) g'"
  shows "keeps_active_sf g g' \<and> particles_sf g' ! k = v"
proof -
  from allocateParticle_sf_bound [OF a] have kb: "k < length (particles_sf g)" by simp
  have "particles_sf g' ! j = particles_sf g ! j"
    if j: "j < length (particles_sf g)" "active_sf (particles_sf g ! j)" for j
  proof -
    have "particles_sf (store_sf k v g) ! j = particles_sf g ! j"
      using a j by (rule store_sf_keeps)
    with k j show ?thesis by (simp add: keeps_active_sf_def)
  qed
  moreover have "particles_sf g' ! k = v"
    using k kb v by (simp add: keeps_active_sf_def store_sf_def)
  ultimately show ?thesis by (simp add: keeps_active_sf_def)
qed

lemma spawnExplosionLoop_sf_step:
  "allocateParticle_sf g = Some k \<Longrightarrow>
     \<exists>v r'. active_sf v \<and>
       spawnExplosionLoop_sf (Suc n) ex ey r g = spawnExplosionLoop_sf n ex ey r' (store_sf k v g)"
  using blast_active by (fastforce simp: split_beta Let_def)

lemma spawnExplosionLoop_sf_keeps:
  "length (particles_sf (snd (spawnExplosionLoop_sf n ex ey r g))) = length (particles_sf g) \<and>
   keeps_active_sf g (snd (spawnExplosionLoop_sf n ex ey r g))"
proof (induction n arbitrary: r g)
  case 0
  show ?case by (simp add: keeps_active_sf_refl)
next
  case (Suc n)
  show ?case
  proof (cases "allocateParticle_sf g")
    case None
    then show ?thesis by (simp add: keeps_active_sf_refl)
  next
    case (Some k)
    from spawnExplosionLoop_sf_step [OF Some, of n ex ey r] obtain v r' where
      v: "active_sf v" and
      step: "spawnExplosionLoop_sf (Suc n) ex ey r g = spawnExplosionLoop_sf n ex ey r' (store_sf k v g)"
      by blast
    from Suc.IH [of r' "store_sf k v g"] keeps_active_sf_store_then [OF Some v]
    show ?thesis unfolding step by simp
  qed
qed

lemma spawnExplosionLoop_sf_first:
  assumes "allocateParticle_sf g = Some k"
  shows "active_sf (particles_sf (snd (spawnExplosionLoop_sf (Suc n) ex ey r g)) ! k)"
proof -
  from spawnExplosionLoop_sf_step [OF assms, of n ex ey r] obtain v r' where
    v: "active_sf v" and
    step: "spawnExplosionLoop_sf (Suc n) ex ey r g = spawnExplosionLoop_sf n ex ey r' (store_sf k v g)"
    by blast
  from spawnExplosionLoop_sf_keeps [of n ex ey r' "store_sf k v g"]
    keeps_active_sf_store_then [OF assms v] v
  show ?thesis unfolding step by simp
qed

lemma spawnExplosionLoop_sf_count:
  "activeCount_sf (snd (spawnExplosionLoop_sf n ex ey r g)) =
     activeCount_sf g + min n (freeCount_sf g)"
proof (induction n arbitrary: r g)
  case 0
  show ?case by simp
next
  case (Suc n)
  show ?case
  proof (cases "allocateParticle_sf g")
    case None
    then show ?thesis by (simp add: freeCount_sf_full)
  next
    case (Some k)
    from spawnExplosionLoop_sf_step [OF Some, of n ex ey r] obtain v r' where
      v: "active_sf v" and
      step: "spawnExplosionLoop_sf (Suc n) ex ey r g =
               spawnExplosionLoop_sf n ex ey r' (store_sf k v g)"
      by blast
    from Suc.IH [of r' "store_sf k v g"]
      activeCount_sf_store [OF Some v] freeCount_sf_store [OF Some v]
    show ?thesis unfolding step by simp
  qed
qed

lemma spawnLoop_sf_length:
  "length (particles_sf (snd (spawnLoop_sf n e r g))) = length (particles_sf g)"
proof (induction n arbitrary: r g)
  case 0
  show ?case by simp
next
  case (Suc n)
  show ?case
  proof (cases "allocateParticle_sf g")
    case None
    with Suc show ?thesis by simp
  next
    case (Some k)
    with Suc.IH [of "snd (newParticle_sf (ex_sf e) (ey_sf e) (eType_sf e) r)"
        "store_sf k (fst (newParticle_sf (ex_sf e) (ey_sf e) (eType_sf e) r)) g"]
    show ?thesis by (simp add: split_beta)
  qed
qed

lemma spawn_sf_length:
  "length (particles_sf (snd (snd (spawn_sf e r g)))) = length (particles_sf g)"
  by (simp add: spawn_sf_def Let_def split_beta spawnLoop_sf_length)

lemma spawnEmitters_sf_length:
  "length (particles_sf (snd (snd (spawnEmitters_sf es r g)))) = length (particles_sf g)"
proof (induction es arbitrary: r g)
  case Nil
  show ?case by simp
next
  case (Cons e es)
  from Cons.IH [of "fst (snd (spawn_sf e r g))" "snd (snd (spawn_sf e r g))"]
  show ?case by (simp add: split_beta spawn_sf_length)
qed

lemma spawnPhase_sf_length:
  "length (particles_sf (snd (spawnPhase_sf click r g))) = length (particles_sf g)"
proof -
  let ?c = "case click of
          Some (mx, my) \<Rightarrow> spawnExplosion_sf (real_of_int mx) (real_of_int my) r g
        | None \<Rightarrow> (r, g)"
  have "length (particles_sf (snd ?c)) = length (particles_sf g)"
    using spawnExplosionLoop_sf_keeps
    by (simp add: spawnExplosion_sf_def split: option.split prod.split)
  then show ?thesis
    by (simp add: spawnPhase_sf_def split_beta Let_def spawnEmitters_sf_length)
qed

lemma Update_sf_length:
  "length (particles_sf (snd (Update_sf click r g))) = length (particles_sf g)"
  by (simp add: Update_sf_def split_beta spawnPhase_sf_length)

lemma Draw_sf_length: "length (particles_sf (Draw_sf tw th g)) = length (particles_sf g)"
  by (simp add: Draw_sf_def drawLoop_sf_particles)

subsection \<open>One pass over the pool\<close>

lemma fillFree_0: "fillFree act mk 0 r ps = (r, ps)"
  by (induction ps) (simp_all add: split_beta)

lemma fillFree_prefix:
  "list_all act as \<Longrightarrow>
     fillFree act mk n r (as @ ps) =
       (fst (fillFree act mk n r ps), as @ snd (fillFree act mk n r ps))"
  by (induction as) (simp_all add: split_beta)

lemma fillFree_full: "list_all act ps \<Longrightarrow> fillFree act mk n r ps = (r, ps)"
  using fillFree_prefix [of act ps mk n r "[]"] by simp

lemma fillFree_length: "length (snd (fillFree act mk n r ps)) = length ps"
proof (induction ps arbitrary: n r)
  case Nil
  show ?case by simp
next
  case (Cons p ps)
  then show ?case by (cases n) (simp_all add: split_beta)
qed

lemma fillFree_created:
  assumes "\<And>r. fresh (fst (mk r))"
  shows "list_all2 (\<lambda>p q. q = p \<or> (\<not> act p \<and> fresh q)) ps (snd (fillFree act mk n r ps))"
proof (induction ps arbitrary: n r)
  case Nil
  show ?case by simp
next
  case (Cons p ps)
  show ?case
  proof (cases n)
    case 0
    with Cons show ?thesis by (simp add: split_beta list.rel_refl)
  next
    case (Suc m)
    with Cons assms show ?thesis by (simp add: split_beta)
  qed
qed

lemma fillFree_count:
  assumes "\<And>r. act (fst (mk r))"
  shows "length (filter act (snd (fillFree act mk n r ps))) =
           length (filter act ps) + min n (length (filter (\<lambda>p. \<not> act p) ps))"
proof (induction ps arbitrary: n r)
  case Nil
  show ?case by simp
next
  case (Cons p ps)
  show ?case
  proof (cases n)
    case 0
    with Cons show ?thesis by (simp add: split_beta)
  next
    case (Suc m)
    with Cons assms show ?thesis by (simp add: split_beta)
  qed
qed

lemma changedCount_created:
  "list_all2 (\<lambda>p q. q = p \<or> (\<not> act p \<and> act q)) ps qs \<Longrightarrow>
     length (filter act qs) = length (filter act ps) + changedCount ps qs"
  unfolding changedCount_def
  by (induction rule: list_all2_induct) auto

lemma fillFree_changed:
  assumes "\<And>r. act (fst (mk r))"
  shows "changedCount ps (snd (fillFree act mk n r ps)) =
           min n (length (filter (\<lambda>p. \<not> act p) ps))"
proof -
  have "list_all2 (\<lambda>p q. q = p \<or> (\<not> act p \<and> act q)) ps (snd (fillFree act mk n r ps))"
    using assms by (rule fillFree_created)
  from changedCount_created [OF this] fillFree_count [of act mk n r ps, OF assms]
  show ?thesis by simp
qed

subsection \<open>The burst of the smoke and fire demo is one pass\<close>

lemma rand_Float64_range: "0 \<le> fst (rand_Float64 r) \<and> fst (rand_Float64 r) < 1"
proof -
  have "draws r (cursor r) mod 2 ^ 53 < (2 ^ 53 :: nat)" by simp
  then have "real (draws r (cursor r) mod 2 ^ 53) < real (2 ^ 53 :: nat)"
    by (simp only: of_nat_less_iff)
  then show ?thesis by (simp add: rand_Float64_def)
qed

lemma blastParticle_sf_fresh: "freshFire_sf ex ey (blastParticle_sf ex ey r)"
proof -
  define r1 where "r1 = snd (rand_Float64 r)"
  define r2 where "r2 = snd (rand_Float64 r1)"
  define r3 where "r3 = snd (rand_Float64 r2)"
  define r4 where "r4 = snd (rand_Float64 r3)"
  define r5 where "r5 = snd (rand_Intn 30 r4)"
  define r6 where "r6 = snd (rand_Float64 r5)"
  define r7 where "r7 = snd (rand_Intn 2 r6)"
  define r8 where "r8 = snd (rand_Float64 r7)"
  define r9 where "r9 = snd (rand_Float64 r8)"
  define r10 where "r10 = snd (rand_Float64 r9)"
  define a where "a = fst (rand_Float64 r9) * 2 * pi"
  define s where "s = fst (rand_Float64 r10) * 7 + 3"
  have eq: "blastParticle_sf ex ey r =
      zeroParticle_sf\<lparr>active_sf := True, pType_sf := TypeFire,
        x_sf := ex + fst (rand_Float64 r) * 4 - 2, y_sf := ey + fst (rand_Float64 r1) * 4 - 2,
        angle_sf := fst (rand_Float64 r2) * 2 * pi,
        angularVelocity_sf := (fst (rand_Float64 r3) * 2 - 1) * 0.05,
        maxLife_sf := fst (rand_Intn 30 r4) + 45,
        vx_sf := cos a * s, vy_sf := sin a * s,
        col_sf := \<lparr>R = 255, G = 144, B = 0, A = 255\<rparr>,
        baseScale_sf := fst (rand_Float64 r8) * 0.05 + 0.15\<rparr>"
    by (simp add: blastParticle_sf_def newParticle_sf_def Let_def split_beta
        r1_def r2_def r3_def r4_def r5_def r6_def r7_def r8_def r9_def r10_def a_def s_def)
  have s: "3 \<le> s" "s < 10"
    using rand_Float64_range [of r10] by (simp_all add: s_def)
  have "(cos a * s)\<^sup>2 + (sin a * s)\<^sup>2 = s\<^sup>2 * ((cos a)\<^sup>2 + (sin a)\<^sup>2)"
    by (simp only: power_mult_distrib distrib_left mult.commute)
  also have "\<dots> = s\<^sup>2" by (simp only: sin_cos_squared_add2 mult_1_right)
  finally have sq: "(cos a * s)\<^sup>2 + (sin a * s)\<^sup>2 = s\<^sup>2" .
  have "3\<^sup>2 \<le> s\<^sup>2" using s(1) by (intro power_mono) simp_all
  moreover have "s\<^sup>2 < 10\<^sup>2" using s by (intro power_strict_mono) simp_all
  ultimately have sb: "9 \<le> s\<^sup>2" "s\<^sup>2 < 100" by simp_all
  have u: "0 \<le> fst (rand_Float64 q)" "fst (rand_Float64 q) < 1" for q
    using rand_Float64_range [of q] by simp_all
  have m: "0 \<le> fst (rand_Intn 30 r4)" "fst (rand_Intn 30 r4) < 30"
    by (simp_all add: rand_Intn_def)
  show ?thesis
    unfolding eq freshFire_sf_def using sb m u [of r] u [of r1] u [of r8]
    by (simp add: zeroParticle_sf_def sq)
qed

lemma blast_sf_fresh: "freshFire_sf ex ey (fst (blast_sf ex ey r))"
  by (simp add: blast_sf_def blastParticle_sf_fresh)

lemma blast_sf_active: "active_sf (fst (blast_sf ex ey r))"
  using blast_sf_fresh [of ex ey r] by (simp add: freshFire_sf_def)

lemma spawnExplosionLoop_sf_Suc:
  "spawnExplosionLoop_sf (Suc n) ex ey r g =
     (case allocateParticle_sf g of
        Some k \<Rightarrow> spawnExplosionLoop_sf n ex ey (snd (blast_sf ex ey r))
                    (store_sf k (fst (blast_sf ex ey r)) g)
      | None \<Rightarrow> (r, g))"
  by (simp add: blast_sf_def blastRng_sf_def blastParticle_sf_def split_beta Let_def
      split: option.split)

lemma allocateScan_sf_split:
  assumes "allocateScan_sf ps 0 = Some k"
  shows "ps = take k ps @ ps ! k # drop (Suc k) ps \<and> k < length ps \<and>
         list_all active_sf (take k ps) \<and> \<not> active_sf (ps ! k)"
  using allocateScan_sf_Some [OF assms] by (simp add: id_take_nth_drop [symmetric])

lemma spawnExplosionLoop_sf_fillFree:
  "spawnExplosionLoop_sf n ex ey r g =
     (fst (fillFree active_sf (blast_sf ex ey) n r (particles_sf g)),
      g\<lparr>particles_sf := snd (fillFree active_sf (blast_sf ex ey) n r (particles_sf g))\<rparr>)"
proof (induction n arbitrary: r g)
  case 0
  show ?case by (simp add: fillFree_0)
next
  case (Suc n)
  show ?case
  proof (cases "allocateParticle_sf g")
    case None
    then have "list_all active_sf (particles_sf g)"
      by (simp add: allocateParticle_sf_None)
    then have "fillFree active_sf (blast_sf ex ey) (Suc n) r (particles_sf g) = (r, particles_sf g)"
      by (rule fillFree_full)
    with None show ?thesis by (simp only: spawnExplosionLoop_sf_Suc) simp
  next
    case (Some k)
    let ?ps = "particles_sf g"
    let ?as = "take k ?ps" and ?bs = "drop (Suc k) ?ps"
    let ?v = "fst (blast_sf ex ey r)" and ?r = "snd (blast_sf ex ey r)"
    let ?F = "fillFree active_sf (blast_sf ex ey) n ?r ?bs"
    from Some have "allocateScan_sf ?ps 0 = Some k" by (simp add: allocateParticle_sf_def)
    from allocateScan_sf_split [OF this]
    have sp: "?ps = ?as @ ?ps ! k # ?bs" and k: "k < length ?ps"
      and as: "list_all active_sf ?as" and nk: "\<not> active_sf (?ps ! k)" by simp_all
    have upd: "?ps[k := ?v] = (?as @ [?v]) @ ?bs"
      using k by (simp add: upd_conv_take_nth_drop)
    have as': "list_all active_sf (?as @ [?v])"
      using as blast_sf_active by simp
    have left: "spawnExplosionLoop_sf (Suc n) ex ey r g =
        (fst ?F, g\<lparr>particles_sf := ?as @ ?v # snd ?F\<rparr>)"
      using Some Suc.IH [of ?r "store_sf k ?v g"]
      by (simp only: spawnExplosionLoop_sf_Suc)
         (simp add: store_sf_def upd fillFree_prefix [OF as'] del: append_assoc)
    have "fillFree active_sf (blast_sf ex ey) (Suc n) r (?as @ ?ps ! k # ?bs) =
        (fst ?F, ?as @ ?v # snd ?F)"
      using nk by (simp add: fillFree_prefix [OF as] split_beta)
    with sp have right: "fillFree active_sf (blast_sf ex ey) (Suc n) r ?ps =
        (fst ?F, ?as @ ?v # snd ?F)"
      by simp
    show ?thesis unfolding left right by simp
  qed
qed

lemma spawnExplosionLoop_sf_created:
  "created_sf ex ey g (snd (spawnExplosionLoop_sf n ex ey r g))"
  unfolding created_sf_def spawnExplosionLoop_sf_fillFree [of n ex ey r g]
  using fillFree_created [of "freshFire_sf ex ey" "blast_sf ex ey" active_sf "particles_sf g" n r]
  by (simp add: blast_sf_fresh)

lemma spawnExplosionLoop_sf_changed:
  "changedCount (particles_sf g) (particles_sf (snd (spawnExplosionLoop_sf n ex ey r g))) =
     min n (freeCount_sf g)"
  unfolding spawnExplosionLoop_sf_fillFree [of n ex ey r g] freeCount_sf_def
  using fillFree_changed [of active_sf "blast_sf ex ey" "particles_sf g" n r]
  by (simp add: blast_sf_active)

text \<open>With draws that are all zero, every particle of a burst is the same.\<close>

lemma rand_Float64_zero:
  "rand_Float64 (rngZero\<lparr>cursor := c\<rparr>) = (0, rngZero\<lparr>cursor := Suc c\<rparr>)"
  by (simp add: rand_Float64_def rngZero_def)

lemma rand_Intn_zero:
  "rand_Intn n (rngZero\<lparr>cursor := c\<rparr>) = (0, rngZero\<lparr>cursor := Suc c\<rparr>)"
  by (simp add: rand_Intn_def rngZero_def)

lemma rngZero_cursor: "rngZero = rngZero\<lparr>cursor := 0\<rparr>"
  by (simp add: rngZero_def)

lemma blast_sf_zero:
  "blast_sf ex ey (rngZero\<lparr>cursor := c\<rparr>) =
     (zeroParticle_sf\<lparr>active_sf := True, pType_sf := TypeFire, x_sf := ex - 2, y_sf := ey - 2,
        angle_sf := 0, angularVelocity_sf := - 0.05, maxLife_sf := 45,
        vx_sf := 3, vy_sf := 0, col_sf := \<lparr>R = 255, G = 144, B = 0, A = 255\<rparr>,
        baseScale_sf := 0.15\<rparr>,
      rngZero\<lparr>cursor := c + 11\<rparr>)"
  by (simp add: blast_sf_def blastParticle_sf_def blastRng_sf_def newParticle_sf_def
      rand_Float64_zero rand_Intn_zero Let_def zeroParticle_sf_def)

subsection \<open>The pool of Concert.main.go\<close>

lemma allocateScan_con_None: "allocateScan_con ps i = None \<longleftrightarrow> list_all active_con ps"
  by (induction ps arbitrary: i) auto

lemma allocateScan_con_Some:
  "allocateScan_con ps i = Some k \<Longrightarrow>
     i \<le> k \<and> k < i + length ps \<and> \<not> active_con (ps ! (k - i)) \<and>
     list_all active_con (take (k - i) ps)"
proof (induction ps arbitrary: i)
  case Nil
  then show ?case by simp
next
  case (Cons p ps)
  show ?case
  proof (cases "active_con p")
    case False
    with Cons.prems show ?thesis by simp
  next
    case True
    with Cons.prems have "allocateScan_con ps (Suc i) = Some k" by simp
    from Cons.IH [OF this] have ih: "Suc i \<le> k" "k < Suc i + length ps"
      "\<not> active_con (ps ! (k - Suc i))" "list_all active_con (take (k - Suc i) ps)" by auto
    from ih(1) have eq: "k - i = Suc (k - Suc i)" by arith
    from ih True show ?thesis by (simp add: eq)
  qed
qed

lemma allocateScan_con_split:
  assumes "allocateScan_con ps 0 = Some k"
  shows "ps = take k ps @ ps ! k # drop (Suc k) ps \<and> k < length ps \<and>
         list_all active_con (take k ps) \<and> \<not> active_con (ps ! k)"
  using allocateScan_con_Some [OF assms] by (simp add: id_take_nth_drop [symmetric])

lemma allocateScan_con_replicate:
  "0 < n \<Longrightarrow> allocateScan_con (replicate n zeroParticle_con) i = Some i"
  by (cases n) (simp_all add: zeroParticle_con_def)

lemma counts_con: "activeCount_con g + freeCount_con g = length (particles_con g)"
  unfolding activeCount_con_def freeCount_con_def by (rule sum_length_filter_compl)

lemma newFireParticle_con_fresh: "freshFire_con px py (fst (newFireParticle_con px py r))"
proof -
  define r1 where "r1 = snd (rand_Float64 r)"
  define r2 where "r2 = snd (rand_Float64 r1)"
  define r3 where "r3 = snd (rand_Float64 r2)"
  define r4 where "r4 = snd (rand_Float64 r3)"
  define r5 where "r5 = snd (rand_Float64 r4)"
  define r6 where "r6 = snd (rand_Intn 40 r5)"
  define r7 where "r7 = snd (rand_Float64 r6)"
  define r8 where "r8 = snd (rand_Float64 r7)"
  define r9 where "r9 = snd (rand_Float64 r8)"
  define a where "a = fst (rand_Float64 r7) * 2 * pi"
  define s where "s = fst (rand_Float64 r8) * 4 + 2"
  have eq: "fst (newFireParticle_con px py r) =
      zeroParticle_con\<lparr>active_con := True,
        x_con := px + fst (rand_Float64 r) * 4 - 2, y_con := py + fst (rand_Float64 r1) * 4 - 2,
        z_con := fst (rand_Float64 r2) * 2 - 1,
        angle_con := fst (rand_Float64 r3) * 2 * pi,
        angularVelocity_con := (fst (rand_Float64 r4) * 2 - 1) * 0.1,
        maxLife_con := fst (rand_Intn 40 r5) + 40,
        baseScale_con := fst (rand_Float64 r6) * 0.1 + 0.2,
        vx_con := cos a * s * 0.3, vy_con := sin a * s * 0.7,
        vz_con := (fst (rand_Float64 r9) * 2 - 1) * 0.5\<rparr>"
    by (simp add: newFireParticle_con_def Let_def split_beta
        r1_def r2_def r3_def r4_def r5_def r6_def r7_def r8_def r9_def a_def s_def)
  have s: "2 \<le> s" "s < 6"
    using rand_Float64_range [of r8] by (simp_all add: s_def)
  have "(cos a * s)\<^sup>2 + (sin a * s)\<^sup>2 = s\<^sup>2 * ((cos a)\<^sup>2 + (sin a)\<^sup>2)"
    by (simp only: power_mult_distrib distrib_left mult.commute)
  also have "\<dots> = s\<^sup>2" by (simp only: sin_cos_squared_add2 mult_1_right)
  finally have sq: "(cos a * s)\<^sup>2 + (sin a * s)\<^sup>2 = s\<^sup>2" .
  have "2\<^sup>2 \<le> s\<^sup>2" using s(1) by (intro power_mono) simp_all
  moreover have "s\<^sup>2 < 6\<^sup>2" using s by (intro power_strict_mono) simp_all
  ultimately have sb: "4 \<le> s\<^sup>2" "s\<^sup>2 < 36" by simp_all
  have u: "0 \<le> fst (rand_Float64 q)" "fst (rand_Float64 q) < 1" for q
    using rand_Float64_range [of q] by simp_all
  have m: "0 \<le> fst (rand_Intn 40 r5)" "fst (rand_Intn 40 r5) < 40"
    by (simp_all add: rand_Intn_def)
  from sq have sq': "(s * cos a)\<^sup>2 + (s * sin a)\<^sup>2 = s\<^sup>2"
    by (simp only: mult.commute)
  show ?thesis
    unfolding eq freshFire_con_def
    using sb m u [of r] u [of r1] u [of r2] u [of r6] u [of r9]
    by (simp add: zeroParticle_con_def sq')
qed

lemma newFireParticle_con_active: "active_con (fst (newFireParticle_con px py r))"
  using newFireParticle_con_fresh [of px py r] by (simp add: freshFire_con_def)

lemma spawnExplosionLoop_con_fillFree:
  "spawnExplosionLoop_con n px py r g =
     (fst (fillFree active_con (newFireParticle_con px py) n r (particles_con g)),
      g\<lparr>particles_con :=
          snd (fillFree active_con (newFireParticle_con px py) n r (particles_con g))\<rparr>)"
proof (induction n arbitrary: r g)
  case 0
  show ?case by (simp add: fillFree_0)
next
  case (Suc n)
  show ?case
  proof (cases "allocateParticle_con g")
    case None
    then have "list_all active_con (particles_con g)"
      by (simp add: allocateParticle_con_def allocateScan_con_None)
    then have "fillFree active_con (newFireParticle_con px py) (Suc n) r (particles_con g) =
        (r, particles_con g)"
      by (rule fillFree_full)
    with None show ?thesis by simp
  next
    case (Some k)
    let ?ps = "particles_con g"
    let ?as = "take k ?ps" and ?bs = "drop (Suc k) ?ps"
    let ?v = "fst (newFireParticle_con px py r)" and ?r = "snd (newFireParticle_con px py r)"
    let ?F = "fillFree active_con (newFireParticle_con px py) n ?r ?bs"
    from Some have "allocateScan_con ?ps 0 = Some k" by (simp add: allocateParticle_con_def)
    from allocateScan_con_split [OF this]
    have sp: "?ps = ?as @ ?ps ! k # ?bs" and k: "k < length ?ps"
      and as: "list_all active_con ?as" and nk: "\<not> active_con (?ps ! k)" by simp_all
    have upd: "?ps[k := ?v] = (?as @ [?v]) @ ?bs"
      using k by (simp add: upd_conv_take_nth_drop)
    have as': "list_all active_con (?as @ [?v])"
      using as newFireParticle_con_active by simp
    have left: "spawnExplosionLoop_con (Suc n) px py r g =
        (fst ?F, g\<lparr>particles_con := ?as @ ?v # snd ?F\<rparr>)"
      using Some Suc.IH [of ?r "store_con k ?v g"]
      by (simp add: split_beta store_con_def upd fillFree_prefix [OF as'] del: append_assoc)
    have "fillFree active_con (newFireParticle_con px py) (Suc n) r (?as @ ?ps ! k # ?bs) =
        (fst ?F, ?as @ ?v # snd ?F)"
      using nk by (simp add: fillFree_prefix [OF as] split_beta)
    with sp have right: "fillFree active_con (newFireParticle_con px py) (Suc n) r ?ps =
        (fst ?F, ?as @ ?v # snd ?F)"
      by simp
    show ?thesis unfolding left right by simp
  qed
qed

lemma spawnExplosionLoop_con_length:
  "length (particles_con (snd (spawnExplosionLoop_con n px py r g))) = length (particles_con g)"
  by (simp add: spawnExplosionLoop_con_fillFree [of n px py r g] fillFree_length)

lemma spawnExplosionLoop_con_count:
  "activeCount_con (snd (spawnExplosionLoop_con n px py r g)) =
     activeCount_con g + min n (freeCount_con g)"
  unfolding spawnExplosionLoop_con_fillFree [of n px py r g] activeCount_con_def freeCount_con_def
  using fillFree_count [of active_con "newFireParticle_con px py" n r "particles_con g"]
  by (simp add: newFireParticle_con_active)

lemma spawnExplosionLoop_con_changed:
  "changedCount (particles_con g) (particles_con (snd (spawnExplosionLoop_con n px py r g))) =
     min n (freeCount_con g)"
  unfolding spawnExplosionLoop_con_fillFree [of n px py r g] freeCount_con_def
  using fillFree_changed [of active_con "newFireParticle_con px py" "particles_con g" n r]
  by (simp add: newFireParticle_con_active)

lemma spawnExplosionLoop_con_created:
  "created_con px py g (snd (spawnExplosionLoop_con n px py r g))"
  unfolding created_con_def spawnExplosionLoop_con_fillFree [of n px py r g]
  using fillFree_created [of "freshFire_con px py" "newFireParticle_con px py" active_con
      "particles_con g" n r]
  by (simp add: newFireParticle_con_fresh)

lemma Update_con_length:
  "length (particles_con (snd (Update_con click r g))) = length (particles_con g)"
  by (simp add: Update_con_def split_beta spawnExplosion_con_def spawnExplosionLoop_con_length
      split: option.split)

lemma newFireParticle_con_zero:
  "newFireParticle_con px py (rngZero\<lparr>cursor := c\<rparr>) =
     (zeroParticle_con\<lparr>active_con := True, x_con := px - 2, y_con := py - 2, z_con := - 1,
        angle_con := 0, angularVelocity_con := - 0.1, maxLife_con := 40, baseScale_con := 0.2,
        vx_con := 0.6, vy_con := 0, vz_con := - 0.5\<rparr>,
      rngZero\<lparr>cursor := c + 10\<rparr>)"
  by (simp add: newFireParticle_con_def rand_Float64_zero rand_Intn_zero Let_def
      zeroParticle_con_def)

subsection \<open>Bursts in a row fill the pool\<close>

lemma burst_fill_arith: "min (a::nat) c + min b (c - min a c) = min (b + a) c"
  by (cases "a \<le> c") (auto simp: min_def)

lemma bursts_sf_count:
  "length (particles_sf (bursts_sf m)) = 10000 \<and>
   activeCount_sf (bursts_sf m) = min (500 * m) 10000"
proof (induction m)
  case 0
  show ?case
    by (simp add: bursts_sf_def NewGame_sf_def maxParticles_sf_def activeCount_sf_def
        zeroParticle_sf_def)
next
  case (Suc m)
  let ?g = "bursts_sf m"
  have step: "bursts_sf (Suc m) = snd (spawnExplosionLoop_sf 500 320 240 rngZero ?g)"
    by (simp add: bursts_sf_def spawnExplosion_sf_def)
  from Suc counts_sf [of ?g] have f: "freeCount_sf ?g = 10000 - min (500 * m) 10000"
    by simp
  from Suc f spawnExplosionLoop_sf_keeps [of 500 320 240 rngZero ?g]
    spawnExplosionLoop_sf_count [of 500 320 240 rngZero ?g]
    burst_fill_arith [of "500 * m" 10000 500]
  show ?case unfolding step by simp
qed

lemma bursts_con_count:
  "length (particles_con (bursts_con m)) = 8000 \<and>
   activeCount_con (bursts_con m) = min (600 * m) 8000"
proof (induction m)
  case 0
  show ?case
    by (simp add: bursts_con_def NewGame_con_def maxParticles_con_def activeCount_con_def
        zeroParticle_con_def)
next
  case (Suc m)
  let ?g = "bursts_con m"
  have step: "bursts_con (Suc m) = snd (spawnExplosionLoop_con 600 400 300 rngZero ?g)"
    by (simp add: bursts_con_def spawnExplosion_con_def)
  from Suc counts_con [of ?g] have f: "freeCount_con ?g = 8000 - min (600 * m) 8000"
    by simp
  from Suc f spawnExplosionLoop_con_length [of 600 400 300 rngZero ?g]
    spawnExplosionLoop_con_count [of 600 400 300 rngZero ?g]
    burst_fill_arith [of "600 * m" 8000 600]
  show ?case unfolding step by simp
qed

lemma midBurst_sf_pool:
  "particles_sf midBurst_sf =
     fst (blast_sf 320 240 rngZero) # replicate 9999 zeroParticle_sf"
proof -
  have r: "replicate 10000 zeroParticle_sf = zeroParticle_sf # replicate 9999 zeroParticle_sf"
    using replicate_Suc [of 9999 zeroParticle_sf] by simp
  have na: "\<not> active_sf zeroParticle_sf" by (simp add: zeroParticle_sf_def)
  have one: "fillFree active_sf (blast_sf 320 240) (Suc 0) rngZero
        (zeroParticle_sf # replicate 9999 zeroParticle_sf) =
      (snd (blast_sf 320 240 rngZero),
       fst (blast_sf 320 240 rngZero) # replicate 9999 zeroParticle_sf)"
    by (simp add: split_beta fillFree_0 na)
  have pool: "particles_sf NewGame_sf = zeroParticle_sf # replicate 9999 zeroParticle_sf"
    by (simp add: NewGame_sf_def maxParticles_sf_def r)
  let ?F = "fillFree active_sf (blast_sf 320 240) 1 rngZero (particles_sf NewGame_sf)"
  have eq: "spawnExplosionLoop_sf 1 320 240 rngZero NewGame_sf =
      (fst ?F, NewGame_sf\<lparr>particles_sf := snd ?F\<rparr>)"
    by (rule spawnExplosionLoop_sf_fillFree)
  have F: "?F = (snd (blast_sf 320 240 rngZero),
       fst (blast_sf 320 240 rngZero) # replicate 9999 zeroParticle_sf)"
    unfolding pool One_nat_def by (rule one)
  show ?thesis
    unfolding midBurst_sf_def eq F by simp
qed

section \<open>The pool never exceeds its capacity\<close>

text \<open>
  Claim C1. Take a pool of \<open>maxParticles\<close> slots with any particles in it: the pool at the
  start of a tick, between two spawns of a burst or in the middle of the integration loop.
  The number of active particles is at most the capacity. \<open>allocateParticle\<close> returns
  \<open>nil\<close> exactly when the active count equals the capacity, and then every slot is
  active; otherwise it returns the first inactive slot of the pool, and the active count is
  below the capacity, so it never succeeds on a full pool and never fails on a pool with a
  free slot. The pool has \<open>maxParticles\<close> slots in the fresh game, and a write to a slot,
  any number of iterations of the two spawning loops, \<open>Update\<close> and \<open>Draw\<close> keep that
  number. This holds for the pool of 10000 of the smoke and fire demo and for the pool of
  8000 of \<open>Concert.main.go\<close>.
\<close>

theorem pool_capacity_sf:
  assumes "length (particles_sf g) = maxParticles_sf"
    and "length (particles_con h) = maxParticles_con"
  shows "activeCount_sf g \<le> maxParticles_sf \<and>
         (allocateParticle_sf g = None \<longleftrightarrow> activeCount_sf g = maxParticles_sf) \<and>
         (case allocateParticle_sf g of
            None \<Rightarrow> list_all active_sf (particles_sf g)
          | Some k \<Rightarrow> k < maxParticles_sf \<and> \<not> active_sf (particles_sf g ! k) \<and>
                      list_all active_sf (take k (particles_sf g)) \<and>
                      activeCount_sf g < maxParticles_sf) \<and>
         length (particles_sf NewGame_sf) = maxParticles_sf \<and>
         length (particles_sf (store_sf j v g)) = maxParticles_sf \<and>
         length (particles_sf (snd (spawnLoop_sf n e r g))) = maxParticles_sf \<and>
         length (particles_sf (snd (spawnExplosionLoop_sf n ex ey r g))) = maxParticles_sf \<and>
         length (particles_sf (snd (Update_sf click r g))) = maxParticles_sf \<and>
         length (particles_sf (Draw_sf tw th g)) = maxParticles_sf \<and>
         activeCount_con h \<le> maxParticles_con \<and>
         (allocateParticle_con h = None \<longleftrightarrow> activeCount_con h = maxParticles_con) \<and>
         (case allocateParticle_con h of
            None \<Rightarrow> list_all active_con (particles_con h)
          | Some k \<Rightarrow> k < maxParticles_con \<and> \<not> active_con (particles_con h ! k) \<and>
                      list_all active_con (take k (particles_con h)) \<and>
                      activeCount_con h < maxParticles_con) \<and>
         length (particles_con NewGame_con) = maxParticles_con \<and>
         length (particles_con (store_con j' v' h)) = maxParticles_con \<and>
         length (particles_con (snd (spawnExplosionLoop_con n px py r h))) = maxParticles_con \<and>
         length (particles_con (snd (Update_con click r h))) = maxParticles_con"
proof -
  note len = assms(1) and len' = assms(2)
  have le: "activeCount_sf g \<le> maxParticles_sf"
    unfolding len [symmetric] activeCount_sf_def by (rule length_filter_le)
  have alloc: "(allocateParticle_sf g = None \<longleftrightarrow> activeCount_sf g = maxParticles_sf) \<and>
         (case allocateParticle_sf g of
            None \<Rightarrow> list_all active_sf (particles_sf g)
          | Some k \<Rightarrow> k < maxParticles_sf \<and> \<not> active_sf (particles_sf g ! k) \<and>
                      list_all active_sf (take k (particles_sf g)) \<and>
                      activeCount_sf g < maxParticles_sf)"
  proof (cases "allocateParticle_sf g")
    case None
    then have all: "list_all active_sf (particles_sf g)"
      by (simp add: allocateParticle_sf_None)
    then have "activeCount_sf g = maxParticles_sf"
      using activeCount_sf_full [of g] len by simp
    with None all show ?thesis by simp
  next
    case (Some k)
    then have "allocateScan_sf (particles_sf g) 0 = Some k"
      by (simp add: allocateParticle_sf_def)
    from allocateScan_sf_Some [OF this]
    have k: "k < length (particles_sf g)" "\<not> active_sf (particles_sf g ! k)"
      "list_all active_sf (take k (particles_sf g))" by simp_all
    from activeCount_sf_not_full [OF k(1) k(2)] have "activeCount_sf g < maxParticles_sf"
      by (simp add: len)
    with k Some len show ?thesis by simp
  qed
  have keep: "length (particles_sf NewGame_sf) = maxParticles_sf"
    "length (particles_sf (store_sf j v g)) = maxParticles_sf"
    "length (particles_sf (snd (spawnLoop_sf n e r g))) = maxParticles_sf"
    "length (particles_sf (snd (spawnExplosionLoop_sf n ex ey r g))) = maxParticles_sf"
    "length (particles_sf (snd (Update_sf click r g))) = maxParticles_sf"
    "length (particles_sf (Draw_sf tw th g)) = maxParticles_sf"
    using len spawnExplosionLoop_sf_keeps [of n ex ey r g]
    by (simp_all add: NewGame_sf_def spawnLoop_sf_length Update_sf_length Draw_sf_length)
  have le': "activeCount_con h \<le> maxParticles_con"
    unfolding len' [symmetric] activeCount_con_def by (rule length_filter_le)
  have alloc': "(allocateParticle_con h = None \<longleftrightarrow> activeCount_con h = maxParticles_con) \<and>
         (case allocateParticle_con h of
            None \<Rightarrow> list_all active_con (particles_con h)
          | Some k \<Rightarrow> k < maxParticles_con \<and> \<not> active_con (particles_con h ! k) \<and>
                      list_all active_con (take k (particles_con h)) \<and>
                      activeCount_con h < maxParticles_con)"
  proof (cases "allocateParticle_con h")
    case None
    then have all: "list_all active_con (particles_con h)"
      by (simp add: allocateParticle_con_def allocateScan_con_None)
    then have "activeCount_con h = maxParticles_con"
      using len' by (simp add: activeCount_con_def list_all_iff)
    with None all show ?thesis by simp
  next
    case (Some k)
    then have "allocateScan_con (particles_con h) 0 = Some k"
      by (simp add: allocateParticle_con_def)
    from allocateScan_con_Some [OF this]
    have k: "k < length (particles_con h)" "\<not> active_con (particles_con h ! k)"
      "list_all active_con (take k (particles_con h))" by simp_all
    have "length (filter active_con (particles_con h)) < length (particles_con h)"
      using k(1) k(2) by (intro length_filter_less [of "particles_con h ! k"]) simp_all
    then have "activeCount_con h < maxParticles_con"
      by (simp add: activeCount_con_def len')
    with k Some len' show ?thesis by simp
  qed
  have keep': "length (particles_con NewGame_con) = maxParticles_con"
    "length (particles_con (store_con j' v' h)) = maxParticles_con"
    "length (particles_con (snd (spawnExplosionLoop_con n px py r h))) = maxParticles_con"
    "length (particles_con (snd (Update_con click r h))) = maxParticles_con"
    using len'
    by (simp_all add: NewGame_con_def store_con_def spawnExplosionLoop_con_length
        Update_con_length)
  from le alloc keep le' alloc' keep' show ?thesis by (intro conjI) simp_all
qed

text \<open>
  Twenty bursts of 500 on the fresh game fill the pool of 10000, and fourteen bursts of 600
  the pool of 8000: every slot is active and \<open>allocateParticle\<close> returns \<open>nil\<close>. In the
  middle of the first burst, after its first particle was written, one particle is active
  and the slot that is handed out next is slot 1; in the fresh game it is slot 0.
\<close>

theorem pool_capacity_sf_witness:
  "length (particles_sf (bursts_sf 20)) = maxParticles_sf \<and>
   length (particles_con (bursts_con 14)) = maxParticles_con \<and>
   activeCount_sf (bursts_sf 20) = 10000 \<and>
   allocateParticle_sf (bursts_sf 20) = None \<and>
   list_all active_sf (particles_sf (bursts_sf 20)) \<and>
   activeCount_con (bursts_con 14) = 8000 \<and>
   allocateParticle_con (bursts_con 14) = None \<and>
   length (particles_sf midBurst_sf) = maxParticles_sf \<and>
   activeCount_sf midBurst_sf = 1 \<and>
   allocateParticle_sf midBurst_sf = Some 1 \<and>
   activeCount_sf NewGame_sf = 0 \<and>
   allocateParticle_sf NewGame_sf = Some 0 \<and>
   allocateParticle_con NewGame_con = Some 0"
proof -
  have full: "length (particles_sf (bursts_sf 20)) = maxParticles_sf"
    "activeCount_sf (bursts_sf 20) = 10000"
    using bursts_sf_count [of 20] by (simp_all add: maxParticles_sf_def)
  have full': "length (particles_con (bursts_con 14)) = maxParticles_con"
    "activeCount_con (bursts_con 14) = 8000"
    using bursts_con_count [of 14] by (simp_all add: maxParticles_con_def)
  have na: "\<not> active_sf zeroParticle_sf" by (simp add: zeroParticle_sf_def)
  have mid: "length (particles_sf midBurst_sf) = maxParticles_sf"
    "activeCount_sf midBurst_sf = 1"
    "allocateParticle_sf midBurst_sf = Some 1"
    by (simp_all add: midBurst_sf_pool maxParticles_sf_def activeCount_sf_def
        allocateParticle_sf_def blast_sf_active na allocateScan_sf_replicate)
  have fresh: "activeCount_sf NewGame_sf = 0" "allocateParticle_sf NewGame_sf = Some 0"
    "allocateParticle_con NewGame_con = Some 0"
    by (simp_all add: activeCount_sf_def allocateParticle_sf_def NewGame_sf_def
        maxParticles_sf_def allocateScan_sf_replicate na allocateParticle_con_def
        NewGame_con_def maxParticles_con_def allocateScan_con_replicate)
  from pool_capacity_sf [OF full(1) full'(1)] full(2) full'(2)
  have none: "allocateParticle_sf (bursts_sf 20) = None"
    "allocateParticle_con (bursts_con 14) = None"
    by (simp_all add: maxParticles_sf_def maxParticles_con_def)
  from pool_capacity_sf [OF full(1) full'(1)] none(1)
  have "list_all active_sf (particles_sf (bursts_sf 20))"
    by simp
  with full full' none mid fresh show ?thesis by simp
qed

section \<open>A burst is best-effort\<close>

text \<open>
  Claim C4. A burst that asks for \<open>n\<close> particles when the pool has \<open>freeCount_sf g\<close>
  inactive slots creates exactly \<open>min n (freeCount_sf g)\<close> particles and drops the other
  requests without an error: the loop returns a state and nothing else. Its result is that
  of one pass over the pool which writes the next particle of the burst into each of the
  first \<open>n\<close> inactive slots and keeps every other slot. So the pool keeps its size, the
  active count grows by \<open>min n (freeCount_sf g)\<close>, exactly that many slots change, every
  changed slot was inactive and now holds a fire particle fresh from the burst (active, of
  age zero, with the lifespan, place, colour, size and blast speed that the burst draws),
  and every particle that was active before is left as it was. \<open>spawnExplosion\<close> is the
  burst of 500. The same holds for the burst of 600 of \<open>Concert.main.go\<close>, whose particles
  come from \<open>newFireParticle\<close>.
\<close>

theorem burst_best_effort_sf:
  "spawnExplosionLoop_sf n ex ey r g =
     (fst (fillFree active_sf (blast_sf ex ey) n r (particles_sf g)),
      g\<lparr>particles_sf := snd (fillFree active_sf (blast_sf ex ey) n r (particles_sf g))\<rparr>) \<and>
   length (particles_sf (snd (spawnExplosionLoop_sf n ex ey r g))) = length (particles_sf g) \<and>
   activeCount_sf (snd (spawnExplosionLoop_sf n ex ey r g)) =
     activeCount_sf g + min n (freeCount_sf g) \<and>
   changedCount (particles_sf g) (particles_sf (snd (spawnExplosionLoop_sf n ex ey r g))) =
     min n (freeCount_sf g) \<and>
   created_sf ex ey g (snd (spawnExplosionLoop_sf n ex ey r g)) \<and>
   keeps_active_sf g (snd (spawnExplosionLoop_sf n ex ey r g)) \<and>
   spawnExplosion_sf ex ey r g = spawnExplosionLoop_sf 500 ex ey r g \<and>
   spawnExplosionLoop_con m px py s h =
     (fst (fillFree active_con (newFireParticle_con px py) m s (particles_con h)),
      h\<lparr>particles_con :=
          snd (fillFree active_con (newFireParticle_con px py) m s (particles_con h))\<rparr>) \<and>
   length (particles_con (snd (spawnExplosionLoop_con m px py s h))) = length (particles_con h) \<and>
   activeCount_con (snd (spawnExplosionLoop_con m px py s h)) =
     activeCount_con h + min m (freeCount_con h) \<and>
   changedCount (particles_con h) (particles_con (snd (spawnExplosionLoop_con m px py s h))) =
     min m (freeCount_con h) \<and>
   created_con px py h (snd (spawnExplosionLoop_con m px py s h)) \<and>
   spawnExplosion_con px py s h = spawnExplosionLoop_con 600 px py s h"
proof -
  have sf: "spawnExplosionLoop_sf n ex ey r g =
     (fst (fillFree active_sf (blast_sf ex ey) n r (particles_sf g)),
      g\<lparr>particles_sf := snd (fillFree active_sf (blast_sf ex ey) n r (particles_sf g))\<rparr>)"
    by (rule spawnExplosionLoop_sf_fillFree)
  have con: "spawnExplosionLoop_con m px py s h =
     (fst (fillFree active_con (newFireParticle_con px py) m s (particles_con h)),
      h\<lparr>particles_con :=
          snd (fillFree active_con (newFireParticle_con px py) m s (particles_con h))\<rparr>)"
    by (rule spawnExplosionLoop_con_fillFree)
  have keeps: "length (particles_sf (snd (spawnExplosionLoop_sf n ex ey r g))) =
      length (particles_sf g)"
    "keeps_active_sf g (snd (spawnExplosionLoop_sf n ex ey r g))"
    using spawnExplosionLoop_sf_keeps [of n ex ey r g] by simp_all
  note rest = spawnExplosionLoop_sf_count [of n ex ey r g]
    spawnExplosionLoop_sf_changed [of g n ex ey r]
    spawnExplosionLoop_sf_created [of ex ey g n r]
    spawnExplosionLoop_con_length [of m px py s h]
    spawnExplosionLoop_con_count [of m px py s h]
    spawnExplosionLoop_con_changed [of h m px py s]
    spawnExplosionLoop_con_created [of px py h m s]
  have defs: "spawnExplosion_sf ex ey r g = spawnExplosionLoop_sf 500 ex ey r g"
    "spawnExplosion_con px py s h = spawnExplosionLoop_con 600 px py s h"
    by (simp_all add: spawnExplosion_sf_def spawnExplosion_con_def)
  from sf con keeps rest defs show ?thesis by (intro conjI)
qed

text \<open>
  The pool \<open>burstPool_sf\<close> has five slots, of which slots 0 and 2 are active. A burst of
  20 at (100, 100) whose draws are all zero writes three fire particles, into slots 1, 3 and
  4, and drops 17 requests: the random source has advanced by three times the eleven draws
  of one particle, and slots 0 and 2 are untouched. In the pool of three slots of
  \<open>Concert.main.go\<close> a burst of 5 writes two particles of ten draws each.
\<close>

theorem burst_best_effort_sf_witness:
  "activeCount_sf burstPool_sf = 2 \<and> freeCount_sf burstPool_sf = 3 \<and>
   spawnExplosionLoop_sf 20 100 100 rngZero burstPool_sf =
     (rngZero\<lparr>cursor := 33\<rparr>,
      burstPool_sf\<lparr>particles_sf :=
        [zeroParticle_sf\<lparr>active_sf := True, maxLife_sf := 60\<rparr>,
         zeroParticle_sf\<lparr>active_sf := True, pType_sf := TypeFire, x_sf := 98, y_sf := 98,
           angularVelocity_sf := - 0.05, maxLife_sf := 45, vx_sf := 3,
           col_sf := \<lparr>R = 255, G = 144, B = 0, A = 255\<rparr>, baseScale_sf := 0.15\<rparr>,
         zeroParticle_sf\<lparr>active_sf := True, lifetime_sf := 7, maxLife_sf := 50\<rparr>,
         zeroParticle_sf\<lparr>active_sf := True, pType_sf := TypeFire, x_sf := 98, y_sf := 98,
           angularVelocity_sf := - 0.05, maxLife_sf := 45, vx_sf := 3,
           col_sf := \<lparr>R = 255, G = 144, B = 0, A = 255\<rparr>, baseScale_sf := 0.15\<rparr>,
         zeroParticle_sf\<lparr>active_sf := True, pType_sf := TypeFire, x_sf := 98, y_sf := 98,
           angularVelocity_sf := - 0.05, maxLife_sf := 45, vx_sf := 3,
           col_sf := \<lparr>R = 255, G = 144, B = 0, A = 255\<rparr>, baseScale_sf := 0.15\<rparr>]\<rparr>) \<and>
   activeCount_sf (snd (spawnExplosionLoop_sf 20 100 100 rngZero burstPool_sf)) = 5 \<and>
   changedCount (particles_sf burstPool_sf)
     (particles_sf (snd (spawnExplosionLoop_sf 20 100 100 rngZero burstPool_sf))) = 3 \<and>
   activeCount_con burstPool_con = 1 \<and> freeCount_con burstPool_con = 2 \<and>
   spawnExplosionLoop_con 5 100 100 rngZero burstPool_con =
     (rngZero\<lparr>cursor := 20\<rparr>,
      burstPool_con\<lparr>particles_con :=
        [zeroParticle_con\<lparr>active_con := True, lifetime_con := 7, maxLife_con := 50\<rparr>,
         zeroParticle_con\<lparr>active_con := True, x_con := 98, y_con := 98, z_con := - 1,
           angularVelocity_con := - 0.1, maxLife_con := 40, baseScale_con := 0.2,
           vx_con := 0.6, vz_con := - 0.5\<rparr>,
         zeroParticle_con\<lparr>active_con := True, x_con := 98, y_con := 98, z_con := - 1,
           angularVelocity_con := - 0.1, maxLife_con := 40, baseScale_con := 0.2,
           vx_con := 0.6, vz_con := - 0.5\<rparr>]\<rparr>) \<and>
   activeCount_con (snd (spawnExplosionLoop_con 5 100 100 rngZero burstPool_con)) = 3"
proof -
  have z: "rngZero\<lparr>cursor := 0\<rparr> = rngZero" by (simp add: rngZero_def)
  have c: "activeCount_sf burstPool_sf = 2" "freeCount_sf burstPool_sf = 3"
    "activeCount_con burstPool_con = 1" "freeCount_con burstPool_con = 2"
    by (simp_all add: burstPool_sf_def activeCount_sf_def freeCount_sf_def zeroParticle_sf_def
        burstPool_con_def activeCount_con_def freeCount_con_def zeroParticle_con_def)
  have "fillFree active_sf (blast_sf 100 100) 20 (rngZero\<lparr>cursor := 0\<rparr>)
        (particles_sf burstPool_sf) =
      (rngZero\<lparr>cursor := 33\<rparr>,
       [zeroParticle_sf\<lparr>active_sf := True, maxLife_sf := 60\<rparr>,
         zeroParticle_sf\<lparr>active_sf := True, pType_sf := TypeFire, x_sf := 98, y_sf := 98,
           angularVelocity_sf := - 0.05, maxLife_sf := 45, vx_sf := 3,
           col_sf := \<lparr>R = 255, G = 144, B = 0, A = 255\<rparr>, baseScale_sf := 0.15\<rparr>,
         zeroParticle_sf\<lparr>active_sf := True, lifetime_sf := 7, maxLife_sf := 50\<rparr>,
         zeroParticle_sf\<lparr>active_sf := True, pType_sf := TypeFire, x_sf := 98, y_sf := 98,
           angularVelocity_sf := - 0.05, maxLife_sf := 45, vx_sf := 3,
           col_sf := \<lparr>R = 255, G = 144, B = 0, A = 255\<rparr>, baseScale_sf := 0.15\<rparr>,
         zeroParticle_sf\<lparr>active_sf := True, pType_sf := TypeFire, x_sf := 98, y_sf := 98,
           angularVelocity_sf := - 0.05, maxLife_sf := 45, vx_sf := 3,
           col_sf := \<lparr>R = 255, G = 144, B = 0, A = 255\<rparr>, baseScale_sf := 0.15\<rparr>])"
    by (simp add: burstPool_sf_def blast_sf_zero zeroParticle_sf_def)
  then have f: "fillFree active_sf (blast_sf 100 100) 20 rngZero (particles_sf burstPool_sf) =
      (rngZero\<lparr>cursor := 33\<rparr>,
       [zeroParticle_sf\<lparr>active_sf := True, maxLife_sf := 60\<rparr>,
         zeroParticle_sf\<lparr>active_sf := True, pType_sf := TypeFire, x_sf := 98, y_sf := 98,
           angularVelocity_sf := - 0.05, maxLife_sf := 45, vx_sf := 3,
           col_sf := \<lparr>R = 255, G = 144, B = 0, A = 255\<rparr>, baseScale_sf := 0.15\<rparr>,
         zeroParticle_sf\<lparr>active_sf := True, lifetime_sf := 7, maxLife_sf := 50\<rparr>,
         zeroParticle_sf\<lparr>active_sf := True, pType_sf := TypeFire, x_sf := 98, y_sf := 98,
           angularVelocity_sf := - 0.05, maxLife_sf := 45, vx_sf := 3,
           col_sf := \<lparr>R = 255, G = 144, B = 0, A = 255\<rparr>, baseScale_sf := 0.15\<rparr>,
         zeroParticle_sf\<lparr>active_sf := True, pType_sf := TypeFire, x_sf := 98, y_sf := 98,
           angularVelocity_sf := - 0.05, maxLife_sf := 45, vx_sf := 3,
           col_sf := \<lparr>R = 255, G = 144, B = 0, A = 255\<rparr>, baseScale_sf := 0.15\<rparr>])"
    unfolding z .
  have "fillFree active_con (newFireParticle_con 100 100) 5 (rngZero\<lparr>cursor := 0\<rparr>)
        (particles_con burstPool_con) =
      (rngZero\<lparr>cursor := 20\<rparr>,
        [zeroParticle_con\<lparr>active_con := True, lifetime_con := 7, maxLife_con := 50\<rparr>,
         zeroParticle_con\<lparr>active_con := True, x_con := 98, y_con := 98, z_con := - 1,
           angularVelocity_con := - 0.1, maxLife_con := 40, baseScale_con := 0.2,
           vx_con := 0.6, vz_con := - 0.5\<rparr>,
         zeroParticle_con\<lparr>active_con := True, x_con := 98, y_con := 98, z_con := - 1,
           angularVelocity_con := - 0.1, maxLife_con := 40, baseScale_con := 0.2,
           vx_con := 0.6, vz_con := - 0.5\<rparr>])"
    by (simp add: burstPool_con_def newFireParticle_con_zero zeroParticle_con_def)
  then have f': "fillFree active_con (newFireParticle_con 100 100) 5 rngZero
        (particles_con burstPool_con) =
      (rngZero\<lparr>cursor := 20\<rparr>,
        [zeroParticle_con\<lparr>active_con := True, lifetime_con := 7, maxLife_con := 50\<rparr>,
         zeroParticle_con\<lparr>active_con := True, x_con := 98, y_con := 98, z_con := - 1,
           angularVelocity_con := - 0.1, maxLife_con := 40, baseScale_con := 0.2,
           vx_con := 0.6, vz_con := - 0.5\<rparr>,
         zeroParticle_con\<lparr>active_con := True, x_con := 98, y_con := 98, z_con := - 1,
           angularVelocity_con := - 0.1, maxLife_con := 40, baseScale_con := 0.2,
           vx_con := 0.6, vz_con := - 0.5\<rparr>])"
    unfolding z .
  note t = burst_best_effort_sf [of 20 100 100 rngZero burstPool_sf 5 100 100 rngZero burstPool_con]
  have a1: "spawnExplosionLoop_sf 20 100 100 rngZero burstPool_sf =
     (fst (fillFree active_sf (blast_sf 100 100) 20 rngZero (particles_sf burstPool_sf)),
      burstPool_sf\<lparr>particles_sf :=
        snd (fillFree active_sf (blast_sf 100 100) 20 rngZero (particles_sf burstPool_sf))\<rparr>)"
    using t by (elim conjE)
  have a2: "activeCount_sf (snd (spawnExplosionLoop_sf 20 100 100 rngZero burstPool_sf)) =
      activeCount_sf burstPool_sf + min 20 (freeCount_sf burstPool_sf)"
    using t by (elim conjE)
  have a3: "changedCount (particles_sf burstPool_sf)
      (particles_sf (snd (spawnExplosionLoop_sf 20 100 100 rngZero burstPool_sf))) =
      min 20 (freeCount_sf burstPool_sf)"
    using t by (elim conjE)
  have b1: "spawnExplosionLoop_con 5 100 100 rngZero burstPool_con =
     (fst (fillFree active_con (newFireParticle_con 100 100) 5 rngZero (particles_con burstPool_con)),
      burstPool_con\<lparr>particles_con :=
        snd (fillFree active_con (newFireParticle_con 100 100) 5 rngZero
              (particles_con burstPool_con))\<rparr>)"
    using t by (elim conjE)
  have b2: "activeCount_con (snd (spawnExplosionLoop_con 5 100 100 rngZero burstPool_con)) =
      activeCount_con burstPool_con + min 5 (freeCount_con burstPool_con)"
    using t by (elim conjE)
  from c a1 [unfolded f] a2 a3 b1 [unfolded f'] b2 show ?thesis
    by (intro conjI) simp_all
qed

section \<open>Age and lifespan\<close>

lemma keeps_active_sf_trans:
  "keeps_active_sf g g' \<Longrightarrow> length (particles_sf g') = length (particles_sf g) \<Longrightarrow>
     keeps_active_sf g' g'' \<Longrightarrow> keeps_active_sf g g''"
  by (simp add: keeps_active_sf_def)

lemma spawnLoop_sf_keeps:
  "length (particles_sf (snd (spawnLoop_sf n e r g))) = length (particles_sf g) \<and>
   keeps_active_sf g (snd (spawnLoop_sf n e r g))"
proof (induction n arbitrary: r g)
  case 0
  show ?case by (simp add: keeps_active_sf_refl)
next
  case (Suc n)
  show ?case
  proof (cases "allocateParticle_sf g")
    case None
    with Suc.IH [of r g] show ?thesis by simp
  next
    case (Some k)
    let ?v = "fst (newParticle_sf (ex_sf e) (ey_sf e) (eType_sf e) r)"
    let ?r = "snd (newParticle_sf (ex_sf e) (ey_sf e) (eType_sf e) r)"
    have step: "spawnLoop_sf (Suc n) e r g = spawnLoop_sf n e ?r (store_sf k ?v g)"
      using Some by (simp add: split_beta)
    have ih: "length (particles_sf (snd (spawnLoop_sf n e ?r (store_sf k ?v g)))) =
          length (particles_sf g)"
      "keeps_active_sf (store_sf k ?v g) (snd (spawnLoop_sf n e ?r (store_sf k ?v g)))"
      using Suc.IH [of ?r "store_sf k ?v g"] by simp_all
    from keeps_active_sf_store_then [OF Some newParticle_sf_active ih] ih(1)
    show ?thesis unfolding step by simp
  qed
qed

lemma spawn_sf_keeps:
  "length (particles_sf (snd (snd (spawn_sf e r g)))) = length (particles_sf g) \<and>
   keeps_active_sf g (snd (snd (spawn_sf e r g)))"
  using spawnLoop_sf_keeps by (simp add: spawn_sf_def Let_def split_beta keeps_active_sf_refl)

lemma spawnEmitters_sf_keeps:
  "length (particles_sf (snd (snd (spawnEmitters_sf es r g)))) = length (particles_sf g) \<and>
   keeps_active_sf g (snd (snd (spawnEmitters_sf es r g)))"
proof (induction es arbitrary: r g)
  case Nil
  show ?case by (simp add: keeps_active_sf_refl)
next
  case (Cons e es)
  let ?r = "fst (snd (spawn_sf e r g))"
  let ?g = "snd (snd (spawn_sf e r g))"
  from Cons.IH [of ?r ?g] spawn_sf_keeps [of e r g]
  have "length (particles_sf (snd (snd (spawnEmitters_sf es ?r ?g)))) = length (particles_sf g) \<and>
        keeps_active_sf g (snd (snd (spawnEmitters_sf es ?r ?g)))"
    using keeps_active_sf_trans by auto
  then show ?case by (simp add: split_beta)
qed

lemma spawnPhase_sf_click:
  "particles_sf (snd (spawnPhase_sf (Some (mx, my)) r g)) =
     particles_sf (snd (snd (spawnEmitters_sf
        (emitters_sf (snd (spawnExplosion_sf (real_of_int mx) (real_of_int my) r g)))
        (fst (spawnExplosion_sf (real_of_int mx) (real_of_int my) r g))
        (snd (spawnExplosion_sf (real_of_int mx) (real_of_int my) r g)))))"
  by (simp add: spawnPhase_sf_def split_beta)

lemma spawnPhase_sf_first:
  assumes "allocateParticle_sf g = Some k"
  shows "k < length (particles_sf (snd (spawnPhase_sf (Some (mx, my)) r g))) \<and>
         active_sf (particles_sf (snd (spawnPhase_sf (Some (mx, my)) r g)) ! k)"
proof -
  let ?g1 = "snd (spawnExplosion_sf (real_of_int mx) (real_of_int my) r g)"
  have a: "active_sf (particles_sf ?g1 ! k)"
    unfolding spawnExplosion_sf_def
    using spawnExplosionLoop_sf_first [OF assms, of 499] by simp
  have l: "length (particles_sf ?g1) = length (particles_sf g)"
    unfolding spawnExplosion_sf_def using spawnExplosionLoop_sf_keeps by simp
  from allocateParticle_sf_bound [OF assms] have k: "k < length (particles_sf g)" by simp
  from spawnEmitters_sf_keeps [of "emitters_sf ?g1" "fst (spawnExplosion_sf (real_of_int mx) (real_of_int my) r g)" ?g1]
    a l k
  show ?thesis
    unfolding spawnPhase_sf_click by (simp add: keeps_active_sf_def)
qed

text \<open>
  Claim C2. In every run, a particle that is active when the integration loop of a tick
  starts has \<open>0 \<le> age < lifespan\<close>. The tick adds one to its age, and the particle is
  inactive after the tick exactly when its age has then reached its lifespan (the two are
  equal: not a tick earlier, not a tick later) or its position is outside the margin.
  The pool after \<open>Update\<close> is the pool at the start of the loop with this step applied to
  every slot.
\<close>

theorem age_below_lifespan_sf:
  assumes "reachable_sf g"
    and "p \<in> set (particles_sf (snd (spawnPhase_sf click r g)))"
    and "active_sf p"
  shows "0 \<le> lifetime_sf p \<and> lifetime_sf p < maxLife_sf p \<and>
         lifetime_sf (tick_sf p) = lifetime_sf p + 1 \<and>
         maxLife_sf (tick_sf p) = maxLife_sf p \<and>
         (\<not> active_sf (tick_sf p) \<longleftrightarrow>
            lifetime_sf (tick_sf p) = maxLife_sf p \<or> outOfBounds_sf (tick_sf p)) \<and>
         particles_sf (snd (Update_sf click r g)) =
           map tick_sf (particles_sf (snd (spawnPhase_sf click r g)))"
proof -
  from assms(1) have "poolInv_sf (snd (spawnPhase_sf click r g))"
    by (intro poolInv_sf_spawnPhase reachable_sf_poolInv)
  with assms(2) have "lifeInv_sf p"
    by (simp add: poolInv_sf_def list_all_iff)
  with assms(3) have life: "0 \<le> lifetime_sf p" "lifetime_sf p < maxLife_sf p" "maxLife_sf p < 300"
    by (simp_all add: lifeInv_sf_def)
  then have w: "wrap64 (lifetime_sf p + 1) = lifetime_sf p + 1"
    by (intro wrap64_id) (simp add: in_int64_def)
  have upd: "lifetime_sf (update_sf p) = lifetime_sf p + 1" "maxLife_sf (update_sf p) = maxLife_sf p"
    "active_sf (update_sf p) \<longleftrightarrow> lifetime_sf p + 1 < maxLife_sf p"
    using assms(3) w by (auto simp: update_sf_def Let_def)
  have t: "lifetime_sf (tick_sf p) = lifetime_sf (update_sf p)"
    "maxLife_sf (tick_sf p) = maxLife_sf (update_sf p)"
    "outOfBounds_sf (tick_sf p) = outOfBounds_sf (update_sf p)"
    "active_sf (tick_sf p) \<longleftrightarrow> active_sf (update_sf p) \<and> \<not> outOfBounds_sf (update_sf p)"
    using assms(3) by (auto simp: tick_sf_def Let_def outOfBounds_sf_def)
  have u: "particles_sf (snd (Update_sf click r g)) =
           map tick_sf (particles_sf (snd (spawnPhase_sf click r g)))"
    by (simp add: Update_sf_def split_beta)
  from life upd t u show ?thesis by auto
qed

text \<open>
  A click on the fresh game: slot 0 holds an active fire particle when the loop starts.
\<close>

theorem age_below_lifespan_sf_witness:
  "reachable_sf NewGame_sf \<and>
   particles_sf (snd (spawnPhase_sf (Some (320, 240)) rng0 NewGame_sf)) ! 0
     \<in> set (particles_sf (snd (spawnPhase_sf (Some (320, 240)) rng0 NewGame_sf))) \<and>
   active_sf (particles_sf (snd (spawnPhase_sf (Some (320, 240)) rng0 NewGame_sf)) ! 0) \<and>
   0 \<le> lifetime_sf (particles_sf (snd (spawnPhase_sf (Some (320, 240)) rng0 NewGame_sf)) ! 0) \<and>
   lifetime_sf (particles_sf (snd (spawnPhase_sf (Some (320, 240)) rng0 NewGame_sf)) ! 0)
     < maxLife_sf (particles_sf (snd (spawnPhase_sf (Some (320, 240)) rng0 NewGame_sf)) ! 0) \<and>
   particles_sf (snd (Update_sf (Some (320, 240)) rng0 NewGame_sf)) =
     map tick_sf (particles_sf (snd (spawnPhase_sf (Some (320, 240)) rng0 NewGame_sf)))"
proof -
  let ?g = "snd (spawnPhase_sf (Some (320, 240)) rng0 NewGame_sf)"
  have a: "allocateParticle_sf NewGame_sf = Some 0"
    by (simp add: allocateParticle_sf_def NewGame_sf_def maxParticles_sf_def
        allocateScan_sf_replicate)
  from spawnPhase_sf_first [OF a, of 320 240 rng0]
  have k: "0 < length (particles_sf ?g)" and act: "active_sf (particles_sf ?g ! 0)"
    by simp_all
  from k have mem: "particles_sf ?g ! 0 \<in> set (particles_sf ?g)"
    by (rule nth_mem)
  from age_below_lifespan_sf [OF reachable_NewGame_sf mem act] reachable_NewGame_sf mem act
  show ?thesis by simp
qed

section \<open>The order of the integrator\<close>

lemma wrap64_small: "wrap64 30 = 30"
  by (simp add: wrap64_def)

text \<open>
  The order of the specification against the code, on a fire particle whose age reaches
  its lifespan on this tick: the specification's order moves and turns the particle before
  it is deactivated, the code deactivates it where it stood.
\<close>

theorem integrator_order_show_counterexample:
  "active_show dying_show \<and>
   x_show (fst (update_show dying_show rng0)) = 0 \<and>
   angle_show (fst (update_show dying_show rng0)) = 0 \<and>
   x_show (fst (integrate_spec_show dying_show rng0)) = 1 \<and>
   angle_show (fst (integrate_spec_show dying_show rng0)) = 0.1 \<and>
   update_show dying_show rng0 \<noteq> integrate_spec_show dying_show rng0"
  by (simp add: dying_show_def update_show_def integrate_spec_show_def Let_def wrap64_small
      advancePosition_show_def applyForces_show_def advanceRotation_show_def
      incrementAge_show_def)

text \<open>
  Claim C3, as amended. \<open>Particle.update\<close> increments the age first. When the age has then
  reached the lifespan the particle is deactivated and nothing else about it changes on
  this tick. Otherwise the position advances by the velocity, the rotation by the angular
  velocity, and the forces of the kind are applied, and the state that results is the one
  the order of the specification gives (position, forces, rotation, age). In the show the
  game deactivates a particle that has left the margin after its update; the smoke demo
  has no margin.
\<close>

theorem integrator_order_show:
  "update_show p r =
     (if \<not> active_show p then (p, r)
      else if wrap64 (lifetime_show p + 1) \<ge> maxLife_show p
        then (p\<lparr>lifetime_show := wrap64 (lifetime_show p + 1), active_show := False\<rparr>, r)
      else integrate_spec_show p r) \<and>
   (active_show (fst (tick_show p r)) \<longleftrightarrow>
      active_show p \<and> wrap64 (lifetime_show p + 1) < maxLife_show p \<and>
      \<not> outOfBounds_show (fst (update_show p r))) \<and>
   update_smoke q =
     (if \<not> active_smoke q then q
      else if wrap64 (lifetime_smoke q + 1) \<ge> maxLife_smoke q
        then q\<lparr>lifetime_smoke := wrap64 (lifetime_smoke q + 1), active_smoke := False\<rparr>
      else integrate_spec_smoke q)"
proof -
  have a: "update_show p r =
     (if \<not> active_show p then (p, r)
      else if wrap64 (lifetime_show p + 1) \<ge> maxLife_show p
        then (p\<lparr>lifetime_show := wrap64 (lifetime_show p + 1), active_show := False\<rparr>, r)
      else integrate_spec_show p r)"
    by (simp add: update_show_def integrate_spec_show_def Let_def split_beta
      advancePosition_show_def applyForces_show_def advanceRotation_show_def
      incrementAge_show_def)
  have b: "active_show (fst (update_show p r)) \<longleftrightarrow>
      active_show p \<and> wrap64 (lifetime_show p + 1) < maxLife_show p"
    by (auto simp: update_show_def Let_def split_beta)
  have c: "active_show (fst (tick_show p r)) \<longleftrightarrow>
      active_show p \<and> wrap64 (lifetime_show p + 1) < maxLife_show p \<and>
      \<not> outOfBounds_show (fst (update_show p r))"
    using b by (auto simp: tick_show_def split_beta)
  have d: "update_smoke q =
     (if \<not> active_smoke q then q
      else if wrap64 (lifetime_smoke q + 1) \<ge> maxLife_smoke q
        then q\<lparr>lifetime_smoke := wrap64 (lifetime_smoke q + 1), active_smoke := False\<rparr>
      else integrate_spec_smoke q)"
    by (simp add: update_smoke_def integrate_spec_smoke_def Let_def)
  from a c d show ?thesis by blast
qed

section \<open>The floor of the fade\<close>

lemma Project_bub_origin:
  "x_bub p = 0 \<Longrightarrow> y_bub p = 0 \<Longrightarrow> z_bub p = 0 \<Longrightarrow>
   Project_bub p yaw pitch =
     \<lparr>proj_sx = 512, proj_sy = 384, proj_scale = 3 / 4, proj_depth = 600, proj_visible = True\<rparr>"
  by (simp add: Project_bub_def cameraSpace_bub_def Let_def
      focalLength_bub_def screenWidth_bub_def screenHeight_bub_def)

lemma items_bub_late:
  "items_bub (yaw_bub late_bub) (pitch_bub late_bub) (particles_bub late_bub) =
     [\<lparr>item_x_bub = 512, item_y_bub = 384, item_size_bub = 9 / 2, item_depth_bub = 600,
       item_alpha_bub = 1 / 15, item_col_bub = \<lparr>R = 200, G = 200, B = 255, A = 255\<rparr>\<rparr>,
      \<lparr>item_x_bub = 512, item_y_bub = 384, item_size_bub = 27 / 4, item_depth_bub = 600,
       item_alpha_bub = 1 / 15, item_col_bub = \<lparr>R = 200, G = 200, B = 255, A = 255\<rparr>\<rparr>]"
proof -
  have o: "x_bub origin_bub = 0" "y_bub origin_bub = 0" "z_bub origin_bub = 0"
    "baseSize_bub origin_bub = 2" "color_bub origin_bub = \<lparr>R = 200, G = 200, B = 255, A = 255\<rparr>"
    by (simp_all add: origin_bub_def)
  have a: "alpha_bub origin_bub 600 = 1 / 15"
    "alpha_bub (origin_bub\<lparr>baseSize_bub := 3\<rparr>) 600 = 1 / 15"
    by (simp_all add: alpha_bub_def lifeRatio_bub_def depthFade_bub_def origin_bub_def)
  show ?thesis
    by (simp add: late_bub_def Project_bub_origin o a)
qed

text \<open>
  Two bubbles at depth 600 with a tenth of their life left: both are drawn, and the fade
  multiplier of both is 1/15, below the floor of 0.2.
\<close>

theorem fade_floor_counterexample:
  "map item_alpha_bub (drawnItems_bub insertionSort late_bub) = [1 / 15, 1 / 15] \<and>
   (1 / 15 :: real) < 0.2"
proof -
  have w: "\<not> (toUint8 17 < 10)"
    by (simp add: toUint8_def)
  show ?thesis
    by (simp add: drawnItems_bub_def sortedItems_bub_def insertionSort_def items_bub_late
        depthLess_bub_def w)
qed

text \<open>
  Claim C7, as amended. The depth-based fade never drops below its floor (0.2 for the
  bubbles, 0.25 for the depth-sorted smoke), whatever the depth. The fade multiplier is the
  remaining-lifetime ratio times that depth fade, so it is at least the floor times the
  ratio; the floor bounds the depth factor, not the product.
\<close>

theorem fade_floor:
  "depthFade_bub d \<ge> 0.2 \<and> depthFade_ds d \<ge> 0.25 \<and>
   alpha_bub p d = lifeRatio_bub p * depthFade_bub d \<and>
   alpha_ds q d = lifeRatio_ds q * depthFade_ds d \<and>
   (0 \<le> lifeRatio_bub p \<longrightarrow> alpha_bub p d \<ge> 0.2 * lifeRatio_bub p) \<and>
   (0 \<le> lifeRatio_ds q \<longrightarrow> alpha_ds q d \<ge> 0.25 * lifeRatio_ds q)"
proof -
  have a: "depthFade_bub d \<ge> 0.2" by (simp add: depthFade_bub_def Let_def)
  have b: "depthFade_ds d \<ge> 0.25" by (simp add: depthFade_ds_def Let_def)
  have c: "alpha_bub p d \<ge> 0.2 * lifeRatio_bub p" if "0 \<le> lifeRatio_bub p"
    unfolding alpha_bub_def using mult_left_mono [OF a that] by simp
  have e: "alpha_ds q d \<ge> 0.25 * lifeRatio_ds q" if "0 \<le> lifeRatio_ds q"
    unfolding alpha_ds_def using mult_left_mono [OF b that] by simp
  from a b c e show ?thesis by (simp add: alpha_bub_def alpha_ds_def)
qed

text \<open>At depth 5000 the depth fade is at its floor.\<close>

theorem fade_floor_witness:
  "0 \<le> lifeRatio_bub origin_bub \<and> 0 \<le> lifeRatio_ds origin_ds \<and>
   depthFade_bub 5000 = 0.2 \<and> depthFade_ds 5000 = 0.25 \<and>
   alpha_bub origin_bub 5000 = 0.02 \<and> alpha_ds origin_ds 5000 = 0.025 \<and>
   alpha_bub origin_bub 5000 \<ge> 0.2 * lifeRatio_bub origin_bub \<and>
   alpha_ds origin_ds 5000 \<ge> 0.25 * lifeRatio_ds origin_ds"
  using fade_floor [of 5000 origin_bub origin_ds]
  by (simp add: lifeRatio_bub_def lifeRatio_ds_def origin_bub_def origin_ds_def
      depthFade_bub_def depthFade_ds_def alpha_bub_def alpha_ds_def)

section \<open>The projection and the near clip\<close>

text \<open>
  The depth-sorted smoke cloud, a particle at the origin with base scale 0.2: it is visible
  at depth 600, and the scale that \<open>projected\<close> returns is 0.3, not 450 / 600.
\<close>

theorem projection_clip_counterexample:
  "proj_visible (projected_ds origin_ds 0.364 (sin 0.182 * 0.15)) \<and>
   proj_depth (projected_ds origin_ds 0.364 (sin 0.182 * 0.15)) = 600 \<and>
   proj_scale (projected_ds origin_ds 0.364 (sin 0.182 * 0.15)) = 3 / 10 \<and>
   focalLength_ds / proj_depth (projected_ds origin_ds 0.364 (sin 0.182 * 0.15)) = 3 / 4"
  by (simp add: projected_ds_def cameraSpace_ds_def origin_ds_def Let_def focalLength_ds_def)

lemma Project_bub_cases:
  assumes "cameraSpace_bub p yaw pitch = (x1, y1, z2)"
  shows "proj_depth (Project_bub p yaw pitch) = z2"
    and "proj_visible (Project_bub p yaw pitch) \<longleftrightarrow> z2 > 10"
    and "z2 > 10 \<Longrightarrow> proj_scale (Project_bub p yaw pitch) = focalLength_bub / z2"
    and "z2 > 10 \<Longrightarrow> proj_sx (Project_bub p yaw pitch) = x1 * (focalLength_bub / z2) + screenWidth_bub / 2"
    and "z2 > 10 \<Longrightarrow> proj_sy (Project_bub p yaw pitch) = y1 * (focalLength_bub / z2) + screenHeight_bub / 2"
  using assms by (auto simp: Project_bub_def Let_def)

lemma projected_ds_cases:
  assumes "cameraSpace_ds p yaw pitch = (x1, y1, z2)"
  shows "proj_depth (projected_ds p yaw pitch) = z2"
    and "proj_visible (projected_ds p yaw pitch) \<longleftrightarrow> z2 > 10"
    and "z2 > 10 \<Longrightarrow> proj_scale (projected_ds p yaw pitch) = baseScale_ds p * (focalLength_ds / z2) * 2"
    and "z2 > 10 \<Longrightarrow> proj_sx (projected_ds p yaw pitch) = x1 * (focalLength_ds / z2) + screenWidth_ds / 2"
    and "z2 > 10 \<Longrightarrow> proj_sy (projected_ds p yaw pitch) = y1 * (focalLength_ds / z2) + screenHeight_ds / 2"
  using assms by (auto simp: projected_ds_def Let_def)

lemma perspective_bounds:
  fixes z2 :: real
  assumes "z2 > 10"
  shows "z2 \<noteq> 0" and "0 < 450 / z2" and "450 / z2 < 45"
proof -
  from assms show "z2 \<noteq> 0" by simp
  from assms show "0 < 450 / z2" by simp
  from assms have "450 < 45 * z2" by simp
  with assms show "450 / z2 < 45" by (simp add: pos_divide_less_eq)
qed

text \<open>
  Claim C6, as amended. With \<open>x1\<close>, \<open>y1\<close> the rotated lateral components and \<open>z2\<close> the
  depth: the projection returns the depth, and reports the particle visible exactly when
  the depth is above the near-clip threshold of 10. Then the perspective factor
  \<open>focalLength / depth\<close> divides by a depth that is not zero, lies strictly between 0 and
  45, and places the particle at the lateral components times the factor plus the centre
  of the screen. The scale that is returned is the factor for the bubbles, and
  \<open>baseScale\<close> times the factor times 2 for the depth-sorted smoke.
\<close>

theorem projection_clip:
  "(case cameraSpace_bub p yaw pitch of (x1, y1, z2) \<Rightarrow>
      proj_depth (Project_bub p yaw pitch) = z2 \<and>
      (proj_visible (Project_bub p yaw pitch) \<longleftrightarrow> z2 > 10) \<and>
      (z2 > 10 \<longrightarrow>
         z2 \<noteq> 0 \<and>
         proj_scale (Project_bub p yaw pitch) = focalLength_bub / z2 \<and>
         0 < proj_scale (Project_bub p yaw pitch) \<and> proj_scale (Project_bub p yaw pitch) < 45 \<and>
         proj_sx (Project_bub p yaw pitch) =
           x1 * proj_scale (Project_bub p yaw pitch) + screenWidth_bub / 2 \<and>
         proj_sy (Project_bub p yaw pitch) =
           y1 * proj_scale (Project_bub p yaw pitch) + screenHeight_bub / 2)) \<and>
   (case cameraSpace_ds q yaw pitch of (x1, y1, z2) \<Rightarrow>
      proj_depth (projected_ds q yaw pitch) = z2 \<and>
      (proj_visible (projected_ds q yaw pitch) \<longleftrightarrow> z2 > 10) \<and>
      (z2 > 10 \<longrightarrow>
         z2 \<noteq> 0 \<and> 0 < focalLength_ds / z2 \<and> focalLength_ds / z2 < 45 \<and>
         proj_scale (projected_ds q yaw pitch) = baseScale_ds q * (focalLength_ds / z2) * 2 \<and>
         proj_sx (projected_ds q yaw pitch) = x1 * (focalLength_ds / z2) + screenWidth_ds / 2 \<and>
         proj_sy (projected_ds q yaw pitch) = y1 * (focalLength_ds / z2) + screenHeight_ds / 2))"
proof -
  obtain x1 y1 z2 where c: "cameraSpace_bub p yaw pitch = (x1, y1, z2)"
    by (cases "cameraSpace_bub p yaw pitch") auto
  obtain u1 v1 w2 where d: "cameraSpace_ds q yaw pitch = (u1, v1, w2)"
    by (cases "cameraSpace_ds q yaw pitch") auto
  have bub: "proj_depth (Project_bub p yaw pitch) = z2 \<and>
      (proj_visible (Project_bub p yaw pitch) \<longleftrightarrow> z2 > 10) \<and>
      (z2 > 10 \<longrightarrow>
         z2 \<noteq> 0 \<and>
         proj_scale (Project_bub p yaw pitch) = focalLength_bub / z2 \<and>
         0 < proj_scale (Project_bub p yaw pitch) \<and> proj_scale (Project_bub p yaw pitch) < 45 \<and>
         proj_sx (Project_bub p yaw pitch) =
           x1 * proj_scale (Project_bub p yaw pitch) + screenWidth_bub / 2 \<and>
         proj_sy (Project_bub p yaw pitch) =
           y1 * proj_scale (Project_bub p yaw pitch) + screenHeight_bub / 2)"
    using Project_bub_cases [OF c] perspective_bounds [of z2]
    by (simp add: focalLength_bub_def)
  have ds: "proj_depth (projected_ds q yaw pitch) = w2 \<and>
      (proj_visible (projected_ds q yaw pitch) \<longleftrightarrow> w2 > 10) \<and>
      (w2 > 10 \<longrightarrow>
         w2 \<noteq> 0 \<and> 0 < focalLength_ds / w2 \<and> focalLength_ds / w2 < 45 \<and>
         proj_scale (projected_ds q yaw pitch) = baseScale_ds q * (focalLength_ds / w2) * 2 \<and>
         proj_sx (projected_ds q yaw pitch) = u1 * (focalLength_ds / w2) + screenWidth_ds / 2 \<and>
         proj_sy (projected_ds q yaw pitch) = v1 * (focalLength_ds / w2) + screenHeight_ds / 2)"
    using projected_ds_cases [OF d] perspective_bounds [of w2]
    by (simp add: focalLength_ds_def)
  show ?thesis unfolding c d prod.case using bub ds by (rule conjI)
qed

text \<open>
  One unit above the clip, at depth 11, a particle is visible in both programs; at depth 10
  it is not.
\<close>

theorem projection_clip_witness:
  "cameraSpace_bub (origin_bub\<lparr>x_bub := 22, z_bub := - 589\<rparr>) 0 0 = (22, 0, 11) \<and>
   cameraSpace_ds (origin_ds\<lparr>x_ds := 22, z_ds := - 589\<rparr>) 0 0 = (22, 0, 11) \<and>
   (11 :: real) > 10 \<and>
   Project_bub (origin_bub\<lparr>x_bub := 22, z_bub := - 589\<rparr>) 0 0 =
     \<lparr>proj_sx = 1412, proj_sy = 384, proj_scale = 450 / 11, proj_depth = 11,
      proj_visible = True\<rparr> \<and>
   projected_ds (origin_ds\<lparr>x_ds := 22, z_ds := - 589\<rparr>) 0 0 =
     \<lparr>proj_sx = 1412, proj_sy = 384, proj_scale = 180 / 11, proj_depth = 11,
      proj_visible = True\<rparr> \<and>
   \<not> proj_visible (Project_bub (origin_bub\<lparr>z_bub := - 590\<rparr>) 0 0) \<and>
   proj_depth (Project_bub (origin_bub\<lparr>z_bub := - 590\<rparr>) 0 0) = 10"
proof -
  have c: "cameraSpace_bub (origin_bub\<lparr>x_bub := 22, z_bub := - 589\<rparr>) 0 0 = (22, 0, 11)"
    "cameraSpace_ds (origin_ds\<lparr>x_ds := 22, z_ds := - 589\<rparr>) 0 0 = (22, 0, 11)"
    "cameraSpace_bub (origin_bub\<lparr>z_bub := - 590\<rparr>) 0 0 = (0, 0, 10)"
    by (simp_all add: cameraSpace_bub_def cameraSpace_ds_def origin_bub_def origin_ds_def Let_def)
  have b: "baseScale_ds (origin_ds\<lparr>x_ds := 22, z_ds := - 589\<rparr>) = 0.2"
    by (simp add: origin_ds_def)
  from projection_clip [of "origin_bub\<lparr>x_bub := 22, z_bub := - 589\<rparr>" 0 0
      "origin_ds\<lparr>x_ds := 22, z_ds := - 589\<rparr>"]
    projection_clip [of "origin_bub\<lparr>z_bub := - 590\<rparr>" 0 0 origin_ds]
  show ?thesis
    unfolding c
    by (simp add: b focalLength_bub_def focalLength_ds_def screenWidth_bub_def
        screenHeight_bub_def screenWidth_ds_def screenHeight_ds_def Projection.equality)
qed

section \<open>Depth order\<close>

lemma mset_insertBy: "mset (insertBy lt a bs) = add_mset a (mset bs)"
  by (induction bs) simp_all

lemma set_insertBy: "set (insertBy lt a bs) = insert a (set bs)"
  by (induction bs) auto

lemma strict_weak_order_asym: "strict_weak_order lt \<Longrightarrow> lt a b \<Longrightarrow> \<not> lt b a"
  unfolding strict_weak_order_def by blast

lemma sorted_insertBy:
  assumes swo: "strict_weak_order lt"
  shows "sorted_wrt (\<lambda>a b. \<not> lt b a) bs \<Longrightarrow> sorted_wrt (\<lambda>a b. \<not> lt b a) (insertBy lt a bs)"
proof (induction bs)
  case Nil
  show ?case by simp
next
  case (Cons b bs)
  from Cons.prems have tail: "sorted_wrt (\<lambda>a b. \<not> lt b a) bs"
    and head: "\<forall>y \<in> set bs. \<not> lt y b" by simp_all
  show ?case
  proof (cases "lt b a")
    case True
    then have "\<not> lt a b" using swo by (rule strict_weak_order_asym [rotated])
    with True head Cons.IH [OF tail] show ?thesis
      by (simp add: set_insertBy)
  next
    case False
    have "\<not> lt y a" if "y \<in> set bs" for y
    proof -
      from head that have "\<not> lt y b" by simp
      with False swo show ?thesis unfolding strict_weak_order_def by blast
    qed
    with False Cons.prems show ?thesis by simp
  qed
qed

lemma mset_foldr_insertBy: "mset (foldr (insertBy lt) xs []) = mset xs"
  by (induction xs) (simp_all add: mset_insertBy)

lemma sorted_foldr_insertBy:
  "strict_weak_order lt \<Longrightarrow> sorted_wrt (\<lambda>a b. \<not> lt b a) (foldr (insertBy lt) xs [])"
  by (induction xs) (simp_all add: sorted_insertBy)

lemma insertionSort_contract: "sort_Slice_contract insertionSort"
  by (simp add: sort_Slice_contract_def insertionSort_def mset_foldr_insertBy
      sorted_foldr_insertBy)

lemma reversingSort_contract: "sort_Slice_contract reversingSort"
  by (simp add: sort_Slice_contract_def reversingSort_def mset_foldr_insertBy
      sorted_foldr_insertBy)

lemma depthLess_bub_swo: "strict_weak_order depthLess_bub"
  by (auto simp: strict_weak_order_def depthLess_bub_def)

lemma depthLess_ds_swo: "strict_weak_order depthLess_ds"
  by (auto simp: strict_weak_order_def depthLess_ds_def)

lemma circles_bub_drawn:
  "circles_bub its =
     map (\<lambda>it. (item_x_bub it, item_y_bub it, item_size_bub it,
                (item_col_bub it)\<lparr>A := toUint8 (255 * item_alpha_bub it)\<rparr>))
         (filter (\<lambda>it. \<not> toUint8 (255 * item_alpha_bub it) < 10) its)"
  by (induction its) (simp_all add: Let_def)

text \<open>
  Stability fails within the library's contract. The game \<open>late_bub\<close> holds two bubbles
  of depth 600, the smaller one emitted first; \<open>reversingSort\<close> meets the contract of
  \<open>sort.Slice\<close> and draws the larger one first, which is not the order of a stable sort.
\<close>

theorem depth_order_counterexample:
  "sort_Slice_contract (reversingSort ::
      (drawItem_bub \<Rightarrow> drawItem_bub \<Rightarrow> bool) \<Rightarrow> drawItem_bub list \<Rightarrow> drawItem_bub list) \<and>
   map item_depth_bub (items_bub (yaw_bub late_bub) (pitch_bub late_bub) (particles_bub late_bub))
     = [600, 600] \<and>
   map item_size_bub (items_bub (yaw_bub late_bub) (pitch_bub late_bub) (particles_bub late_bub))
     = [9 / 2, 27 / 4] \<and>
   map item_size_bub (sortedItems_bub reversingSort late_bub) = [27 / 4, 9 / 2] \<and>
   map (\<lambda>(cx, cy, radius, c). radius) (Draw_bub reversingSort late_bub) = [27 / 4, 9 / 2] \<and>
   sortedItems_bub reversingSort late_bub \<noteq>
     sort_key (\<lambda>it. - item_depth_bub it)
       (items_bub (yaw_bub late_bub) (pitch_bub late_bub) (particles_bub late_bub))"
proof -
  have w: "\<not> (toUint8 17 < 10)"
    by (simp add: toUint8_def)
  show ?thesis
    by (simp add: reversingSort_contract sortedItems_bub_def reversingSort_def items_bub_late
        depthLess_bub_def Draw_bub_def Let_def w)
qed

text \<open>
  Claim C5, as amended. Whatever sort within the contract of \<open>sort.Slice\<close> the library
  provides, the sorted items are the visible items, rearranged, and of two items the one
  that comes first is at least as deep: this holds for the items that are sorted and for
  those that are then drawn, in both programs. Nothing is promised about the order of
  items of equal depth.
\<close>

theorem depth_order:
  assumes "sort_Slice_contract srt" and "sort_Slice_contract srt'"
  shows "mset (sortedItems_bub srt g) =
           mset (items_bub (yaw_bub g) (pitch_bub g) (particles_bub g)) \<and>
         sorted_wrt (\<lambda>a b. item_depth_bub a \<ge> item_depth_bub b) (sortedItems_bub srt g) \<and>
         sorted_wrt (\<lambda>a b. item_depth_bub a \<ge> item_depth_bub b) (drawnItems_bub srt g) \<and>
         Draw_bub srt g =
           map (\<lambda>it. (item_x_bub it, item_y_bub it, item_size_bub it,
                      (item_col_bub it)\<lparr>A := toUint8 (255 * item_alpha_bub it)\<rparr>))
               (drawnItems_bub srt g) \<and>
         mset (sortedItems_ds srt' h) =
           mset (items_ds (cameraYaw_ds h) (cameraPitch_ds h) (particles_ds h)) \<and>
         sorted_wrt (\<lambda>a b. item_depth_ds a \<ge> item_depth_ds b) (sortedItems_ds srt' h) \<and>
         Draw_ds srt' tw th h = map (drawImage_ds tw th) (sortedItems_ds srt' h)"
proof -
  have le: "(\<lambda>a b. \<not> depthLess_bub b a) = (\<lambda>a b. item_depth_bub a \<ge> item_depth_bub b)"
    "(\<lambda>a b. \<not> depthLess_ds b a) = (\<lambda>a b. item_depth_ds a \<ge> item_depth_ds b)"
    by (auto simp: depthLess_bub_def depthLess_ds_def fun_eq_iff)
  from assms(1) depthLess_bub_swo
  have b: "mset (sortedItems_bub srt g) =
           mset (items_bub (yaw_bub g) (pitch_bub g) (particles_bub g))"
    "sorted_wrt (\<lambda>a b. item_depth_bub a \<ge> item_depth_bub b) (sortedItems_bub srt g)"
    unfolding sort_Slice_contract_def sortedItems_bub_def le [symmetric] by blast+
  from b(2) have c: "sorted_wrt (\<lambda>a b. item_depth_bub a \<ge> item_depth_bub b) (drawnItems_bub srt g)"
    unfolding drawnItems_bub_def by (rule sorted_wrt_filter)
  from assms(2) depthLess_ds_swo
  have d: "mset (sortedItems_ds srt' h) =
           mset (items_ds (cameraYaw_ds h) (cameraPitch_ds h) (particles_ds h))"
    "sorted_wrt (\<lambda>a b. item_depth_ds a \<ge> item_depth_ds b) (sortedItems_ds srt' h)"
    unfolding sort_Slice_contract_def sortedItems_ds_def le [symmetric] by blast+
  from b c d show ?thesis
    by (simp add: Draw_bub_def Draw_ds_def circles_bub_drawn drawnItems_bub_def)
qed


lemma depths_trio:
  "map item_depth_bub (sortedItems_bub insertionSort trio_bub) = [650, 600, 550]"
  "map item_depth_ds (sortedItems_ds insertionSort trio_ds) = [650, 600, 550]"
  by (simp_all add: sortedItems_bub_def sortedItems_ds_def insertionSort_def trio_bub_def
      trio_ds_def origin_bub_def origin_ds_def Project_bub_def projected_ds_def
      cameraSpace_bub_def cameraSpace_ds_def Let_def depthLess_bub_def depthLess_ds_def)

text \<open>Insertion sort is within the contract; three particles come out farthest first.\<close>

theorem depth_order_witness:
  "sort_Slice_contract (insertionSort ::
      (drawItem_bub \<Rightarrow> drawItem_bub \<Rightarrow> bool) \<Rightarrow> drawItem_bub list \<Rightarrow> drawItem_bub list) \<and>
   sort_Slice_contract (insertionSort ::
      (drawItem_ds \<Rightarrow> drawItem_ds \<Rightarrow> bool) \<Rightarrow> drawItem_ds list \<Rightarrow> drawItem_ds list) \<and>
   map item_depth_bub (sortedItems_bub insertionSort trio_bub) = [650, 600, 550] \<and>
   sorted_wrt (\<lambda>a b. item_depth_bub a \<ge> item_depth_bub b) (sortedItems_bub insertionSort trio_bub) \<and>
   sorted_wrt (\<lambda>a b. item_depth_bub a \<ge> item_depth_bub b) (drawnItems_bub insertionSort trio_bub) \<and>
   map item_depth_ds (sortedItems_ds insertionSort trio_ds) = [650, 600, 550] \<and>
   sorted_wrt (\<lambda>a b. item_depth_ds a \<ge> item_depth_ds b) (sortedItems_ds insertionSort trio_ds)"
  using depth_order [OF insertionSort_contract insertionSort_contract, of trio_bub trio_ds 32 32]
    insertionSort_contract [where ?'a = drawItem_bub]
    insertionSort_contract [where ?'a = drawItem_ds] depths_trio
  by simp

section \<open>Normalising a vector\<close>








section \<open>The batch is rebuilt on every frame\<close>

lemma length_quadIndices [simp]: "length (quadIndices v) = 6"
  by (simp add: quadIndices_def)

lemma length_cornerVertices [simp]: "length (cornerVertices geo tw th cr cg cb ca) = 4"
  by (simp add: cornerVertices_def)

lemma length_quad_sf [simp]: "length (quad_sf tw th p) = 4"
  by (simp add: quad_sf_def Let_def)

lemma length_quad_smoke [simp]: "length (quad_smoke tw th p) = 4"
  by (simp add: quad_smoke_def Let_def)

lemma length_batchIndices [simp]: "length (batchIndices c n) = 6 * n"
  by (induction n arbitrary: c) simp_all

lemma length_concat_quads:
  "(\<And>p. length (f p) = 4) \<Longrightarrow> length (concat (map f ps)) = 4 * length ps"
  by (induction ps) simp_all

lemma unat_quadIndices:
  assumes "c + 3 < 65536"
  shows "map unat (quadIndices (word_of_nat c)) = [c, c + 1, c + 2, c + 1, c + 3, c + 2]"
proof -
  have u: "unat (word_of_nat c + (word_of_nat d :: 16 word)) = c + d" if "d \<le> 3" for d
  proof -
    have "word_of_nat c + (word_of_nat d :: 16 word) = word_of_nat (c + d)" by simp
    moreover have "unat (word_of_nat (c + d) :: 16 word) = (c + d) mod 2 ^ LENGTH(16)"
      by (rule unat_of_nat)
    moreover have "(c + d) mod 2 ^ LENGTH(16) = c + d"
      using assms that by simp
    ultimately show ?thesis by (simp only:)
  qed
  from u [of 0] u [of 1] u [of 2] u [of 3] show ?thesis
    by (simp add: quadIndices_def)
qed

lemma upt_six: "[0..<6 * Suc n] = [0, 1, 2, 3, 4, 5] @ map (\<lambda>i. i + 6) [0..<6 * n]"
proof -
  have "[0..<6 * Suc n] = [0..<6] @ [6..<6 + 6 * n]"
    by (simp add: upt_add_eq_append [of 0 6 "6 * n", simplified] add.commute)
  moreover have "[6..<6 + 6 * n] = map (\<lambda>i. i + 6) [0..<6 * n]"
    by (simp add: map_add_upt add.commute)
  moreover have "[0..<6] = [0, 1, 2, 3, 4, 5 :: nat]"
    by (simp add: upt_rec)
  ultimately show ?thesis by simp
qed

lemma unat_batchIndices:
  "c + 4 * n \<le> 65536 \<Longrightarrow>
     map unat (batchIndices c n) = map (\<lambda>i. c + intendedVertex i) [0..<6 * n]"
proof (induction n arbitrary: c)
  case 0
  show ?case by simp
next
  case (Suc n)
  from Suc.prems have c: "c + 3 < 65536" and rest: "c + 4 + 4 * n \<le> 65536" by simp_all
  have shift: "intendedVertex (i + 6) = 4 + intendedVertex i" for i
    by (simp add: intendedVertex_def)
  have iv: "intendedVertex 0 = 0" "intendedVertex (Suc 0) = 1" "intendedVertex 2 = 2"
    "intendedVertex 3 = 1" "intendedVertex 4 = 3" "intendedVertex 5 = 2"
    by (simp_all add: intendedVertex_def)
  show ?case
    unfolding upt_six
    by (simp add: unat_quadIndices [OF c] Suc.IH [OF rest] iv shift comp_def del: upt_Suc)
qed


lemma drawLoop_sf_batches:
  assumes "0 \<le> fc" and "0 \<le> sc"
    and "fc + 4 * int (length ps) < 2 ^ 63" and "sc + 4 * int (length ps) < 2 ^ 63"
  shows "drawLoop_sf tw th ps (fc, sc, g) =
     (fc + 4 * int (length (fires_sf ps)), sc + 4 * int (length (smokes_sf ps)),
      g\<lparr>fireVertices_sf := fireVertices_sf g @ concat (map (quad_sf tw th) (fires_sf ps)),
        fireIndices_sf := fireIndices_sf g @ batchIndices (nat fc) (length (fires_sf ps)),
        smokeVertices_sf := smokeVertices_sf g @ concat (map (quad_sf tw th) (smokes_sf ps)),
        smokeIndices_sf := smokeIndices_sf g @ batchIndices (nat sc) (length (smokes_sf ps))\<rparr>)"
  using assms
proof (induction ps arbitrary: fc sc g)
  case Nil
  show ?case by (simp add: fires_sf_def smokes_sf_def)
next
  case (Cons p ps)
  from Cons.prems have b: "fc + 4 * int (length ps) < 2 ^ 63" "sc + 4 * int (length ps) < 2 ^ 63"
    "fc + 4 + 4 * int (length ps) < 2 ^ 63" "sc + 4 + 4 * int (length ps) < 2 ^ 63"
    by simp_all
  from Cons.prems have w: "wrap64 (fc + 4) = fc + 4" "wrap64 (sc + 4) = sc + 4"
    by (simp_all add: wrap64_id in_int64_def)
  from Cons.prems have n: "nat (fc + 4) = nat fc + 4" "nat (sc + 4) = nat sc + 4"
    "word_of_int fc = (word_of_nat (nat fc) :: 16 word)"
    "word_of_int sc = (word_of_nat (nat sc) :: 16 word)"
    by simp_all
  show ?case
  proof (cases "active_sf p")
    case False
    with Cons.IH [OF Cons.prems(1,2) b(1,2), of g] show ?thesis
      by (simp add: fires_sf_def smokes_sf_def)
  next
    case True
    show ?thesis
    proof (cases "pType_sf p = TypeFire")
      case fire: True
      have f: "0 \<le> fc + 4" using Cons.prems(1) by simp
      from True fire Cons.IH [OF f Cons.prems(2) b(3) b(2)] show ?thesis
        by (simp add: fires_sf_def smokes_sf_def w n)
    next
      case smoke: False
      have f: "0 \<le> sc + 4" using Cons.prems(2) by simp
      from True smoke Cons.IH [OF Cons.prems(1) f b(1) b(4)] show ?thesis
        by (simp add: fires_sf_def smokes_sf_def w n)
    qed
  qed
qed

lemma drawLoop_smoke_batches:
  "length (vertices_smoke g) = c \<Longrightarrow>
   drawLoop_smoke tw th ps g =
     g\<lparr>vertices_smoke := vertices_smoke g @ concat (map (quad_smoke tw th) (filter active_smoke ps)),
       indices_smoke := indices_smoke g @ batchIndices c (length (filter active_smoke ps))\<rparr>"
proof (induction ps arbitrary: c g)
  case Nil
  show ?case by simp
next
  case (Cons p ps)
  show ?case
  proof (cases "active_smoke p")
    case False
    with Cons.IH [OF Cons.prems] show ?thesis by simp
  next
    case a: True
    let ?g = "g\<lparr>vertices_smoke := vertices_smoke g @ quad_smoke tw th p,
             indices_smoke := indices_smoke g @ quadIndices (word_of_nat (length (vertices_smoke g)))\<rparr>"
    have l: "length (vertices_smoke ?g) = c + 4" using Cons.prems by simp
    from Cons.IH [OF l] a Cons.prems show ?thesis by simp
  qed
qed

lemma Draw_sf_batches:
  assumes "length (particles_sf g) \<le> maxParticles_sf"
  shows "Draw_sf tw th g =
     g\<lparr>smokeVertices_sf := concat (map (quad_sf tw th) (smokes_sf (particles_sf g))),
       fireVertices_sf := concat (map (quad_sf tw th) (fires_sf (particles_sf g))),
       smokeIndices_sf := batchIndices 0 (length (smokes_sf (particles_sf g))),
       fireIndices_sf := batchIndices 0 (length (fires_sf (particles_sf g)))\<rparr>"
proof -
  let ?g0 = "g\<lparr>smokeVertices_sf := [], fireVertices_sf := [],
                 smokeIndices_sf := [], fireIndices_sf := []\<rparr>"
  from assms have b: "0 + 4 * int (length (particles_sf ?g0)) < 2 ^ 63"
    by (simp add: maxParticles_sf_def)
  have z: "(0 :: int) \<le> 0" by simp
  show ?thesis
    unfolding Draw_sf_def Let_def drawLoop_sf_batches [OF z z b b]
    by simp
qed

lemma Draw_smoke_batches:
  "Draw_smoke tw th h =
     h\<lparr>vertices_smoke := concat (map (quad_smoke tw th) (filter active_smoke (pool_smoke h))),
       indices_smoke := batchIndices 0 (length (filter active_smoke (pool_smoke h)))\<rparr>"
proof -
  have "length (vertices_smoke (h\<lparr>vertices_smoke := [], indices_smoke := []\<rparr>)) = 0"
    by simp
  from drawLoop_smoke_batches [OF this] show ?thesis
    by (simp add: Draw_smoke_def)
qed

lemma filter_le_pool:
  "length ps \<le> m \<Longrightarrow> 4 * m \<le> 65536 \<Longrightarrow> 0 + 4 * length (filter P ps) \<le> 65536"
  using length_filter_le [of P ps] by linarith

text \<open>
  Claim C8. For a pool within its capacity, \<open>Draw\<close> leaves the game as it was except for
  the buffers, and the buffers it leaves are determined by the particles alone: each vertex
  buffer is the quads of the active particles of its batch, in pool order, and each index
  buffer numbers those quads from zero. Drawing from a game with any other buffers gives
  the same result, so nothing of an earlier frame persists. A quad is four vertices and six
  indices, and the index at position \<open>i\<close> names vertex \<open>4 (i div 6) + [0,1,2,1,3,2] ! (i mod 6)\<close>,
  one of the four vertices of the particle it belongs to. This holds for the two batches of
  the smoke and fire demo and for the single batch of the smoke demo.
\<close>

theorem batch_rebuilt:
  assumes "length (particles_sf g) \<le> maxParticles_sf"
    and "length (pool_smoke h) \<le> maxParticles_smoke"
  shows "Draw_sf tw th g =
           g\<lparr>smokeVertices_sf := concat (map (quad_sf tw th) (smokes_sf (particles_sf g))),
             fireVertices_sf := concat (map (quad_sf tw th) (fires_sf (particles_sf g))),
             smokeIndices_sf := batchIndices 0 (length (smokes_sf (particles_sf g))),
             fireIndices_sf := batchIndices 0 (length (fires_sf (particles_sf g)))\<rparr> \<and>
         Draw_sf tw th (g\<lparr>smokeVertices_sf := v1, fireVertices_sf := v2,
                          smokeIndices_sf := i1, fireIndices_sf := i2\<rparr>) = Draw_sf tw th g \<and>
         length (quad_sf tw th p) = 4 \<and>
         length (smokeVertices_sf (Draw_sf tw th g)) = 4 * length (smokes_sf (particles_sf g)) \<and>
         length (fireVertices_sf (Draw_sf tw th g)) = 4 * length (fires_sf (particles_sf g)) \<and>
         length (smokeIndices_sf (Draw_sf tw th g)) = 6 * length (smokes_sf (particles_sf g)) \<and>
         length (fireIndices_sf (Draw_sf tw th g)) = 6 * length (fires_sf (particles_sf g)) \<and>
         map unat (smokeIndices_sf (Draw_sf tw th g)) =
           map intendedVertex [0..<6 * length (smokes_sf (particles_sf g))] \<and>
         map unat (fireIndices_sf (Draw_sf tw th g)) =
           map intendedVertex [0..<6 * length (fires_sf (particles_sf g))] \<and>
         Draw_smoke tw th h =
           h\<lparr>vertices_smoke :=
               concat (map (quad_smoke tw th) (filter active_smoke (pool_smoke h))),
             indices_smoke := batchIndices 0 (length (filter active_smoke (pool_smoke h)))\<rparr> \<and>
         Draw_smoke tw th (h\<lparr>vertices_smoke := v3, indices_smoke := i3\<rparr>) = Draw_smoke tw th h \<and>
         length (quad_smoke tw th q) = 4 \<and>
         length (vertices_smoke (Draw_smoke tw th h)) = 4 * length (filter active_smoke (pool_smoke h)) \<and>
         length (indices_smoke (Draw_smoke tw th h)) = 6 * length (filter active_smoke (pool_smoke h)) \<and>
         map unat (indices_smoke (Draw_smoke tw th h)) =
           map intendedVertex [0..<6 * length (filter active_smoke (pool_smoke h))]"
proof -
  note sf = Draw_sf_batches [OF assms(1)]
  have sf': "Draw_sf tw th (g\<lparr>smokeVertices_sf := v1, fireVertices_sf := v2,
                          smokeIndices_sf := i1, fireIndices_sf := i2\<rparr>) = Draw_sf tw th g"
    using assms(1) by (simp add: Draw_sf_batches)
  have us: "map unat (batchIndices 0 (length (smokes_sf (particles_sf g)))) =
      map intendedVertex [0..<6 * length (smokes_sf (particles_sf g))]"
    using unat_batchIndices [OF filter_le_pool [OF assms(1)], of "\<lambda>p. active_sf p \<and> pType_sf p \<noteq> TypeFire"]
    by (simp add: smokes_sf_def maxParticles_sf_def)
  have uf: "map unat (batchIndices 0 (length (fires_sf (particles_sf g)))) =
      map intendedVertex [0..<6 * length (fires_sf (particles_sf g))]"
    using unat_batchIndices [OF filter_le_pool [OF assms(1)], of "\<lambda>p. active_sf p \<and> pType_sf p = TypeFire"]
    by (simp add: fires_sf_def maxParticles_sf_def)
  note sm = Draw_smoke_batches [of tw th h]
  have sm': "Draw_smoke tw th (h\<lparr>vertices_smoke := v3, indices_smoke := i3\<rparr>) = Draw_smoke tw th h"
    by (simp add: Draw_smoke_batches pool_smoke_def)
  have um: "map unat (batchIndices 0 (length (filter active_smoke (pool_smoke h)))) =
      map intendedVertex [0..<6 * length (filter active_smoke (pool_smoke h))]"
    using unat_batchIndices [OF filter_le_pool [OF assms(2)], of active_smoke]
    by (simp add: maxParticles_smoke_def)
  have lens: "length (smokeVertices_sf (Draw_sf tw th g)) = 4 * length (smokes_sf (particles_sf g))"
    "length (fireVertices_sf (Draw_sf tw th g)) = 4 * length (fires_sf (particles_sf g))"
    "length (smokeIndices_sf (Draw_sf tw th g)) = 6 * length (smokes_sf (particles_sf g))"
    "length (fireIndices_sf (Draw_sf tw th g)) = 6 * length (fires_sf (particles_sf g))"
    "length (vertices_smoke (Draw_smoke tw th h)) = 4 * length (filter active_smoke (pool_smoke h))"
    "length (indices_smoke (Draw_smoke tw th h)) = 6 * length (filter active_smoke (pool_smoke h))"
    unfolding sf sm by (simp_all add: length_concat_quads)
  have idx: "map unat (smokeIndices_sf (Draw_sf tw th g)) =
           map intendedVertex [0..<6 * length (smokes_sf (particles_sf g))]"
    "map unat (fireIndices_sf (Draw_sf tw th g)) =
           map intendedVertex [0..<6 * length (fires_sf (particles_sf g))]"
    "map unat (indices_smoke (Draw_smoke tw th h)) =
           map intendedVertex [0..<6 * length (filter active_smoke (pool_smoke h))]"
    unfolding sf sm using us uf um by simp_all
  from sf sf' sm sm' lens idx show ?thesis by simp
qed


lemma intended12:
  "map intendedVertex [0..<12] = [0, 1, 2, 1, 3, 2, 4, 5, 6, 5, 7, 6]"
  "map intendedVertex [0..<6] = [0, 1, 2, 1, 3, 2]"
  by (simp_all add: intendedVertex_def upt_rec)

text \<open>
  The pool \<open>burstPool_sf\<close> has two active smoke particles and no fire; \<open>pair_smoke\<close> has one
  active particle. Stale buffers change nothing.
\<close>

theorem batch_rebuilt_witness:
  "length (particles_sf burstPool_sf) \<le> maxParticles_sf \<and>
   length (pool_smoke pair_smoke) \<le> maxParticles_smoke \<and>
   Draw_sf 32 32 (burstPool_sf\<lparr>smokeVertices_sf := [], fireVertices_sf := [],
       smokeIndices_sf := [9, 9, 9], fireIndices_sf := [9]\<rparr>) = Draw_sf 32 32 burstPool_sf \<and>
   map unat (smokeIndices_sf (Draw_sf 32 32 burstPool_sf)) =
     [0, 1, 2, 1, 3, 2, 4, 5, 6, 5, 7, 6] \<and>
   length (smokeVertices_sf (Draw_sf 32 32 burstPool_sf)) = 8 \<and>
   length (fireIndices_sf (Draw_sf 32 32 burstPool_sf)) = 0 \<and>
   map unat (indices_smoke (Draw_smoke 32 32 pair_smoke)) = [0, 1, 2, 1, 3, 2] \<and>
   length (vertices_smoke (Draw_smoke 32 32 pair_smoke)) = 4"
proof -
  have a: "length (particles_sf burstPool_sf) \<le> maxParticles_sf"
    by (simp add: burstPool_sf_def maxParticles_sf_def)
  have b: "length (pool_smoke pair_smoke) \<le> maxParticles_smoke"
    by (simp add: pair_smoke_def pool_smoke_def maxParticles_smoke_def)
  have c: "length (smokes_sf (particles_sf burstPool_sf)) = 2"
    "length (fires_sf (particles_sf burstPool_sf)) = 0"
    by (simp_all add: burstPool_sf_def smokes_sf_def fires_sf_def zeroParticle_sf_def)
  have d: "length (filter active_smoke (pool_smoke pair_smoke)) = 1"
    by (simp add: pair_smoke_def pool_smoke_def zeroParticle_smoke_def)
  note t = batch_rebuilt [OF a b, where tw = 32 and th = 32 and ?v1.0 = "[]" and ?v2.0 = "[]"
      and ?i1.0 = "[9, 9, 9]" and ?i2.0 = "[9]" and p = zeroParticle_sf
      and ?v3.0 = "[]" and ?i3.0 = "[]" and q = zeroParticle_smoke]
  have 1: "Draw_sf 32 32 (burstPool_sf\<lparr>smokeVertices_sf := [], fireVertices_sf := [],
       smokeIndices_sf := [9, 9, 9], fireIndices_sf := [9]\<rparr>) = Draw_sf 32 32 burstPool_sf"
    using t by (elim conjE)
  have 2: "map unat (smokeIndices_sf (Draw_sf 32 32 burstPool_sf)) =
     map intendedVertex [0..<6 * length (smokes_sf (particles_sf burstPool_sf))]"
    using t by (elim conjE)
  have 3: "length (smokeVertices_sf (Draw_sf 32 32 burstPool_sf)) =
      4 * length (smokes_sf (particles_sf burstPool_sf))"
    using t by (elim conjE)
  have 4: "length (fireIndices_sf (Draw_sf 32 32 burstPool_sf)) =
      6 * length (fires_sf (particles_sf burstPool_sf))"
    using t by (elim conjE)
  have 5: "map unat (indices_smoke (Draw_smoke 32 32 pair_smoke)) =
     map intendedVertex [0..<6 * length (filter active_smoke (pool_smoke pair_smoke))]"
    using t by (elim conjE)
  have 6: "length (vertices_smoke (Draw_smoke 32 32 pair_smoke)) =
      4 * length (filter active_smoke (pool_smoke pair_smoke))"
    using t by (elim conjE)
  from a b 1 show ?thesis
    unfolding 2 3 4 5 6 c d by (simp add: intended12)
qed

section \<open>Indices fit sixteen bits\<close>

subsection \<open>smoke: the pool stays within its capacity\<close>

lemma allocateParticle_smoke_length:
  "length (pool_smoke g) \<le> maxParticles_smoke \<Longrightarrow>
     length (pool_smoke (snd (allocateParticle_smoke g))) \<le> maxParticles_smoke"
  by (auto simp: allocateParticle_smoke_def pool_smoke_def split: option.splits)

lemma Update_smoke_length:
  assumes "length (pool_smoke g) \<le> maxParticles_smoke"
  shows "length (pool_smoke (snd (Update_smoke r g))) \<le> maxParticles_smoke"
proof -
  let ?g1 = "if particles_smoke g = None then
                  g\<lparr>particles_smoke := Some [], emitterX_smoke := screenWidth_smoke / 2,
                     emitterY_smoke := screenHeight_smoke / 2,
                     vertices_smoke := [], indices_smoke := []\<rparr>
                else g"
  have g1: "length (pool_smoke ?g1) \<le> maxParticles_smoke"
    using assms by (simp add: pool_smoke_def)
  have upd: "length (pool_smoke (g'\<lparr>particles_smoke := Some ((pool_smoke g')[k := p])\<rparr>))
      = length (pool_smoke g')" for g' k p
    by (simp add: pool_smoke_def)
  have a: "length (pool_smoke (snd (allocateParticle_smoke ?g1))) \<le> maxParticles_smoke"
    using g1 by (rule allocateParticle_smoke_length)
  have m: "length (pool_smoke (g'\<lparr>particles_smoke :=
        map_option (map f) (particles_smoke g')\<rparr>)) = length (pool_smoke g')" for g' f
    by (cases "particles_smoke g'") (simp_all add: pool_smoke_def)
  have e: "pool_smoke (g'\<lparr>emitterX_smoke := a, emitterY_smoke := b\<rparr>) = pool_smoke g'"
    "pool_smoke (g'\<lparr>emitterX_smoke := a\<rparr>) = pool_smoke g'"
    "pool_smoke (g'\<lparr>emitterY_smoke := b\<rparr>) = pool_smoke g'" for g' a b
    by (simp_all add: pool_smoke_def)
  show ?thesis
    unfolding Update_smoke_def Let_def
    using g1 a
    by (auto simp: split_beta m e upd split: option.splits prod.splits if_splits)
qed

lemma drawLoop_smoke_pool: "pool_smoke (drawLoop_smoke tw th ps g) = pool_smoke g"
  by (induction ps arbitrary: g) (simp_all add: pool_smoke_def)

lemma pool_smoke_buffers [simp]:
  "pool_smoke (g\<lparr>vertices_smoke := v, indices_smoke := i\<rparr>) = pool_smoke g"
  by (simp add: pool_smoke_def)

lemma reachable_smoke_length: "reachable_smoke h \<Longrightarrow> length (pool_smoke h) \<le> maxParticles_smoke"
proof (induction rule: reachable_smoke.induct)
  case reachable_Game0_smoke
  show ?case by (simp add: Game0_smoke_def pool_smoke_def)
next
  case (reachable_Update_smoke g r)
  then show ?case by (simp add: Update_smoke_length)
next
  case (reachable_Draw_smoke g tw th)
  then show ?case by (simp add: Draw_smoke_def drawLoop_smoke_pool)
qed


subsection \<open>show: the pool keeps its size\<close>

lemma spawnAt_show_length:
  "length (particles_show (snd (spawnAt_show px py kind r g))) = length (particles_show g)"
  by (simp add: spawnAt_show_def Let_def split_beta split: option.split)

lemma spawnBurstLoop_show_length:
  "length (particles_show (snd (spawnBurstLoop_show n px py r g))) = length (particles_show g)"
  by (induction n arbitrary: r g) (simp_all add: split_beta spawnAt_show_length)

lemma spawnBurst_show_length:
  "length (particles_show (snd (spawnBurst_show px py n r g))) = length (particles_show g)"
  by (simp add: spawnBurst_show_def spawnBurstLoop_show_length)

lemma emitLoop_show_length:
  "length (particles_show (snd (snd (emitLoop_show n ex ey kind tot r g)))) =
     length (particles_show g)"
  by (induction n arbitrary: tot r g) (simp_all add: split_beta Let_def spawnAt_show_length)

lemma emitterTurn_show_length:
  "length (particles_show (snd (snd (snd (emitterTurn_show now e tot r g))))) =
     length (particles_show g)"
  by (simp add: emitterTurn_show_def Let_def split_beta emitLoop_show_length
      spawnBurst_show_length)

lemma emitters_turns_show_length:
  "length (particles_show (snd (snd (emitters_turns_show now es tot r g)))) =
     length (particles_show g)"
  by (induction es arbitrary: tot r g) (simp_all add: split_beta emitterTurn_show_length)

lemma tickAll_show_length: "length (fst (tickAll_show ps r)) = length ps"
  by (induction ps arbitrary: r) (simp_all add: split_beta)

lemma Update_show_length:
  "length (particles_show (snd (Update_show click space r g))) = length (particles_show g)"
  unfolding Update_show_def Let_def
  by (simp add: split_beta emitters_turns_show_length tickAll_show_length
      spawnBurst_show_length split: option.split)

lemma drawLoop_show_particles:
  "particles_show (snd (drawLoop_show tw th now ps (fc, g))) = particles_show g"
  by (induction ps arbitrary: fc g) simp_all

lemma reachable_show_length: "reachable_show s \<Longrightarrow> length (particles_show s) = maxParticles_show"
proof (induction rule: reachable_show.induct)
  case (reachable_NewGame_show r)
  show ?case by (simp add: NewGame_show_def split_beta)
next
  case (reachable_Update_show g click space r)
  then show ?case by (simp add: Update_show_length)
next
  case (reachable_Draw_show g tw th r)
  then show ?case by (simp add: Draw_show_def Let_def drawLoop_show_particles)
qed

lemma length_quad_show [simp]: "length (quad_show tw th now d p) = 4"
  by (simp add: quad_show_def Let_def split_beta)

lemma drawLoop_show_batches:
  assumes "0 \<le> fc" and "fc + 4 * int (length ps) < 2 ^ 63"
  shows "drawLoop_show tw th now ps (fc, g) =
     (fc + 4 * int (length (filter active_show ps)),
      g\<lparr>vertices_show := vertices_show g
           @ concat (map (quad_show tw th now (depthOffset_show g)) (filter active_show ps)),
        indices_show := indices_show g @ batchIndices (nat fc) (length (filter active_show ps))\<rparr>)"
  using assms
proof (induction ps arbitrary: fc g)
  case Nil
  show ?case by simp
next
  case (Cons p ps)
  from Cons.prems have b: "fc + 4 * int (length ps) < 2 ^ 63"
    "fc + 4 + 4 * int (length ps) < 2 ^ 63" by simp_all
  from Cons.prems have w: "wrap64 (fc + 4) = fc + 4"
    by (simp add: wrap64_id in_int64_def)
  from Cons.prems have n: "nat (fc + 4) = nat fc + 4"
    "word_of_int fc = (word_of_nat (nat fc) :: 16 word)"
    by simp_all
  show ?case
  proof (cases "active_show p")
    case False
    with Cons.IH [OF Cons.prems(1) b(1), of g] show ?thesis by simp
  next
    case True
    have f: "0 \<le> fc + 4" using Cons.prems(1) by simp
    from True Cons.IH [OF f b(2)] show ?thesis
      by (simp add: w n)
  qed
qed

lemma Draw_show_batches:
  assumes "length (particles_show s) \<le> maxParticles_show"
  shows "snd (Draw_show tw th r s) =
     s\<lparr>vertices_show :=
         concat (map (quad_show tw th (real_of_int (gtick_show s) / 60) (depthOffset_show s))
                   (filter active_show (particles_show s))),
       indices_show := batchIndices 0 (length (filter active_show (particles_show s)))\<rparr>"
proof -
  let ?g0 = "s\<lparr>vertices_show := [], indices_show := []\<rparr>"
  from assms have b: "0 + 4 * int (length (particles_show ?g0)) < 2 ^ 63"
    by (simp add: maxParticles_show_def)
  have z: "(0 :: int) \<le> 0" by simp
  show ?thesis
    unfolding Draw_show_def Let_def snd_conv drawLoop_show_batches [OF z b]
    by simp
qed

lemma batch_within:
  assumes "length ps \<le> m" and "4 * m \<le> 65535"
  shows "4 * length (filter P ps) \<le> 4 * m"
    and "map unat (batchIndices 0 (length (filter P ps))) =
         map intendedVertex [0..<length (batchIndices 0 (length (filter P ps)))]"
proof -
  from assms(1) length_filter_le [of P ps] show "4 * length (filter P ps) \<le> 4 * m"
    by linarith
  with assms(2) have "0 + 4 * length (filter P ps) \<le> 65536" by linarith
  from unat_batchIndices [OF this] show "map unat (batchIndices 0 (length (filter P ps))) =
         map intendedVertex [0..<length (batchIndices 0 (length (filter P ps)))]"
    by simp
qed

text \<open>
  Claim C10. In every frame of a run, the vertices that \<open>Draw\<close> appends to a batch are at
  most four times the capacity of the pool, and four times the capacity is at most 65535
  in each program (40000, 32000 and, the largest, 56000). So the running vertex count
  fits a \<open>uint16\<close>, and every index in the buffer, read as a number, is the position it is
  meant to name. The games are the states of a run: the pool of such a game is within its
  capacity.
\<close>

theorem index_no_overflow:
  assumes "reachable_sf g" and "reachable_smoke h" and "reachable_show s"
  shows "4 * maxParticles_sf \<le> 65535 \<and> 4 * maxParticles_smoke \<le> 65535 \<and>
         maxVertices_show = 56000 \<and> maxVertices_show \<le> 65535 \<and>
         length (fireVertices_sf (Draw_sf tw th g)) \<le> 4 * maxParticles_sf \<and>
         length (smokeVertices_sf (Draw_sf tw th g)) \<le> 4 * maxParticles_sf \<and>
         map unat (fireIndices_sf (Draw_sf tw th g)) =
           map intendedVertex [0..<length (fireIndices_sf (Draw_sf tw th g))] \<and>
         map unat (smokeIndices_sf (Draw_sf tw th g)) =
           map intendedVertex [0..<length (smokeIndices_sf (Draw_sf tw th g))] \<and>
         length (vertices_smoke (Draw_smoke tw th h)) \<le> 4 * maxParticles_smoke \<and>
         map unat (indices_smoke (Draw_smoke tw th h)) =
           map intendedVertex [0..<length (indices_smoke (Draw_smoke tw th h))] \<and>
         length (vertices_show (snd (Draw_show tw th r s))) \<le> maxVertices_show \<and>
         map unat (indices_show (snd (Draw_show tw th r s))) =
           map intendedVertex [0..<length (indices_show (snd (Draw_show tw th r s)))]"
proof -
  have caps: "4 * maxParticles_sf \<le> 65535" "4 * maxParticles_smoke \<le> 65535"
    "maxVertices_show = 56000" "maxVertices_show \<le> 65535" "4 * maxParticles_show \<le> 65535"
    by (simp_all add: maxParticles_sf_def maxParticles_smoke_def maxVertices_show_def
        maxParticles_show_def)
  from assms(1) have lg: "length (particles_sf g) \<le> maxParticles_sf"
    using reachable_sf_poolInv by (simp add: poolInv_sf_def)
  from assms(2) have lh: "length (pool_smoke h) \<le> maxParticles_smoke"
    by (rule reachable_smoke_length)
  from assms(3) have ls: "length (particles_show s) \<le> maxParticles_show"
    using reachable_show_length by simp
  note sf = Draw_sf_batches [OF lg, of tw th]
  note sm = Draw_smoke_batches [of tw th h]
  note sh = Draw_show_batches [OF ls, of tw th r]
  have a: "length (fireVertices_sf (Draw_sf tw th g)) \<le> 4 * maxParticles_sf"
    "map unat (fireIndices_sf (Draw_sf tw th g)) =
           map intendedVertex [0..<length (fireIndices_sf (Draw_sf tw th g))]"
    unfolding sf fires_sf_def
    using batch_within [OF lg caps(1), of "\<lambda>p. active_sf p \<and> pType_sf p = TypeFire"]
    by (simp_all add: length_concat_quads)
  have b: "length (smokeVertices_sf (Draw_sf tw th g)) \<le> 4 * maxParticles_sf"
    "map unat (smokeIndices_sf (Draw_sf tw th g)) =
           map intendedVertex [0..<length (smokeIndices_sf (Draw_sf tw th g))]"
    unfolding sf smokes_sf_def
    using batch_within [OF lg caps(1), of "\<lambda>p. active_sf p \<and> pType_sf p \<noteq> TypeFire"]
    by (simp_all add: length_concat_quads)
  have c: "length (vertices_smoke (Draw_smoke tw th h)) \<le> 4 * maxParticles_smoke"
    "map unat (indices_smoke (Draw_smoke tw th h)) =
           map intendedVertex [0..<length (indices_smoke (Draw_smoke tw th h))]"
    unfolding sm
    using batch_within [OF lh caps(2), of active_smoke]
    by (simp_all add: length_concat_quads)
  have d: "length (vertices_show (snd (Draw_show tw th r s))) \<le> maxVertices_show"
    "map unat (indices_show (snd (Draw_show tw th r s))) =
           map intendedVertex [0..<length (indices_show (snd (Draw_show tw th r s)))]"
    unfolding sh
    using batch_within [OF ls caps(5), of active_show]
    by (simp_all add: length_concat_quads maxVertices_show_def mult.commute)
  from caps a b c d show ?thesis by blast
qed

lemma spawnExplosionLoop_sf_first_value:
  assumes "allocateParticle_sf g = Some k"
  shows "particles_sf (snd (spawnExplosionLoop_sf (Suc n) ex ey r g)) ! k = blastParticle_sf ex ey r"
proof -
  have act: "active_sf (blastParticle_sf ex ey r)"
    using blast_active by (simp add: blastParticle_sf_def split_beta Let_def)
  obtain r' where step: "spawnExplosionLoop_sf (Suc n) ex ey r g =
      spawnExplosionLoop_sf n ex ey r' (store_sf k (blastParticle_sf ex ey r) g)"
    using assms by (simp add: blastParticle_sf_def split_beta Let_def)
  from spawnExplosionLoop_sf_keeps [of n ex ey r' "store_sf k (blastParticle_sf ex ey r) g"]
    keeps_active_sf_store_then [OF assms act]
  show ?thesis unfolding step by simp
qed

lemma spawnPhase_sf_first_value:
  assumes "allocateParticle_sf g = Some k"
  shows "particles_sf (snd (spawnPhase_sf (Some (mx, my)) r g)) ! k =
           blastParticle_sf (real_of_int mx) (real_of_int my) r"
proof -
  let ?e = "spawnExplosion_sf (real_of_int mx) (real_of_int my) r g"
  have v: "particles_sf (snd ?e) ! k = blastParticle_sf (real_of_int mx) (real_of_int my) r"
    unfolding spawnExplosion_sf_def
    using spawnExplosionLoop_sf_first_value [OF assms, of 499] by simp
  have a: "active_sf (particles_sf (snd ?e) ! k)"
    unfolding spawnExplosion_sf_def
    using spawnExplosionLoop_sf_first [OF assms, of 499] by simp
  have l: "length (particles_sf (snd ?e)) = length (particles_sf g)"
    unfolding spawnExplosion_sf_def using spawnExplosionLoop_sf_keeps by simp
  from allocateParticle_sf_bound [OF assms] have k: "k < length (particles_sf g)" by simp
  from spawnEmitters_sf_keeps [of "emitters_sf (snd ?e)" "fst ?e" "snd ?e"] a l k v
  show ?thesis
    unfolding spawnPhase_sf_click by (simp add: keeps_active_sf_def)
qed

lemma rand_zero:
  "rand_Float64 (rngZero\<lparr>cursor := c\<rparr>) = (0, rngZero\<lparr>cursor := Suc c\<rparr>)"
  "rand_Intn n (rngZero\<lparr>cursor := c\<rparr>) = (0, rngZero\<lparr>cursor := Suc c\<rparr>)"
  "rand_Float64 rngZero = (0, rngZero\<lparr>cursor := Suc 0\<rparr>)"
  by (simp_all add: rand_Float64_def rand_Intn_def rngZero_def)

lemma blastParticle_zero:
  "blastParticle_sf 320 240 rngZero =
     zeroParticle_sf\<lparr>active_sf := True, pType_sf := TypeFire, x_sf := 318, y_sf := 238,
       angle_sf := 0, angularVelocity_sf := - 0.05, maxLife_sf := 45,
       vx_sf := 3, vy_sf := 0, col_sf := \<lparr>R = 255, G = 144, B = 0, A = 255\<rparr>,
       baseScale_sf := 0.15\<rparr>"
  by (simp add: blastParticle_sf_def newParticle_sf_def rand_zero Let_def zeroParticle_sf_def)

lemma clicked_sf_first:
  "0 < length (particles_sf clicked_sf) \<and> active_sf (particles_sf clicked_sf ! 0) \<and>
   pType_sf (particles_sf clicked_sf ! 0) = TypeFire"
proof -
  have a: "allocateParticle_sf NewGame_sf = Some 0"
    by (simp add: allocateParticle_sf_def NewGame_sf_def maxParticles_sf_def
        allocateScan_sf_replicate)
  let ?P = "snd (spawnPhase_sf (Some (320, 240)) rngZero NewGame_sf)"
  from spawnPhase_sf_first [OF a, of 320 240 rngZero] have l: "0 < length (particles_sf ?P)"
    by simp
  have v: "particles_sf ?P ! 0 = blastParticle_sf 320 240 rngZero"
    using spawnPhase_sf_first_value [OF a, of 320 240 rngZero] by simp
  have p: "particles_sf clicked_sf = map tick_sf (particles_sf ?P)"
    by (simp add: clicked_sf_def Update_sf_def split_beta)
  have w: "wrap64 1 = 1" by (simp add: wrap64_def)
  have t: "active_sf (tick_sf (blastParticle_sf 320 240 rngZero)) \<and>
      pType_sf (tick_sf (blastParticle_sf 320 240 rngZero)) = TypeFire"
    by (simp add: blastParticle_zero tick_sf_def update_sf_def zeroParticle_sf_def Let_def w
        outOfBounds_sf_def screenWidth_sf_def screenHeight_sf_def)
  from l v t show ?thesis unfolding p by simp
qed

lemma batchIndices_first: "0 < n \<Longrightarrow> take 6 (map unat (batchIndices 0 n)) = [0, 1, 2, 1, 3, 2]"
  by (cases n) (simp_all add: quadIndices_def)

text \<open>
  The smoke and fire game after one click: the fire batch is not empty and starts with
  the indices 0, 1, 2, 1, 3, 2.
\<close>

theorem index_no_overflow_witness:
  "reachable_sf clicked_sf \<and> reachable_smoke Game0_smoke \<and>
   reachable_show (fst (NewGame_show rngZero)) \<and>
   take 6 (map unat (fireIndices_sf (Draw_sf 32 32 clicked_sf))) = [0, 1, 2, 1, 3, 2] \<and>
   map unat (fireIndices_sf (Draw_sf 32 32 clicked_sf)) =
     map intendedVertex [0..<length (fireIndices_sf (Draw_sf 32 32 clicked_sf))] \<and>
   length (fireVertices_sf (Draw_sf 32 32 clicked_sf)) \<le> 40000 \<and>
   length (vertices_smoke (Draw_smoke 32 32 Game0_smoke)) \<le> 32000 \<and>
   length (vertices_show (snd (Draw_show 36 36 rngZero (fst (NewGame_show rngZero))))) \<le> 56000"
proof -
  have r1: "reachable_sf clicked_sf"
    unfolding clicked_sf_def by (intro reachable_Update_sf reachable_NewGame_sf)
  have r2: "reachable_smoke Game0_smoke" by (rule reachable_Game0_smoke)
  have r3: "reachable_show (fst (NewGame_show rngZero))" by (rule reachable_NewGame_show)
  from r1 have lg: "length (particles_sf clicked_sf) \<le> maxParticles_sf"
    using reachable_sf_poolInv by (simp add: poolInv_sf_def)
  from clicked_sf_first have "particles_sf clicked_sf ! 0 \<in> set (fires_sf (particles_sf clicked_sf))"
    by (simp add: fires_sf_def)
  then have n: "0 < length (fires_sf (particles_sf clicked_sf))"
    by (cases "fires_sf (particles_sf clicked_sf)") simp_all
  have f: "take 6 (map unat (fireIndices_sf (Draw_sf 32 32 clicked_sf))) = [0, 1, 2, 1, 3, 2]"
    unfolding Draw_sf_batches [OF lg] using batchIndices_first [OF n] by simp
  note t = index_no_overflow [OF r1 r2 r3, where tw = 32 and th = 32 and r = rngZero]
  have 1: "map unat (fireIndices_sf (Draw_sf 32 32 clicked_sf)) =
     map intendedVertex [0..<length (fireIndices_sf (Draw_sf 32 32 clicked_sf))]"
    using t by (elim conjE)
  have 2: "length (fireVertices_sf (Draw_sf 32 32 clicked_sf)) \<le> 4 * maxParticles_sf"
    using t by (elim conjE)
  have 3: "length (vertices_smoke (Draw_smoke 32 32 Game0_smoke)) \<le> 4 * maxParticles_smoke"
    using t by (elim conjE)
  note u = index_no_overflow [OF r1 r2 r3, where tw = 36 and th = 36 and r = rngZero]
  have 4: "length (vertices_show (snd (Draw_show 36 36 rngZero (fst (NewGame_show rngZero)))))
      \<le> maxVertices_show"
    using u by (elim conjE)
  have 5: "maxVertices_show = 56000"
    using u by (elim conjE)
  from r1 r2 r3 f 1 2 3 4 show ?thesis
    unfolding 5 by (simp add: maxParticles_sf_def maxParticles_smoke_def)
qed

end
